theory Spec2Isabelle
  imports Main
begin

unbundle bit_operations_syntax

section \<open>MOSe: a 6502 processor core (release 010426.330, class \<open>mose\<close>)\<close>

text \<open>
  The processor is one JavaScript object. Its numeric fields are JavaScript numbers, so
  they are modelled as \<^typ>\<open>int\<close> and every mask of the source (\<open>& 0xFF\<close>,
  \<open>& 0xFFFF\<close>) is written out; a field is only as narrow as the masks of the code make
  it. JavaScript's bitwise operators work on 32-bit two's complement integers; every
  value they meet here is far below \<open>2^31\<close> in size, where they agree with the bit
  operations of \<^typ>\<open>int\<close> (\<open>&\<close> is \<open>AND\<close>, \<open>|\<close> is \<open>OR\<close>, \<open>^\<close> is \<open>XOR\<close>,
  \<open>~\<close> is \<open>NOT\<close>, \<open><<\<close> is \<^const>\<open>push_bit\<close>, \<open>>>\<close> and \<open>>>>\<close> are
  \<^const>\<open>drop_bit\<close>).

  \<open>ram\<close> is a \<open>Uint8Array\<close>: \<open>ramLength\<close> cells, indexed from 0, given by the
  function \<open>ram\<close> on the indices below \<open>ramLength\<close>. \<open>breakFlag\<close>, \<open>nmiPending\<close> and
  \<open>nmiEdge\<close> are the fields \<open>_breakFlag\<close>, \<open>_nmiPending\<close> and \<open>_nmiEdge\<close>.
\<close>

record cpu =
  ram :: "int \<Rightarrow> int"
  ramLength :: int
  ramSize :: int
  A :: int
  X :: int
  Y :: int
  PC :: int
  S :: int
  C :: int
  Z :: int
  I :: int
  D :: int
  B :: int
  V :: int
  N :: int
  opcode :: int
  cycles :: int
  totalCycles :: int
  emulateIndirectJMPBug :: bool
  breakFlag :: bool
  nmiPending :: bool
  nmiEdge :: bool

subsection \<open>Constructor\<close>

definition ramSizeMap :: "int \<Rightarrow> int option" where
  "ramSizeMap k =
     (if k = 4 then Some 0x1000
      else if k = 8 then Some 0x2000
      else if k = 16 then Some 0x4000
      else if k = 32 then Some 0x8000
      else if k = 48 then Some 0xC000
      else if k = 64 then Some 0x10000
      else None)"

text \<open>\<open>new mose(ramSizeKB)\<close>: a zeroed array of \<open>ramSizeMap[ramSizeKB] || 0x10000\<close> bytes.\<close>

definition mose :: "int \<Rightarrow> cpu" where
  "mose ramSizeKB =
     \<lparr> ram = (\<lambda>_. 0),
       ramLength = (case ramSizeMap ramSizeKB of Some n \<Rightarrow> n | None \<Rightarrow> 0x10000),
       ramSize = ramSizeKB,
       A = 0, X = 0, Y = 0, PC = 0, S = 0xFF,
       C = 0, Z = 0, I = 0, D = 0, B = 0, V = 0, N = 0,
       opcode = 0, cycles = 0, totalCycles = 0,
       emulateIndirectJMPBug = True,
       breakFlag = False, nmiPending = False, nmiEdge = False \<rparr>"

subsection \<open>Memory access\<close>

definition read :: "cpu \<Rightarrow> int \<Rightarrow> int" where
  "read s addr =
     (let a = addr AND 0xFFFF
      in if a < ramLength s then ram s a AND 0xFF else 0xFF)"

definition write_m :: "int \<Rightarrow> int \<Rightarrow> cpu \<Rightarrow> cpu" where
  "write_m addr val s =
     (let a = addr AND 0xFFFF; v = val AND 0xFF
      in if a < ramLength s then s\<lparr>ram := (ram s)(a := v)\<rparr> else s)"

subsection \<open>Stack operations\<close>

definition push :: "int \<Rightarrow> cpu \<Rightarrow> cpu" where
  "push v s =
     (let s1 = write_m (0x100 + (S s AND 0xFF)) (v AND 0xFF) s
      in s1\<lparr>S := (S s1 - 1) AND 0xFF\<rparr>)"

definition pop :: "cpu \<Rightarrow> int \<times> cpu" where
  "pop s =
     (let s1 = s\<lparr>S := (S s + 1) AND 0xFF\<rparr>
      in (read s1 (0x100 + (S s1 AND 0xFF)), s1))"

subsection \<open>Status register\<close>

definition setZN :: "int \<Rightarrow> cpu \<Rightarrow> cpu" where
  "setZN v0 s =
     (let v = v0 AND 0xFF
      in s\<lparr>Z := (if v = 0 then 1 else 0),
            N := (if v AND 0x80 \<noteq> 0 then 1 else 0)\<rparr>)"

definition getStatus :: "cpu \<Rightarrow> int" where
  "getStatus s =
     push_bit 7 (N s) OR push_bit 6 (V s) OR push_bit 5 1 OR push_bit 4 (B s) OR
     push_bit 3 (D s) OR push_bit 2 (I s) OR push_bit 1 (Z s) OR C s"

definition setStatus :: "int \<Rightarrow> cpu \<Rightarrow> cpu" where
  "setStatus v s =
     s\<lparr>N := drop_bit 7 v AND 1,
       V := drop_bit 6 v AND 1,
       B := drop_bit 4 v AND 1,
       D := drop_bit 3 v AND 1,
       I := drop_bit 2 v AND 1,
       Z := drop_bit 1 v AND 1,
       C := v AND 1\<rparr>"

subsection \<open>Page cross detection\<close>

definition checkPageCross :: "int \<Rightarrow> int \<Rightarrow> bool" where
  "checkPageCross a b \<longleftrightarrow> a AND 0xFF00 \<noteq> b AND 0xFF00"

subsection \<open>NMI control\<close>

definition triggerNMI :: "cpu \<Rightarrow> cpu" where
  "triggerNMI s = s\<lparr>nmiEdge := True\<rparr>"

definition triggerBreak :: "cpu \<Rightarrow> cpu" where
  "triggerBreak s = s\<lparr>breakFlag := True\<rparr>"

text \<open>\<open>handleNMI\<close> returns whether it serviced a request, and the new state.\<close>

definition handleNMI :: "cpu \<Rightarrow> bool \<times> cpu" where
  "handleNMI s =
     (if nmiEdge s then
        let s1 = s\<lparr>nmiEdge := False, nmiPending := False\<rparr>;
            s2 = push (drop_bit 8 (PC s1) AND 0xFF) s1;
            s3 = push (PC s2 AND 0xFF) s2;
            s4 = push (getStatus s3 AND NOT 0x10) s3;
            s5 = s4\<lparr>I := 1\<rparr>;
            lo = read s5 0xFFFA;
            hi = read s5 0xFFFB;
            s6 = s5\<lparr>PC := (push_bit 8 hi OR lo) AND 0xFFFF\<rparr>;
            s7 = s6\<lparr>cycles := 7\<rparr>
        in (True, s7\<lparr>totalCycles := totalCycles s7 + 7\<rparr>)
      else (False, s))"

subsection \<open>Addressing modes\<close>

text \<open>
  Every resolver returns the object \<open>{ address, value, pageCrossed, isWrite }\<close> and the
  state with \<open>PC\<close> moved past the operand bytes (\<open>this.PC++\<close>, not masked).
\<close>

record operand =
  address :: int
  opvalue :: int
  pageCrossed :: bool
  isWrite :: bool

definition imm :: "cpu \<Rightarrow> operand \<times> cpu" where
  "imm s =
     (let addr = PC s; s1 = s\<lparr>PC := PC s + 1\<rparr>
      in (\<lparr>address = addr, opvalue = read s1 addr, pageCrossed = False, isWrite = False\<rparr>, s1))"

definition zp :: "cpu \<Rightarrow> operand \<times> cpu" where
  "zp s =
     (let zpAddr = read s (PC s); s1 = s\<lparr>PC := PC s + 1\<rparr>
      in (\<lparr>address = zpAddr, opvalue = read s1 zpAddr, pageCrossed = False, isWrite = False\<rparr>, s1))"

definition zpx :: "cpu \<Rightarrow> operand \<times> cpu" where
  "zpx s =
     (let zpAddr = (read s (PC s) + X s) AND 0xFF; s1 = s\<lparr>PC := PC s + 1\<rparr>
      in (\<lparr>address = zpAddr, opvalue = read s1 zpAddr, pageCrossed = False, isWrite = False\<rparr>, s1))"

definition zpy :: "cpu \<Rightarrow> operand \<times> cpu" where
  "zpy s =
     (let zpAddr = (read s (PC s) + Y s) AND 0xFF; s1 = s\<lparr>PC := PC s + 1\<rparr>
      in (\<lparr>address = zpAddr, opvalue = read s1 zpAddr, pageCrossed = False, isWrite = False\<rparr>, s1))"

definition abs_m :: "cpu \<Rightarrow> operand \<times> cpu" where
  "abs_m s =
     (let lo = read s (PC s); s1 = s\<lparr>PC := PC s + 1\<rparr>;
          hi = read s1 (PC s1); s2 = s1\<lparr>PC := PC s1 + 1\<rparr>;
          addr = (push_bit 8 hi OR lo) AND 0xFFFF
      in (\<lparr>address = addr, opvalue = read s2 addr, pageCrossed = False, isWrite = False\<rparr>, s2))"

definition absx :: "cpu \<Rightarrow> operand \<times> cpu" where
  "absx s =
     (let lo = read s (PC s); s1 = s\<lparr>PC := PC s + 1\<rparr>;
          hi = read s1 (PC s1); s2 = s1\<lparr>PC := PC s1 + 1\<rparr>;
          base = (push_bit 8 hi OR lo) AND 0xFFFF;
          addr = (base + X s2) AND 0xFFFF;
          crossed = checkPageCross base addr
      in (\<lparr>address = addr, opvalue = read s2 addr, pageCrossed = crossed, isWrite = False\<rparr>, s2))"

definition absy :: "cpu \<Rightarrow> operand \<times> cpu" where
  "absy s =
     (let lo = read s (PC s); s1 = s\<lparr>PC := PC s + 1\<rparr>;
          hi = read s1 (PC s1); s2 = s1\<lparr>PC := PC s1 + 1\<rparr>;
          base = (push_bit 8 hi OR lo) AND 0xFFFF;
          addr = (base + Y s2) AND 0xFFFF;
          crossed = checkPageCross base addr
      in (\<lparr>address = addr, opvalue = read s2 addr, pageCrossed = crossed, isWrite = False\<rparr>, s2))"

definition ind :: "cpu \<Rightarrow> operand \<times> cpu" where
  "ind s =
     (let lo = read s (PC s); s1 = s\<lparr>PC := PC s + 1\<rparr>;
          hi = read s1 (PC s1); s2 = s1\<lparr>PC := PC s1 + 1\<rparr>;
          ptr = (push_bit 8 hi OR lo) AND 0xFFFF;
          low = read s2 ptr;
          high = (if emulateIndirectJMPBug s2 \<and> ptr AND 0xFF = 0xFF
                  then read s2 (ptr AND 0xFF00)
                  else read s2 ((ptr + 1) AND 0xFFFF));
          addr = (push_bit 8 high OR low) AND 0xFFFF
      in (\<lparr>address = addr, opvalue = 0, pageCrossed = False, isWrite = False\<rparr>, s2))"

definition indx :: "cpu \<Rightarrow> operand \<times> cpu" where
  "indx s =
     (let z = (read s (PC s) + X s) AND 0xFF; s1 = s\<lparr>PC := PC s + 1\<rparr>;
          lo = read s1 (z AND 0xFF);
          hi = read s1 ((z + 1) AND 0xFF);
          addr = (push_bit 8 hi OR lo) AND 0xFFFF
      in (\<lparr>address = addr, opvalue = read s1 addr, pageCrossed = False, isWrite = False\<rparr>, s1))"

definition indy :: "cpu \<Rightarrow> operand \<times> cpu" where
  "indy s =
     (let z = read s (PC s) AND 0xFF; s1 = s\<lparr>PC := PC s + 1\<rparr>;
          lo = read s1 z;
          hi = read s1 ((z + 1) AND 0xFF);
          base = (push_bit 8 hi OR lo) AND 0xFFFF;
          addr = (base + Y s1) AND 0xFFFF;
          crossed = checkPageCross base addr
      in (\<lparr>address = addr, opvalue = read s1 addr, pageCrossed = crossed, isWrite = False\<rparr>, s1))"

definition rel :: "cpu \<Rightarrow> operand \<times> cpu" where
  "rel s =
     (let off = read s (PC s); s1 = s\<lparr>PC := PC s + 1\<rparr>;
          target = (if off AND 0x80 \<noteq> 0 then (PC s1 + off - 0x100) AND 0xFFFF
                    else (PC s1 + off) AND 0xFFFF)
      in (\<lparr>address = target, opvalue = 0, pageCrossed = False, isWrite = False\<rparr>, s1))"

subsection \<open>Load, store, transfer, stack\<close>

definition LDA :: "int \<Rightarrow> cpu \<Rightarrow> cpu" where
  "LDA v s = (let s1 = s\<lparr>A := v AND 0xFF\<rparr> in setZN (A s1) s1)"

definition STA :: "int \<Rightarrow> cpu \<Rightarrow> cpu" where
  "STA a s = write_m a (A s) s"

definition LDX :: "int \<Rightarrow> cpu \<Rightarrow> cpu" where
  "LDX v s = (let s1 = s\<lparr>X := v AND 0xFF\<rparr> in setZN (X s1) s1)"

definition STX :: "int \<Rightarrow> cpu \<Rightarrow> cpu" where
  "STX a s = write_m a (X s) s"

definition LDY :: "int \<Rightarrow> cpu \<Rightarrow> cpu" where
  "LDY v s = (let s1 = s\<lparr>Y := v AND 0xFF\<rparr> in setZN (Y s1) s1)"

definition STY :: "int \<Rightarrow> cpu \<Rightarrow> cpu" where
  "STY a s = write_m a (Y s) s"

definition TAX :: "cpu \<Rightarrow> cpu" where
  "TAX s = (let s1 = s\<lparr>X := A s AND 0xFF\<rparr> in setZN (X s1) s1)"

definition TXA :: "cpu \<Rightarrow> cpu" where
  "TXA s = (let s1 = s\<lparr>A := X s AND 0xFF\<rparr> in setZN (A s1) s1)"

definition TAY :: "cpu \<Rightarrow> cpu" where
  "TAY s = (let s1 = s\<lparr>Y := A s AND 0xFF\<rparr> in setZN (Y s1) s1)"

definition TYA :: "cpu \<Rightarrow> cpu" where
  "TYA s = (let s1 = s\<lparr>A := Y s AND 0xFF\<rparr> in setZN (A s1) s1)"

definition TSX :: "cpu \<Rightarrow> cpu" where
  "TSX s = (let s1 = s\<lparr>X := S s AND 0xFF\<rparr> in setZN (X s1) s1)"

definition TXS :: "cpu \<Rightarrow> cpu" where
  "TXS s = s\<lparr>S := X s AND 0xFF\<rparr>"

definition PHA :: "cpu \<Rightarrow> cpu" where
  "PHA s = push (A s) s"

definition PLA :: "cpu \<Rightarrow> cpu" where
  "PLA s = (case pop s of (v, s1) \<Rightarrow> let s2 = s1\<lparr>A := v\<rparr> in setZN (A s2) s2)"

definition PHP :: "cpu \<Rightarrow> cpu" where
  "PHP s = push (getStatus s OR 0x10) s"

definition PLP :: "cpu \<Rightarrow> cpu" where
  "PLP s = (case pop s of (v, s1) \<Rightarrow> setStatus v s1)"

subsection \<open>Increment, decrement, flags\<close>

definition INX :: "cpu \<Rightarrow> cpu" where
  "INX s = (let s1 = s\<lparr>X := (X s + 1) AND 0xFF\<rparr> in setZN (X s1) s1)"

definition DEX :: "cpu \<Rightarrow> cpu" where
  "DEX s = (let s1 = s\<lparr>X := (X s - 1) AND 0xFF\<rparr> in setZN (X s1) s1)"

definition INY :: "cpu \<Rightarrow> cpu" where
  "INY s = (let s1 = s\<lparr>Y := (Y s + 1) AND 0xFF\<rparr> in setZN (Y s1) s1)"

definition DEY :: "cpu \<Rightarrow> cpu" where
  "DEY s = (let s1 = s\<lparr>Y := (Y s - 1) AND 0xFF\<rparr> in setZN (Y s1) s1)"

definition INC :: "int \<Rightarrow> cpu \<Rightarrow> cpu" where
  "INC a s = (let v = (read s a + 1) AND 0xFF; s1 = write_m a v s in setZN v s1)"

definition DEC :: "int \<Rightarrow> cpu \<Rightarrow> cpu" where
  "DEC a s = (let v = (read s a - 1) AND 0xFF; s1 = write_m a v s in setZN v s1)"

definition CLC :: "cpu \<Rightarrow> cpu" where "CLC s = s\<lparr>C := 0\<rparr>"
definition SEC :: "cpu \<Rightarrow> cpu" where "SEC s = s\<lparr>C := 1\<rparr>"
definition CLI :: "cpu \<Rightarrow> cpu" where "CLI s = s\<lparr>I := 0\<rparr>"
definition SEI :: "cpu \<Rightarrow> cpu" where "SEI s = s\<lparr>I := 1\<rparr>"
definition CLV :: "cpu \<Rightarrow> cpu" where "CLV s = s\<lparr>V := 0\<rparr>"
definition CLD :: "cpu \<Rightarrow> cpu" where "CLD s = s\<lparr>D := 0\<rparr>"
definition SED :: "cpu \<Rightarrow> cpu" where "SED s = s\<lparr>D := 1\<rparr>"

definition NOP :: "cpu \<Rightarrow> cpu" where "NOP s = s"

subsection \<open>Jumps, subroutines, interrupts\<close>

definition JMP :: "int \<Rightarrow> cpu \<Rightarrow> cpu" where
  "JMP a s = s\<lparr>PC := a AND 0xFFFF\<rparr>"

definition JSR :: "int \<Rightarrow> cpu \<Rightarrow> cpu" where
  "JSR a s =
     (let ret = (PC s - 1) AND 0xFFFF;
          s1 = push (drop_bit 8 ret AND 0xFF) s;
          s2 = push (ret AND 0xFF) s1
      in s2\<lparr>PC := a AND 0xFFFF\<rparr>)"

definition RTS :: "cpu \<Rightarrow> cpu" where
  "RTS s =
     (case pop s of (lo, s1) \<Rightarrow>
      case pop s1 of (hi, s2) \<Rightarrow>
        s2\<lparr>PC := ((push_bit 8 hi OR lo) + 1) AND 0xFFFF\<rparr>)"

definition BRK :: "cpu \<Rightarrow> cpu" where
  "BRK s =
     (let s1 = s\<lparr>B := 1\<rparr>;
          s2 = s1\<lparr>PC := (PC s1 + 1) AND 0xFFFF\<rparr>;
          s3 = push (drop_bit 8 (PC s2) AND 0xFF) s2;
          s4 = push (PC s3 AND 0xFF) s3;
          s5 = push (getStatus s4 OR 0x10) s4;
          s6 = s5\<lparr>I := 1\<rparr>;
          lo = read s6 0xFFFE;
          hi = read s6 0xFFFF
      in s6\<lparr>PC := (push_bit 8 hi OR lo) AND 0xFFFF\<rparr>)"

definition RTI :: "cpu \<Rightarrow> cpu" where
  "RTI s =
     (case pop s of (p, s0) \<Rightarrow>
      let s1 = setStatus p s0 in
      case pop s1 of (lo, s2) \<Rightarrow>
      case pop s2 of (hi, s3) \<Rightarrow>
        s3\<lparr>PC := (push_bit 8 hi OR lo) AND 0xFFFF\<rparr>)"

subsection \<open>Branches\<close>

text \<open>
  The eight branch methods have the same body under their own condition: one more
  cycle, a second one when \<open>PC\<close> and the target lie in different pages, then
  \<open>this.PC = target\<close>. \<open>branchTaken\<close> is that body.
\<close>

definition branchTaken :: "int \<Rightarrow> cpu \<Rightarrow> cpu" where
  "branchTaken target s =
     (let crossed = checkPageCross (PC s) target;
          s1 = s\<lparr>cycles := cycles s + 1\<rparr>;
          s2 = (if crossed then s1\<lparr>cycles := cycles s1 + 1\<rparr> else s1)
      in s2\<lparr>PC := target\<rparr>)"

definition BCC :: "int \<Rightarrow> cpu \<Rightarrow> cpu" where
  "BCC target s = (if C s = 0 then branchTaken target s else s)"

definition BCS :: "int \<Rightarrow> cpu \<Rightarrow> cpu" where
  "BCS target s = (if C s = 1 then branchTaken target s else s)"

definition BEQ :: "int \<Rightarrow> cpu \<Rightarrow> cpu" where
  "BEQ target s = (if Z s = 1 then branchTaken target s else s)"

definition BNE :: "int \<Rightarrow> cpu \<Rightarrow> cpu" where
  "BNE target s = (if Z s = 0 then branchTaken target s else s)"

definition BPL :: "int \<Rightarrow> cpu \<Rightarrow> cpu" where
  "BPL target s = (if N s = 0 then branchTaken target s else s)"

definition BMI :: "int \<Rightarrow> cpu \<Rightarrow> cpu" where
  "BMI target s = (if N s = 1 then branchTaken target s else s)"

definition BVC :: "int \<Rightarrow> cpu \<Rightarrow> cpu" where
  "BVC target s = (if V s = 0 then branchTaken target s else s)"

definition BVS :: "int \<Rightarrow> cpu \<Rightarrow> cpu" where
  "BVS target s = (if V s = 1 then branchTaken target s else s)"

subsection \<open>Arithmetic, with decimal mode\<close>

definition ADC :: "int \<Rightarrow> cpu \<Rightarrow> cpu" where
  "ADC v0 s =
     (let v = v0 AND 0xFF in
      if D s = 0 then
        let sum = A s + v + (if C s \<noteq> 0 then 1 else 0);
            s1 = s\<lparr>C := (if sum > 0xFF then 1 else 0)\<rparr>;
            s2 = s1\<lparr>V := (if (NOT (A s1 XOR v) AND (A s1 XOR sum)) AND 0x80 \<noteq> 0
                           then 1 else 0)\<rparr>;
            s3 = s2\<lparr>A := sum AND 0xFF\<rparr>
        in setZN (A s3) s3
      else
        let al0 = (A s AND 0x0F) + (v AND 0x0F) + (if C s \<noteq> 0 then 1 else 0);
            ah0 = drop_bit 4 (A s) + drop_bit 4 v;
            al = (if al0 > 9 then al0 + 6 else al0);
            ah1 = (if al0 > 9 then ah0 + 1 else ah0);
            binaryResult = A s + v + (if C s \<noteq> 0 then 1 else 0);
            s1 = setZN (binaryResult AND 0xFF) s;
            s2 = s1\<lparr>V := (if (NOT (A s1 XOR v) AND (A s1 XOR binaryResult)) AND 0x80 \<noteq> 0
                           then 1 else 0)\<rparr>;
            ah = (if ah1 > 9 then ah1 + 6 else ah1);
            s3 = s2\<lparr>C := (if ah > 15 then 1 else 0)\<rparr>
        in s3\<lparr>A := (push_bit 4 ah OR (al AND 0x0F)) AND 0xFF\<rparr>)"

definition SBC :: "int \<Rightarrow> cpu \<Rightarrow> cpu" where
  "SBC v0 s =
     (let v = v0 AND 0xFF in
      if D s = 0 then
        let inv = (v XOR 0xFF) AND 0xFF in ADC inv s
      else
        let al0 = (A s AND 0x0F) - (v AND 0x0F) - (if C s \<noteq> 0 then 0 else 1);
            ah0 = drop_bit 4 (A s) - drop_bit 4 v;
            al = (if al0 < 0 then al0 - 6 else al0);
            ah1 = (if al0 < 0 then ah0 - 1 else ah0);
            binaryResult = A s - v - (if C s \<noteq> 0 then 0 else 1);
            s1 = setZN (binaryResult AND 0xFF) s;
            s2 = s1\<lparr>V := (if ((A s1 XOR v) AND (A s1 XOR binaryResult)) AND 0x80 \<noteq> 0
                           then 1 else 0)\<rparr>;
            ah = (if ah1 < 0 then ah1 - 6 else ah1);
            s3 = s2\<lparr>C := (if ah \<ge> 0 then 1 else 0)\<rparr>
        in s3\<lparr>A := (push_bit 4 ah OR (al AND 0x0F)) AND 0xFF\<rparr>)"

subsection \<open>Logic and compare\<close>

definition AND_m :: "int \<Rightarrow> cpu \<Rightarrow> cpu" where
  "AND_m v s = (let s1 = s\<lparr>A := A s AND (v AND 0xFF)\<rparr> in setZN (A s1) s1)"

definition ORA :: "int \<Rightarrow> cpu \<Rightarrow> cpu" where
  "ORA v s = (let s1 = s\<lparr>A := A s OR (v AND 0xFF)\<rparr> in setZN (A s1) s1)"

definition EOR :: "int \<Rightarrow> cpu \<Rightarrow> cpu" where
  "EOR v s = (let s1 = s\<lparr>A := A s XOR (v AND 0xFF)\<rparr> in setZN (A s1) s1)"

definition CMP :: "int \<Rightarrow> cpu \<Rightarrow> cpu" where
  "CMP v s =
     (let r = (A s - (v AND 0xFF)) AND 0x1FF;
          s1 = s\<lparr>C := (if r < 0x100 then 1 else 0)\<rparr>
      in setZN (r AND 0xFF) s1)"

definition CPX :: "int \<Rightarrow> cpu \<Rightarrow> cpu" where
  "CPX v s =
     (let r = (X s - (v AND 0xFF)) AND 0x1FF;
          s1 = s\<lparr>C := (if r < 0x100 then 1 else 0)\<rparr>
      in setZN (r AND 0xFF) s1)"

definition CPY :: "int \<Rightarrow> cpu \<Rightarrow> cpu" where
  "CPY v s =
     (let r = (Y s - (v AND 0xFF)) AND 0x1FF;
          s1 = s\<lparr>C := (if r < 0x100 then 1 else 0)\<rparr>
      in setZN (r AND 0xFF) s1)"

definition BIT :: "int \<Rightarrow> cpu \<Rightarrow> cpu" where
  "BIT v0 s =
     (let v = v0 AND 0xFF
      in s\<lparr>Z := (if A s AND v \<noteq> 0 then 0 else 1),
            N := (if v AND 0x80 \<noteq> 0 then 1 else 0),
            V := (if v AND 0x40 \<noteq> 0 then 1 else 0)\<rparr>)"

subsection \<open>Shifts and rotates\<close>

definition ASL_A :: "cpu \<Rightarrow> cpu" where
  "ASL_A s =
     (let s1 = s\<lparr>C := drop_bit 7 (A s) AND 1\<rparr>;
          s2 = s1\<lparr>A := push_bit 1 (A s1) AND 0xFF\<rparr>
      in setZN (A s2) s2)"

definition ASL :: "int \<Rightarrow> cpu \<Rightarrow> cpu" where
  "ASL a s =
     (let v = read s a;
          s1 = s\<lparr>C := drop_bit 7 v AND 1\<rparr>;
          v' = push_bit 1 v AND 0xFF;
          s2 = write_m a v' s1
      in setZN v' s2)"

definition LSR_A :: "cpu \<Rightarrow> cpu" where
  "LSR_A s =
     (let s1 = s\<lparr>C := A s AND 1\<rparr>;
          s2 = s1\<lparr>A := drop_bit 1 (A s1) AND 0xFF\<rparr>
      in setZN (A s2) s2)"

definition LSR :: "int \<Rightarrow> cpu \<Rightarrow> cpu" where
  "LSR a s =
     (let v = read s a;
          s1 = s\<lparr>C := v AND 1\<rparr>;
          v' = drop_bit 1 v AND 0xFF;
          s2 = write_m a v' s1
      in setZN v' s2)"

definition ROL_A :: "cpu \<Rightarrow> cpu" where
  "ROL_A s =
     (let oldC = C s;
          s1 = s\<lparr>C := drop_bit 7 (A s) AND 1\<rparr>;
          s2 = s1\<lparr>A := (push_bit 1 (A s1) OR oldC) AND 0xFF\<rparr>
      in setZN (A s2) s2)"

definition ROL :: "int \<Rightarrow> cpu \<Rightarrow> cpu" where
  "ROL a s =
     (let v = read s a;
          oldC = C s;
          s1 = s\<lparr>C := drop_bit 7 v AND 1\<rparr>;
          v' = (push_bit 1 v OR oldC) AND 0xFF;
          s2 = write_m a v' s1
      in setZN v' s2)"

definition ROR_A :: "cpu \<Rightarrow> cpu" where
  "ROR_A s =
     (let oldC = C s;
          s1 = s\<lparr>C := A s AND 1\<rparr>;
          s2 = s1\<lparr>A := (drop_bit 1 (A s1) OR push_bit 7 oldC) AND 0xFF\<rparr>
      in setZN (A s2) s2)"

definition ROR :: "int \<Rightarrow> cpu \<Rightarrow> cpu" where
  "ROR a s =
     (let v = read s a;
          oldC = C s;
          s1 = s\<lparr>C := v AND 1\<rparr>;
          v' = (drop_bit 1 v OR push_bit 7 oldC) AND 0xFF;
          s2 = write_m a v' s1
      in setZN v' s2)"

subsection \<open>Undocumented instructions\<close>

definition LAX :: "int \<Rightarrow> cpu \<Rightarrow> cpu" where
  "LAX v s = (let s1 = s\<lparr>X := v AND 0xFF, A := v AND 0xFF\<rparr> in setZN (A s1) s1)"

definition SAX :: "int \<Rightarrow> cpu \<Rightarrow> cpu" where
  "SAX a s = write_m a (A s AND X s) s"

definition DCP :: "int \<Rightarrow> cpu \<Rightarrow> cpu" where
  "DCP a s = (let s1 = DEC a s in CMP (read s1 a) s1)"

definition ISC :: "int \<Rightarrow> cpu \<Rightarrow> cpu" where
  "ISC a s = (let s1 = INC a s in SBC (read s1 a) s1)"

definition SLO :: "int \<Rightarrow> cpu \<Rightarrow> cpu" where
  "SLO a s = (let s1 = ASL a s in ORA (read s1 a) s1)"

definition RLA :: "int \<Rightarrow> cpu \<Rightarrow> cpu" where
  "RLA a s = (let s1 = ROL a s in AND_m (read s1 a) s1)"

definition SRE :: "int \<Rightarrow> cpu \<Rightarrow> cpu" where
  "SRE a s = (let s1 = LSR a s in EOR (read s1 a) s1)"

definition RRA :: "int \<Rightarrow> cpu \<Rightarrow> cpu" where
  "RRA a s = (let s1 = ROR a s in ADC (read s1 a) s1)"

definition ANC :: "int \<Rightarrow> cpu \<Rightarrow> cpu" where
  "ANC v s = (let s1 = AND_m v s in s1\<lparr>C := N s1\<rparr>)"

definition ALR :: "int \<Rightarrow> cpu \<Rightarrow> cpu" where
  "ALR v s = LSR_A (AND_m v s)"

definition ARR :: "int \<Rightarrow> cpu \<Rightarrow> cpu" where
  "ARR v s =
     (let s1 = ROR_A (AND_m v s);
          s2 = s1\<lparr>C := drop_bit 6 (A s1) AND 1\<rparr>
      in s2\<lparr>V := (drop_bit 6 (A s2) XOR drop_bit 5 (A s2)) AND 1\<rparr>)"

definition XAA :: "int \<Rightarrow> cpu \<Rightarrow> cpu" where
  "XAA v s = (let s1 = s\<lparr>A := X s AND (v AND 0xFF)\<rparr> in setZN (A s1) s1)"

definition AXS :: "int \<Rightarrow> cpu \<Rightarrow> cpu" where
  "AXS v s =
     (let temp = (A s AND X s) AND 0xFF;
          result = temp - (v AND 0xFF);
          s1 = s\<lparr>X := result AND 0xFF\<rparr>;
          s2 = s1\<lparr>C := (if result \<ge> 0 then 1 else 0)\<rparr>
      in setZN (X s2) s2)"

definition SHY :: "int \<Rightarrow> cpu \<Rightarrow> cpu" where
  "SHY a s = (let val = Y s AND ((drop_bit 8 a + 1) AND 0xFF) in write_m a val s)"

definition SHX :: "int \<Rightarrow> cpu \<Rightarrow> cpu" where
  "SHX a s = (let val = X s AND ((drop_bit 8 a + 1) AND 0xFF) in write_m a val s)"

text \<open>The handler every opcode starts with, and keeps when no operation is assigned.\<close>

definition KIL :: "cpu \<Rightarrow> cpu" where
  "KIL s = s\<lparr>PC := (PC s - 1) AND 0xFFFF\<rparr>"

subsection \<open>Cycle timing table\<close>

definition cycleTable :: "int list" where
  "cycleTable =
     [7,6,2,8,3,3,5,5,3,2,2,2,4,4,6,6,2,5,2,8,4,4,6,6,2,4,2,7,4,4,7,7,
      6,6,2,8,3,3,5,5,4,2,2,2,4,4,6,6,2,5,2,8,4,4,6,6,2,4,2,7,4,4,7,7,
      6,6,2,8,3,3,5,5,3,2,2,2,3,4,6,6,2,5,2,8,4,4,6,6,2,4,2,7,4,4,7,7,
      6,6,2,8,3,3,5,5,4,2,2,2,5,4,6,6,2,5,2,8,4,4,6,6,2,4,2,7,4,4,7,7,
      2,6,2,6,3,3,3,3,2,2,2,2,4,4,4,4,2,6,2,6,4,4,4,4,2,5,2,5,5,5,5,5,
      2,6,2,6,3,3,3,3,2,2,2,2,4,4,4,4,2,5,2,5,4,4,4,4,2,4,2,4,4,4,4,4,
      2,6,2,8,3,3,5,5,2,2,2,2,4,4,6,6,2,5,2,8,4,4,6,6,2,4,2,7,4,4,7,7,
      2,6,2,8,3,3,5,5,2,2,2,2,4,4,6,6,2,5,2,8,4,4,6,6,2,4,2,7,4,4,7,7]"

text \<open>\<open>this.cycleTable[op] || 2\<close>: a missing or zero entry counts 2.\<close>

definition baseCycles :: "int \<Rightarrow> int" where
  "baseCycles op =
     (if 0 \<le> op \<and> op < int (length cycleTable) \<and> cycleTable ! nat op \<noteq> 0
      then cycleTable ! nat op else 2)"

subsection \<open>Instruction map\<close>

text \<open>
  The handlers of \<open>setupInstructions\<close> have six shapes:
  \<^item> \<open>() => this.OP()\<close>: the operation itself;
  \<^item> \<open>{ const m = this.mode(); this.OP(m.value); }\<close>: \<open>withValue mode OP\<close>;
  \<^item> \<open>{ const m = this.mode(); if (m.pageCrossed) this.cycles++; this.OP(m.value); }\<close>:
    \<open>withValuePenalty mode OP\<close>;
  \<^item> \<open>{ const m = this.mode(); this.OP(m.address); }\<close>: \<open>withAddress mode OP\<close>;
  \<^item> \<open>{ this.mode(); this.NOP(); }\<close>: \<open>operandOnly mode NOP\<close>;
  \<^item> \<open>{ const m = this.mode(); if (m.pageCrossed) this.cycles++; this.NOP(); }\<close>:
    \<open>operandPenalty mode NOP\<close>.
\<close>

definition withValue :: "(cpu \<Rightarrow> operand \<times> cpu) \<Rightarrow> (int \<Rightarrow> cpu \<Rightarrow> cpu) \<Rightarrow> cpu \<Rightarrow> cpu" where
  "withValue mode oper s = (case mode s of (m, s1) \<Rightarrow> oper (opvalue m) s1)"

definition withValuePenalty :: "(cpu \<Rightarrow> operand \<times> cpu) \<Rightarrow> (int \<Rightarrow> cpu \<Rightarrow> cpu) \<Rightarrow> cpu \<Rightarrow> cpu" where
  "withValuePenalty mode oper s =
     (case mode s of (m, s1) \<Rightarrow>
        oper (opvalue m) (if pageCrossed m then s1\<lparr>cycles := cycles s1 + 1\<rparr> else s1))"

definition withAddress :: "(cpu \<Rightarrow> operand \<times> cpu) \<Rightarrow> (int \<Rightarrow> cpu \<Rightarrow> cpu) \<Rightarrow> cpu \<Rightarrow> cpu" where
  "withAddress mode oper s = (case mode s of (m, s1) \<Rightarrow> oper (address m) s1)"

definition operandOnly :: "(cpu \<Rightarrow> operand \<times> cpu) \<Rightarrow> (cpu \<Rightarrow> cpu) \<Rightarrow> cpu \<Rightarrow> cpu" where
  "operandOnly mode oper s = (case mode s of (m, s1) \<Rightarrow> oper s1)"

definition operandPenalty :: "(cpu \<Rightarrow> operand \<times> cpu) \<Rightarrow> (cpu \<Rightarrow> cpu) \<Rightarrow> cpu \<Rightarrow> cpu" where
  "operandPenalty mode oper s =
     (case mode s of (m, s1) \<Rightarrow>
        oper (if pageCrossed m then s1\<lparr>cycles := cycles s1 + 1\<rparr> else s1))"

text \<open>The assignments of \<open>setupInstructions\<close>, in the order of the source. No opcode is
  assigned twice.\<close>

definition assigned :: "(int \<times> (cpu \<Rightarrow> cpu)) list" where
  "assigned =
    [
     (0x00, BRK),
     (0xEA, NOP),
     (0xA9, withValue imm LDA),
     (0xA5, withValue zp LDA),
     (0xB5, withValue zpx LDA),
     (0xAD, withValue abs_m LDA),
     (0xBD, withValuePenalty absx LDA),
     (0xB9, withValuePenalty absy LDA),
     (0xA1, withValue indx LDA),
     (0xB1, withValuePenalty indy LDA),
     (0x85, withAddress zp STA),
     (0x95, withAddress zpx STA),
     (0x8D, withAddress abs_m STA),
     (0x9D, withAddress absx STA),
     (0x99, withAddress absy STA),
     (0x81, withAddress indx STA),
     (0x91, withAddress indy STA),
     (0xA2, withValue imm LDX),
     (0xA6, withValue zp LDX),
     (0xB6, withValue zpy LDX),
     (0xAE, withValue abs_m LDX),
     (0xBE, withValuePenalty absy LDX),
     (0xA0, withValue imm LDY),
     (0xA4, withValue zp LDY),
     (0xB4, withValue zpx LDY),
     (0xAC, withValue abs_m LDY),
     (0xBC, withValuePenalty absx LDY),
     (0x86, withAddress zp STX),
     (0x96, withAddress zpy STX),
     (0x8E, withAddress abs_m STX),
     (0x84, withAddress zp STY),
     (0x94, withAddress zpx STY),
     (0x8C, withAddress abs_m STY),
     (0xAA, TAX),
     (0x8A, TXA),
     (0xA8, TAY),
     (0x98, TYA),
     (0xBA, TSX),
     (0x9A, TXS),
     (0x48, PHA),
     (0x68, PLA),
     (0x08, PHP),
     (0x28, PLP),
     (0xE8, INX),
     (0xCA, DEX),
     (0xC8, INY),
     (0x88, DEY),
     (0xE6, withAddress zp INC),
     (0xF6, withAddress zpx INC),
     (0xEE, withAddress abs_m INC),
     (0xFE, withAddress absx INC),
     (0xC6, withAddress zp DEC),
     (0xD6, withAddress zpx DEC),
     (0xCE, withAddress abs_m DEC),
     (0xDE, withAddress absx DEC),
     (0x69, withValue imm ADC),
     (0x65, withValue zp ADC),
     (0x75, withValue zpx ADC),
     (0x6D, withValue abs_m ADC),
     (0x7D, withValuePenalty absx ADC),
     (0x79, withValuePenalty absy ADC),
     (0x61, withValue indx ADC),
     (0x71, withValuePenalty indy ADC),
     (0xE9, withValue imm SBC),
     (0xE5, withValue zp SBC),
     (0xF5, withValue zpx SBC),
     (0xED, withValue abs_m SBC),
     (0xFD, withValuePenalty absx SBC),
     (0xF9, withValuePenalty absy SBC),
     (0xE1, withValue indx SBC),
     (0xF1, withValuePenalty indy SBC),
     (0x29, withValue imm AND_m),
     (0x25, withValue zp AND_m),
     (0x35, withValue zpx AND_m),
     (0x2D, withValue abs_m AND_m),
     (0x3D, withValuePenalty absx AND_m),
     (0x39, withValuePenalty absy AND_m),
     (0x21, withValue indx AND_m),
     (0x31, withValuePenalty indy AND_m),
     (0x09, withValue imm ORA),
     (0x05, withValue zp ORA),
     (0x15, withValue zpx ORA),
     (0x0D, withValue abs_m ORA),
     (0x1D, withValuePenalty absx ORA),
     (0x19, withValuePenalty absy ORA),
     (0x01, withValue indx ORA),
     (0x11, withValuePenalty indy ORA),
     (0x49, withValue imm EOR),
     (0x45, withValue zp EOR),
     (0x55, withValue zpx EOR),
     (0x4D, withValue abs_m EOR),
     (0x5D, withValuePenalty absx EOR),
     (0x59, withValuePenalty absy EOR),
     (0x41, withValue indx EOR),
     (0x51, withValuePenalty indy EOR),
     (0xC9, withValue imm CMP),
     (0xC5, withValue zp CMP),
     (0xD5, withValue zpx CMP),
     (0xCD, withValue abs_m CMP),
     (0xDD, withValuePenalty absx CMP),
     (0xD9, withValuePenalty absy CMP),
     (0xC1, withValue indx CMP),
     (0xD1, withValuePenalty indy CMP),
     (0xE0, withValue imm CPX),
     (0xE4, withValue zp CPX),
     (0xEC, withValue abs_m CPX),
     (0xC0, withValue imm CPY),
     (0xC4, withValue zp CPY),
     (0xCC, withValue abs_m CPY),
     (0x24, withValue zp BIT),
     (0x2C, withValue abs_m BIT),
     (0x0A, ASL_A),
     (0x06, withAddress zp ASL),
     (0x16, withAddress zpx ASL),
     (0x0E, withAddress abs_m ASL),
     (0x1E, withAddress absx ASL),
     (0x4A, LSR_A),
     (0x46, withAddress zp LSR),
     (0x56, withAddress zpx LSR),
     (0x4E, withAddress abs_m LSR),
     (0x5E, withAddress absx LSR),
     (0x2A, ROL_A),
     (0x26, withAddress zp ROL),
     (0x36, withAddress zpx ROL),
     (0x2E, withAddress abs_m ROL),
     (0x3E, withAddress absx ROL),
     (0x6A, ROR_A),
     (0x66, withAddress zp ROR),
     (0x76, withAddress zpx ROR),
     (0x6E, withAddress abs_m ROR),
     (0x7E, withAddress absx ROR),
     (0x90, withAddress rel BCC),
     (0xB0, withAddress rel BCS),
     (0xF0, withAddress rel BEQ),
     (0x30, withAddress rel BMI),
     (0xD0, withAddress rel BNE),
     (0x10, withAddress rel BPL),
     (0x50, withAddress rel BVC),
     (0x70, withAddress rel BVS),
     (0x4C, withAddress abs_m JMP),
     (0x6C, withAddress ind JMP),
     (0x20, withAddress abs_m JSR),
     (0x60, RTS),
     (0x40, RTI),
     (0x18, CLC),
     (0x38, SEC),
     (0x58, CLI),
     (0x78, SEI),
     (0xB8, CLV),
     (0xD8, CLD),
     (0xF8, SED),
     (0xA7, withValue zp LAX),
     (0xB7, withValue zpy LAX),
     (0xAF, withValue abs_m LAX),
     (0xBF, withValuePenalty absy LAX),
     (0xA3, withValue indx LAX),
     (0xB3, withValuePenalty indy LAX),
     (0x87, withAddress zp SAX),
     (0x97, withAddress zpy SAX),
     (0x8F, withAddress abs_m SAX),
     (0x83, withAddress indx SAX),
     (0xC7, withAddress zp DCP),
     (0xD7, withAddress zpx DCP),
     (0xCF, withAddress abs_m DCP),
     (0xDF, withAddress absx DCP),
     (0xDB, withAddress absy DCP),
     (0xC3, withAddress indx DCP),
     (0xD3, withAddress indy DCP),
     (0xE7, withAddress zp ISC),
     (0xF7, withAddress zpx ISC),
     (0xEF, withAddress abs_m ISC),
     (0xFF, withAddress absx ISC),
     (0xFB, withAddress absy ISC),
     (0xE3, withAddress indx ISC),
     (0xF3, withAddress indy ISC),
     (0x07, withAddress zp SLO),
     (0x17, withAddress zpx SLO),
     (0x0F, withAddress abs_m SLO),
     (0x1F, withAddress absx SLO),
     (0x1B, withAddress absy SLO),
     (0x03, withAddress indx SLO),
     (0x13, withAddress indy SLO),
     (0x27, withAddress zp RLA),
     (0x37, withAddress zpx RLA),
     (0x2F, withAddress abs_m RLA),
     (0x3F, withAddress absx RLA),
     (0x3B, withAddress absy RLA),
     (0x23, withAddress indx RLA),
     (0x33, withAddress indy RLA),
     (0x47, withAddress zp SRE),
     (0x57, withAddress zpx SRE),
     (0x4F, withAddress abs_m SRE),
     (0x5F, withAddress absx SRE),
     (0x5B, withAddress absy SRE),
     (0x43, withAddress indx SRE),
     (0x53, withAddress indy SRE),
     (0x67, withAddress zp RRA),
     (0x77, withAddress zpx RRA),
     (0x6F, withAddress abs_m RRA),
     (0x7F, withAddress absx RRA),
     (0x7B, withAddress absy RRA),
     (0x63, withAddress indx RRA),
     (0x73, withAddress indy RRA),
     (0x0B, withValue imm ANC),
     (0x2B, withValue imm ANC),
     (0x4B, withValue imm ALR),
     (0x6B, withValue imm ARR),
     (0x8B, withValue imm XAA),
     (0xCB, withValue imm AXS),
     (0x9C, withAddress absx SHY),
     (0x9E, withAddress absy SHX),
     (0x1A, NOP),
     (0x3A, NOP),
     (0x5A, NOP),
     (0x7A, NOP),
     (0xDA, NOP),
     (0xFA, NOP),
     (0x04, operandOnly zp NOP),
     (0x44, operandOnly zp NOP),
     (0x64, operandOnly zp NOP),
     (0x14, operandOnly zpx NOP),
     (0x34, operandOnly zpx NOP),
     (0x54, operandOnly zpx NOP),
     (0x74, operandOnly zpx NOP),
     (0xD4, operandOnly zpx NOP),
     (0xF4, operandOnly zpx NOP),
     (0x0C, operandOnly abs_m NOP),
     (0x1C, operandPenalty absx NOP),
     (0x3C, operandPenalty absx NOP),
     (0x5C, operandPenalty absx NOP),
     (0x7C, operandPenalty absx NOP),
     (0xDC, operandPenalty absx NOP),
     (0xFC, operandPenalty absx NOP),
     (0x80, operandOnly imm NOP),
     (0x82, operandOnly imm NOP),
     (0x89, operandOnly imm NOP),
     (0xC2, operandOnly imm NOP),
     (0xE2, operandOnly imm NOP)
    ]"

text \<open>
  \<open>this.instructionMap[i]\<close>: every index from 0 to 255 is first given the KIL handler,
  then the assigned ones are overwritten; any other index is \<open>undefined\<close>.
\<close>

definition instructionMap :: "int \<Rightarrow> (cpu \<Rightarrow> cpu) option" where
  "instructionMap i =
     (if 0 \<le> i \<and> i < 256
      then (case map_of assigned i of Some f \<Rightarrow> Some f | None \<Rightarrow> Some KIL)
      else None)"

definition unassigned :: "int \<Rightarrow> bool" where
  "unassigned op \<longleftrightarrow> 0 \<le> op \<and> op < 256 \<and> map_of assigned op = None"

subsection \<open>Execution\<close>

text \<open>
  The part of \<open>step\<close> after the two early returns: fetch the opcode (\<open>this.PC++\<close>), set
  the base cycle count, run the handler, add the cycles to the total.
\<close>

definition fetchExecute :: "cpu \<Rightarrow> cpu" where
  "fetchExecute s =
     (let s1 = s\<lparr>opcode := read s (PC s), PC := PC s + 1\<rparr>;
          s2 = s1\<lparr>cycles := baseCycles (opcode s1)\<rparr>;
          s3 = (case instructionMap (opcode s2 AND 0xFF) of
                  Some instr \<Rightarrow> instr s2
                | None \<Rightarrow> s2)
      in s3\<lparr>totalCycles := totalCycles s3 + cycles s3\<rparr>)"

text \<open>\<open>step\<close> returns \<open>this.cycles\<close> on each of its three paths: the value returned is
  \<open>cycles (step s)\<close>.\<close>

definition step :: "cpu \<Rightarrow> cpu" where
  "step s =
     (if breakFlag s then s\<lparr>breakFlag := False\<rparr>
      else case handleNMI s of (serviced, s1) \<Rightarrow>
        if serviced then s1 else fetchExecute s1)"

text \<open>The loop of \<open>runCycles\<close>: \<open>while (this.totalCycles < goal) this.step()\<close>.\<close>

function runLoop :: "int \<Rightarrow> cpu \<Rightarrow> cpu" where
  "runLoop goal s = (if totalCycles s < goal then runLoop goal (step s) else s)"
  by pat_completeness auto

definition runCycles :: "int \<Rightarrow> cpu \<Rightarrow> int \<times> cpu" where
  "runCycles target s =
     (let start = totalCycles s;
          goal = start + target;
          s1 = runLoop goal s
      in (totalCycles s1 - start, s1))"

definition reset :: "cpu \<Rightarrow> cpu" where
  "reset s =
     (let s1 = s\<lparr>A := 0, X := 0, Y := 0\<rparr>;
          s2 = s1\<lparr>S := 0xFF\<rparr>;
          s3 = s2\<lparr>C := 0, Z := 0, I := 0, D := 0, B := 0, V := 0, N := 0\<rparr>;
          s4 = s3\<lparr>I := 1\<rparr>;
          s5 = s4\<lparr>B := 0\<rparr>;
          lo = read s5 0xFFFC;
          hi = read s5 0xFFFD;
          s6 = s5\<lparr>PC := (push_bit 8 hi OR lo) AND 0xFFFF\<rparr>;
          s7 = s6\<lparr>cycles := 7\<rparr>;
          s8 = s7\<lparr>totalCycles := totalCycles s7 + 7\<rparr>
      in s8\<lparr>breakFlag := False, nmiPending := False, nmiEdge := False\<rparr>)"

subsection \<open>Well-formed states\<close>

text \<open>
  The data model of the processor: \<open>A\<close>, \<open>X\<close>, \<open>Y\<close> and \<open>S\<close> are bytes, the seven flags
  are 0 or 1, \<open>PC\<close> is a 16-bit address.
\<close>

definition isByte :: "int \<Rightarrow> bool" where
  "isByte v \<longleftrightarrow> 0 \<le> v \<and> v < 256"

definition isFlag :: "int \<Rightarrow> bool" where
  "isFlag v \<longleftrightarrow> v = 0 \<or> v = 1"

definition flagsOK :: "cpu \<Rightarrow> bool" where
  "flagsOK s \<longleftrightarrow>
     isFlag (C s) \<and> isFlag (Z s) \<and> isFlag (I s) \<and> isFlag (D s) \<and>
     isFlag (B s) \<and> isFlag (V s) \<and> isFlag (N s)"

definition registersOK :: "cpu \<Rightarrow> bool" where
  "registersOK s \<longleftrightarrow>
     isByte (A s) \<and> isByte (X s) \<and> isByte (Y s) \<and> isByte (S s) \<and> flagsOK s"

definition pcOK :: "cpu \<Rightarrow> bool" where
  "pcOK s \<longleftrightarrow> 0 \<le> PC s \<and> PC s < 65536"

definition wellFormed :: "cpu \<Rightarrow> bool" where
  "wellFormed s \<longleftrightarrow> registersOK s \<and> pcOK s"

subsection \<open>What no instruction handler touches\<close>

text \<open>
  \<open>frameOf\<close> collects the fields that only \<open>step\<close>, \<open>reset\<close> and the trigger methods
  assign. A handler \<open>keepsFrame\<close> when it leaves them alone and never lowers the cycle
  count of the running instruction; an addressing mode is \<open>onlyPC\<close> when \<open>PC\<close> is the
  one field it changes.
\<close>

definition frameOf :: "cpu \<Rightarrow> int \<times> int \<times> bool \<times> bool \<times> bool \<times> int \<times> int \<times> bool" where
  "frameOf s = (totalCycles s, opcode s, breakFlag s, nmiPending s, nmiEdge s, ramLength s, ramSize s, emulateIndirectJMPBug s)"

definition keepsFrame :: "(cpu \<Rightarrow> cpu) \<Rightarrow> bool" where
  "keepsFrame f \<longleftrightarrow> (\<forall>s. frameOf (f s) = frameOf s \<and> cycles s \<le> cycles (f s))"

definition onlyPC :: "(cpu \<Rightarrow> operand \<times> cpu) \<Rightarrow> bool" where
  "onlyPC mode \<longleftrightarrow> (\<forall>s. snd (mode s) = s\<lparr>PC := PC (snd (mode s))\<rparr>)"

subsection \<open>Example states\<close>

text \<open>
  \<open>JMP ($10FF)\<close> at 0x0600, seen after the opcode fetch: the pointer's low byte is in
  the last cell of page 0x10.
\<close>

definition jmpBugState :: cpu where
  "jmpBugState = (mose 64)\<lparr>ram := (\<lambda>_. 0)(0x600 := 0x6C, 0x601 := 0xFF, 0x602 := 0x10,
      0x10FF := 0x34, 0x1000 := 0x12, 0x1100 := 0x56), PC := 0x601\<rparr>"

text \<open>
  A handler \<open>keepsS\<close> when it leaves the stack pointer where it is. \<open>stackOpcodes\<close>
  are the opcodes whose operations push, pull or load \<open>S\<close>: \<open>BRK\<close>, \<open>PHP\<close>, \<open>JSR\<close>,
  \<open>PLP\<close>, \<open>RTI\<close>, \<open>PHA\<close>, \<open>RTS\<close>, \<open>PLA\<close>, \<open>TXS\<close>.
\<close>

definition keepsS :: "(cpu \<Rightarrow> cpu) \<Rightarrow> bool" where
  "keepsS f \<longleftrightarrow> (\<forall>s. S (f s) = S s)"

definition stackOpcodes :: "int list" where
  "stackOpcodes = [0x00, 0x08, 0x20, 0x28, 0x40, 0x48, 0x60, 0x68, 0x9A]"

subsection \<open>Decimal addition, as the specification words it\<close>

text \<open>
  Stated from the specification, to be compared with \<open>ADC\<close>: add the low nibbles and
  the carry; a low sum beyond 9 is corrected by 6 and carries into the high nibble;
  a high sum beyond 9 is corrected by 6; the carry flag is taken from the corrected
  high nibble (beyond 15). The result is the byte of the two corrected nibbles, with
  the carry out.
\<close>

definition decimalAdd :: "int \<Rightarrow> int \<Rightarrow> int \<Rightarrow> int \<times> int" where
  "decimalAdd a v c =
     (let lowSum = a mod 16 + v mod 16 + c;
          lowCarry = (if lowSum > 9 then 1 else 0);
          lowNibble = (if lowSum > 9 then lowSum + 6 else lowSum) mod 16;
          highSum = a div 16 + v div 16 + lowCarry;
          highCorrected = (if highSum > 9 then highSum + 6 else highSum);
          carry = (if highCorrected > 15 then 1 else 0)
      in ((highCorrected mod 16) * 16 + lowNibble, carry))"

text \<open>
  An NMI handler \<open>LDA #$FF\<close> at 0x8000 with the NMI vector pointing to it, and the
  processor just past a \<open>NOP\<close> at 0x0600, with \<open>C\<close> and \<open>B\<close> set.
\<close>

definition nmiState :: cpu where
  "nmiState = (mose 64)\<lparr>ram := (\<lambda>_. 0)(0x600 := 0xEA, 0xFFFA := 0x00, 0xFFFB := 0x80, 0x8000 := 0xA9, 0x8001 := 0xFF),
      PC := 0x0601, S := 0xFF, C := 1, B := 1\<rparr>"

text \<open>
  The reset vector points to 0x0600 and the NMI vector to 0x8000. \<open>resetState\<close> has a
  \<open>NOP\<close> at 0x0600, \<open>resetPushState\<close> a \<open>PHP\<close>.
\<close>

definition resetState :: cpu where
  "resetState = (mose 64)\<lparr>ram := (\<lambda>_. 0)(0x600 := 0xEA, 0xFFFA := 0x00, 0xFFFB := 0x80,
      0xFFFC := 0x00, 0xFFFD := 0x06, 0x8000 := 0xA9, 0x8001 := 0xFF), A := 0x12, S := 0x80\<rparr>"

definition resetPushState :: cpu where
  "resetPushState = resetState\<lparr>ram := (ram resetState)(0x600 := 0x08)\<rparr>"

section \<open>Revision r211225 (class \<open>MOSE\<close>)\<close>

text \<open>
  The second source file, \<open>mosecore_r211225.235.js\<close>, is an earlier revision of the
  same processor. Its object has no RAM size map, no toggle for the indirect jump and
  no break or NMI latch, and it keeps the page-cross flag of the running instruction
  in a field. Every name of this revision carries a prime here. \<open>memory\<close> is its
  \<open>Uint8Array\<close>, \<open>memoryLength\<close> the array's length. The methods whose text is the
  same in both files (\<open>push\<close>, \<open>pop\<close>, the status register, the loads and stores,
  the logic, compare, shift and rotate operations and the undocumented compositions)
  are the definitions of the release over this state; \<open>checkPageCross\<close> and the
  cycle table are the same constants.
\<close>

record mosecore =
  memory :: "int \<Rightarrow> int"
  memoryLength :: int
  A' :: int
  X' :: int
  Y' :: int
  PC' :: int
  S' :: int
  C' :: int
  Z' :: int
  I' :: int
  D' :: int
  B' :: int
  V' :: int
  N' :: int
  opcode' :: int
  cycles' :: int
  totalCycles' :: int
  pageCrossed' :: bool

subsection \<open>Constructor and memory access\<close>

text \<open>\<open>new MOSE(memorySize)\<close>: a zeroed array of \<open>memorySize\<close> bytes.\<close>

definition MOSE :: "int \<Rightarrow> mosecore" where
  "MOSE memorySize =
     \<lparr> memory = (\<lambda>_. 0), memoryLength = memorySize,
       A' = 0, X' = 0, Y' = 0, PC' = 0, S' = 0xFF,
       C' = 0, Z' = 0, I' = 0, D' = 0, B' = 0, V' = 0, N' = 0,
       opcode' = 0, cycles' = 0, totalCycles' = 0, pageCrossed' = False \<rparr>"

text \<open>
  \<open>read(addr) { return this.memory[addr & 0xFFFF] & 0xFF; }\<close> has no bounds test: an
  index at or beyond the array's length yields \<open>undefined\<close>, and \<open>undefined & 0xFF\<close> is
  0. \<open>write\<close> assigns \<open>this.memory[addr & 0xFFFF]\<close>; a typed array ignores an
  assignment beyond its length.
\<close>

definition read' :: "mosecore \<Rightarrow> int \<Rightarrow> int" where
  "read' s addr =
     (let a = addr AND 0xFFFF
      in if a < memoryLength s then memory s a AND 0xFF else 0)"

definition write_m' :: "int \<Rightarrow> int \<Rightarrow> mosecore \<Rightarrow> mosecore" where
  "write_m' addr val s =
     (let a = addr AND 0xFFFF
      in if a < memoryLength s then s\<lparr>memory := (memory s)(a := val AND 0xFF)\<rparr> else s)"

subsection \<open>Stack operations and status register\<close>

definition push' :: "int \<Rightarrow> mosecore \<Rightarrow> mosecore" where
  "push' v s =
     (let s1 = write_m' (0x100 + (S' s AND 0xFF)) (v AND 0xFF) s
      in s1\<lparr>S' := (S' s1 - 1) AND 0xFF\<rparr>)"

definition pop' :: "mosecore \<Rightarrow> int \<times> mosecore" where
  "pop' s =
     (let s1 = s\<lparr>S' := (S' s + 1) AND 0xFF\<rparr>
      in (read' s1 (0x100 + (S' s1 AND 0xFF)), s1))"

definition setZN' :: "int \<Rightarrow> mosecore \<Rightarrow> mosecore" where
  "setZN' v0 s =
     (let v = v0 AND 0xFF
      in s\<lparr>Z' := (if v = 0 then 1 else 0),
            N' := (if v AND 0x80 \<noteq> 0 then 1 else 0)\<rparr>)"

definition getStatus' :: "mosecore \<Rightarrow> int" where
  "getStatus' s =
     push_bit 7 (N' s) OR push_bit 6 (V' s) OR push_bit 5 1 OR push_bit 4 (B' s) OR
     push_bit 3 (D' s) OR push_bit 2 (I' s) OR push_bit 1 (Z' s) OR C' s"

definition setStatus' :: "int \<Rightarrow> mosecore \<Rightarrow> mosecore" where
  "setStatus' v s =
     s\<lparr>N' := drop_bit 7 v AND 1,
       V' := drop_bit 6 v AND 1,
       B' := drop_bit 4 v AND 1,
       D' := drop_bit 3 v AND 1,
       I' := drop_bit 2 v AND 1,
       Z' := drop_bit 1 v AND 1,
       C' := v AND 1\<rparr>"

subsection \<open>Addressing modes\<close>

text \<open>
  A resolver returns a number (the operand for \<open>imm\<close>, \<open>zp\<close>, \<open>zpx\<close>, \<open>zpy\<close>, \<open>abs\<close>,
  the effective address for the others) and the state with \<open>PC\<close> moved on; the
  indexed and relative ones also set \<open>pageCrossed\<close>.
\<close>

definition imm' :: "mosecore \<Rightarrow> int \<times> mosecore" where
  "imm' s = (let s1 = s\<lparr>PC' := PC' s + 1\<rparr> in (read' s1 (PC' s), s1))"

definition zp' :: "mosecore \<Rightarrow> int \<times> mosecore" where
  "zp' s = (let s1 = s\<lparr>PC' := PC' s + 1\<rparr> in (read' s1 (read' s1 (PC' s)), s1))"

definition zpx' :: "mosecore \<Rightarrow> int \<times> mosecore" where
  "zpx' s =
     (let s1 = s\<lparr>PC' := PC' s + 1\<rparr>
      in (read' s1 ((read' s1 (PC' s) + X' s1) AND 0xFF), s1))"

definition zpy' :: "mosecore \<Rightarrow> int \<times> mosecore" where
  "zpy' s =
     (let s1 = s\<lparr>PC' := PC' s + 1\<rparr>
      in (read' s1 ((read' s1 (PC' s) + Y' s1) AND 0xFF), s1))"

definition abs' :: "mosecore \<Rightarrow> int \<times> mosecore" where
  "abs' s =
     (let lo = read' s (PC' s); s1 = s\<lparr>PC' := PC' s + 1\<rparr>;
          hi = read' s1 (PC' s1); s2 = s1\<lparr>PC' := PC' s1 + 1\<rparr>
      in (read' s2 (push_bit 8 hi OR lo), s2))"

definition absAddr' :: "mosecore \<Rightarrow> int \<times> mosecore" where
  "absAddr' s =
     (let lo = read' s (PC' s); s1 = s\<lparr>PC' := PC' s + 1\<rparr>;
          hi = read' s1 (PC' s1); s2 = s1\<lparr>PC' := PC' s1 + 1\<rparr>
      in ((push_bit 8 hi OR lo) AND 0xFFFF, s2))"

definition absXAddr' :: "mosecore \<Rightarrow> int \<times> mosecore" where
  "absXAddr' s =
     (case absAddr' s of (base, s1) \<Rightarrow>
        let addr = (base + X' s1) AND 0xFFFF
        in (addr, s1\<lparr>pageCrossed' := checkPageCross base addr\<rparr>))"

definition absYAddr' :: "mosecore \<Rightarrow> int \<times> mosecore" where
  "absYAddr' s =
     (case absAddr' s of (base, s1) \<Rightarrow>
        let addr = (base + Y' s1) AND 0xFFFF
        in (addr, s1\<lparr>pageCrossed' := checkPageCross base addr\<rparr>))"

definition ind' :: "mosecore \<Rightarrow> int \<times> mosecore" where
  "ind' s =
     (let lo = read' s (PC' s); s1 = s\<lparr>PC' := PC' s + 1\<rparr>;
          hi = read' s1 (PC' s1); s2 = s1\<lparr>PC' := PC' s1 + 1\<rparr>;
          ptr = (push_bit 8 hi OR lo) AND 0xFFFF;
          low = read' s2 ptr;
          high = read' s2 ((ptr AND 0xFF00) OR ((ptr + 1) AND 0xFF))
      in ((push_bit 8 high OR low) AND 0xFFFF, s2))"

definition indx' :: "mosecore \<Rightarrow> int \<times> mosecore" where
  "indx' s =
     (let z = (read' s (PC' s) + X' s) AND 0xFF; s1 = s\<lparr>PC' := PC' s + 1\<rparr>;
          lo = read' s1 (z AND 0xFF);
          hi = read' s1 ((z + 1) AND 0xFF)
      in ((push_bit 8 hi OR lo) AND 0xFFFF, s1))"

definition indy' :: "mosecore \<Rightarrow> int \<times> mosecore" where
  "indy' s =
     (let z = read' s (PC' s) AND 0xFF; s1 = s\<lparr>PC' := PC' s + 1\<rparr>;
          lo = read' s1 z;
          hi = read' s1 ((z + 1) AND 0xFF);
          base = (push_bit 8 hi OR lo) AND 0xFFFF;
          addr = (base + Y' s1) AND 0xFFFF
      in (addr, s1\<lparr>pageCrossed' := checkPageCross base addr\<rparr>))"

definition rel' :: "mosecore \<Rightarrow> int \<times> mosecore" where
  "rel' s =
     (let off = read' s (PC' s); s1 = s\<lparr>PC' := PC' s + 1\<rparr>;
          target = (if off AND 0x80 \<noteq> 0 then (PC' s1 + off - 0x100) AND 0xFFFF
                    else (PC' s1 + off) AND 0xFFFF)
      in (target, s1\<lparr>pageCrossed' := checkPageCross (PC' s1) target\<rparr>))"

text \<open>
  The operand expressions written out in the handlers: \<open>this.read(this.PC++)\<close>,
  \<open>this.read(this.PC++) & 0xFF\<close> and \<open>(this.read(this.PC++) + this.X) & 0xFF\<close> (and
  the same with \<open>this.Y\<close>).
\<close>

definition pcByte :: "mosecore \<Rightarrow> int \<times> mosecore" where
  "pcByte s = (let s1 = s\<lparr>PC' := PC' s + 1\<rparr> in (read' s1 (PC' s), s1))"

definition pcByteMasked :: "mosecore \<Rightarrow> int \<times> mosecore" where
  "pcByteMasked s = (let s1 = s\<lparr>PC' := PC' s + 1\<rparr> in (read' s1 (PC' s) AND 0xFF, s1))"

definition pcByteX :: "mosecore \<Rightarrow> int \<times> mosecore" where
  "pcByteX s = (let s1 = s\<lparr>PC' := PC' s + 1\<rparr> in ((read' s1 (PC' s) + X' s1) AND 0xFF, s1))"

definition pcByteY :: "mosecore \<Rightarrow> int \<times> mosecore" where
  "pcByteY s = (let s1 = s\<lparr>PC' := PC' s + 1\<rparr> in ((read' s1 (PC' s) + Y' s1) AND 0xFF, s1))"

subsection \<open>Operations\<close>

definition LDA' :: "int \<Rightarrow> mosecore \<Rightarrow> mosecore" where
  "LDA' v s = (let s1 = s\<lparr>A' := v AND 0xFF\<rparr> in setZN' (A' s1) s1)"

definition STA' :: "int \<Rightarrow> mosecore \<Rightarrow> mosecore" where
  "STA' a s = write_m' a (A' s) s"

definition LDX' :: "int \<Rightarrow> mosecore \<Rightarrow> mosecore" where
  "LDX' v s = (let s1 = s\<lparr>X' := v AND 0xFF\<rparr> in setZN' (X' s1) s1)"

definition STX' :: "int \<Rightarrow> mosecore \<Rightarrow> mosecore" where
  "STX' a s = write_m' a (X' s) s"

definition LDY' :: "int \<Rightarrow> mosecore \<Rightarrow> mosecore" where
  "LDY' v s = (let s1 = s\<lparr>Y' := v AND 0xFF\<rparr> in setZN' (Y' s1) s1)"

definition STY' :: "int \<Rightarrow> mosecore \<Rightarrow> mosecore" where
  "STY' a s = write_m' a (Y' s) s"

definition TAX' :: "mosecore \<Rightarrow> mosecore" where
  "TAX' s = (let s1 = s\<lparr>X' := A' s AND 0xFF\<rparr> in setZN' (X' s1) s1)"

definition TXA' :: "mosecore \<Rightarrow> mosecore" where
  "TXA' s = (let s1 = s\<lparr>A' := X' s AND 0xFF\<rparr> in setZN' (A' s1) s1)"

definition TAY' :: "mosecore \<Rightarrow> mosecore" where
  "TAY' s = (let s1 = s\<lparr>Y' := A' s AND 0xFF\<rparr> in setZN' (Y' s1) s1)"

definition TYA' :: "mosecore \<Rightarrow> mosecore" where
  "TYA' s = (let s1 = s\<lparr>A' := Y' s AND 0xFF\<rparr> in setZN' (A' s1) s1)"

definition TSX' :: "mosecore \<Rightarrow> mosecore" where
  "TSX' s = (let s1 = s\<lparr>X' := S' s AND 0xFF\<rparr> in setZN' (X' s1) s1)"

definition TXS' :: "mosecore \<Rightarrow> mosecore" where
  "TXS' s = s\<lparr>S' := X' s AND 0xFF\<rparr>"

definition PHA' :: "mosecore \<Rightarrow> mosecore" where
  "PHA' s = push' (A' s) s"

definition PLA' :: "mosecore \<Rightarrow> mosecore" where
  "PLA' s = (case pop' s of (v, s1) \<Rightarrow> let s2 = s1\<lparr>A' := v\<rparr> in setZN' (A' s2) s2)"

definition PHP' :: "mosecore \<Rightarrow> mosecore" where
  "PHP' s = push' (getStatus' s OR 0x10) s"

definition PLP' :: "mosecore \<Rightarrow> mosecore" where
  "PLP' s = (case pop' s of (v, s1) \<Rightarrow> setStatus' v s1)"

definition INX' :: "mosecore \<Rightarrow> mosecore" where
  "INX' s = (let s1 = s\<lparr>X' := (X' s + 1) AND 0xFF\<rparr> in setZN' (X' s1) s1)"

definition DEX' :: "mosecore \<Rightarrow> mosecore" where
  "DEX' s = (let s1 = s\<lparr>X' := (X' s - 1) AND 0xFF\<rparr> in setZN' (X' s1) s1)"

definition INY' :: "mosecore \<Rightarrow> mosecore" where
  "INY' s = (let s1 = s\<lparr>Y' := (Y' s + 1) AND 0xFF\<rparr> in setZN' (Y' s1) s1)"

definition DEY' :: "mosecore \<Rightarrow> mosecore" where
  "DEY' s = (let s1 = s\<lparr>Y' := (Y' s - 1) AND 0xFF\<rparr> in setZN' (Y' s1) s1)"

definition INC' :: "int \<Rightarrow> mosecore \<Rightarrow> mosecore" where
  "INC' a s = (let v = (read' s a + 1) AND 0xFF; s1 = write_m' a v s in setZN' v s1)"

definition DEC' :: "int \<Rightarrow> mosecore \<Rightarrow> mosecore" where
  "DEC' a s = (let v = (read' s a - 1) AND 0xFF; s1 = write_m' a v s in setZN' v s1)"

definition CLC' :: "mosecore \<Rightarrow> mosecore" where "CLC' s = s\<lparr>C' := 0\<rparr>"

definition SEC' :: "mosecore \<Rightarrow> mosecore" where "SEC' s = s\<lparr>C' := 1\<rparr>"

definition CLI' :: "mosecore \<Rightarrow> mosecore" where "CLI' s = s\<lparr>I' := 0\<rparr>"

definition SEI' :: "mosecore \<Rightarrow> mosecore" where "SEI' s = s\<lparr>I' := 1\<rparr>"

definition CLV' :: "mosecore \<Rightarrow> mosecore" where "CLV' s = s\<lparr>V' := 0\<rparr>"

definition CLD' :: "mosecore \<Rightarrow> mosecore" where "CLD' s = s\<lparr>D' := 0\<rparr>"

definition SED' :: "mosecore \<Rightarrow> mosecore" where "SED' s = s\<lparr>D' := 1\<rparr>"

definition NOP' :: "mosecore \<Rightarrow> mosecore" where "NOP' s = s"

definition JMP' :: "int \<Rightarrow> mosecore \<Rightarrow> mosecore" where
  "JMP' a s = s\<lparr>PC' := a AND 0xFFFF\<rparr>"

definition JSR' :: "int \<Rightarrow> mosecore \<Rightarrow> mosecore" where
  "JSR' a s =
     (let ret = (PC' s - 1) AND 0xFFFF;
          s1 = push' (drop_bit 8 ret AND 0xFF) s;
          s2 = push' (ret AND 0xFF) s1
      in s2\<lparr>PC' := a AND 0xFFFF\<rparr>)"

definition RTS' :: "mosecore \<Rightarrow> mosecore" where
  "RTS' s =
     (case pop' s of (lo, s1) \<Rightarrow>
      case pop' s1 of (hi, s2) \<Rightarrow>
        s2\<lparr>PC' := ((push_bit 8 hi OR lo) + 1) AND 0xFFFF\<rparr>)"

definition BRK' :: "mosecore \<Rightarrow> mosecore" where
  "BRK' s =
     (let s1 = s\<lparr>B' := 1\<rparr>;
          s2 = s1\<lparr>PC' := (PC' s1 + 1) AND 0xFFFF\<rparr>;
          s3 = push' (drop_bit 8 (PC' s2) AND 0xFF) s2;
          s4 = push' (PC' s3 AND 0xFF) s3;
          s5 = push' (getStatus' s4 OR 0x10) s4;
          s6 = s5\<lparr>I' := 1\<rparr>;
          lo = read' s6 0xFFFE;
          hi = read' s6 0xFFFF
      in s6\<lparr>PC' := (push_bit 8 hi OR lo) AND 0xFFFF\<rparr>)"

definition RTI' :: "mosecore \<Rightarrow> mosecore" where
  "RTI' s =
     (case pop' s of (p, s0) \<Rightarrow>
      let s1 = setStatus' p s0 in
      case pop' s1 of (lo, s2) \<Rightarrow>
      case pop' s2 of (hi, s3) \<Rightarrow>
        s3\<lparr>PC' := (push_bit 8 hi OR lo) AND 0xFFFF\<rparr>)"

text \<open>
  The eight branch methods share one body under their own condition:
  \<open>this.PC = addr; this.cycles += 1; if (this.pageCrossed) this.cycles += 1;\<close>.
\<close>

definition branchTaken' :: "int \<Rightarrow> mosecore \<Rightarrow> mosecore" where
  "branchTaken' addr s =
     (let s1 = s\<lparr>PC' := addr\<rparr>;
          s2 = s1\<lparr>cycles' := cycles' s1 + 1\<rparr>
      in if pageCrossed' s2 then s2\<lparr>cycles' := cycles' s2 + 1\<rparr> else s2)"

definition BCC' :: "int \<Rightarrow> mosecore \<Rightarrow> mosecore" where
  "BCC' addr s = (if C' s = 0 then branchTaken' addr s else s)"

definition BCS' :: "int \<Rightarrow> mosecore \<Rightarrow> mosecore" where
  "BCS' addr s = (if C' s = 1 then branchTaken' addr s else s)"

definition BEQ' :: "int \<Rightarrow> mosecore \<Rightarrow> mosecore" where
  "BEQ' addr s = (if Z' s = 1 then branchTaken' addr s else s)"

definition BNE' :: "int \<Rightarrow> mosecore \<Rightarrow> mosecore" where
  "BNE' addr s = (if Z' s = 0 then branchTaken' addr s else s)"

definition BPL' :: "int \<Rightarrow> mosecore \<Rightarrow> mosecore" where
  "BPL' addr s = (if N' s = 0 then branchTaken' addr s else s)"

definition BMI' :: "int \<Rightarrow> mosecore \<Rightarrow> mosecore" where
  "BMI' addr s = (if N' s = 1 then branchTaken' addr s else s)"

definition BVC' :: "int \<Rightarrow> mosecore \<Rightarrow> mosecore" where
  "BVC' addr s = (if V' s = 0 then branchTaken' addr s else s)"

definition BVS' :: "int \<Rightarrow> mosecore \<Rightarrow> mosecore" where
  "BVS' addr s = (if V' s = 1 then branchTaken' addr s else s)"

text \<open>\<open>ADC\<close> of this revision never reads \<open>D\<close>: it is the binary addition.\<close>

definition ADC' :: "int \<Rightarrow> mosecore \<Rightarrow> mosecore" where
  "ADC' v0 s =
     (let v = v0 AND 0xFF;
          sum = A' s + v + (if C' s \<noteq> 0 then 1 else 0);
          s1 = s\<lparr>C' := (if sum > 0xFF then 1 else 0)\<rparr>;
          s2 = s1\<lparr>V' := (if (NOT (A' s1 XOR v) AND (A' s1 XOR sum)) AND 0x80 \<noteq> 0
                          then 1 else 0)\<rparr>;
          s3 = s2\<lparr>A' := sum AND 0xFF\<rparr>
      in setZN' (A' s3) s3)"

definition SBC' :: "int \<Rightarrow> mosecore \<Rightarrow> mosecore" where
  "SBC' v0 s = (let v = v0 AND 0xFF; inv = (v XOR 0xFF) AND 0xFF in ADC' inv s)"

definition AND_m' :: "int \<Rightarrow> mosecore \<Rightarrow> mosecore" where
  "AND_m' v s = (let s1 = s\<lparr>A' := A' s AND (v AND 0xFF)\<rparr> in setZN' (A' s1) s1)"

definition ORA' :: "int \<Rightarrow> mosecore \<Rightarrow> mosecore" where
  "ORA' v s = (let s1 = s\<lparr>A' := A' s OR (v AND 0xFF)\<rparr> in setZN' (A' s1) s1)"

definition EOR' :: "int \<Rightarrow> mosecore \<Rightarrow> mosecore" where
  "EOR' v s = (let s1 = s\<lparr>A' := A' s XOR (v AND 0xFF)\<rparr> in setZN' (A' s1) s1)"

definition CMP' :: "int \<Rightarrow> mosecore \<Rightarrow> mosecore" where
  "CMP' v s =
     (let r = (A' s - (v AND 0xFF)) AND 0x1FF;
          s1 = s\<lparr>C' := (if r < 0x100 then 1 else 0)\<rparr>
      in setZN' (r AND 0xFF) s1)"

definition CPX' :: "int \<Rightarrow> mosecore \<Rightarrow> mosecore" where
  "CPX' v s =
     (let r = (X' s - (v AND 0xFF)) AND 0x1FF;
          s1 = s\<lparr>C' := (if r < 0x100 then 1 else 0)\<rparr>
      in setZN' (r AND 0xFF) s1)"

definition CPY' :: "int \<Rightarrow> mosecore \<Rightarrow> mosecore" where
  "CPY' v s =
     (let r = (Y' s - (v AND 0xFF)) AND 0x1FF;
          s1 = s\<lparr>C' := (if r < 0x100 then 1 else 0)\<rparr>
      in setZN' (r AND 0xFF) s1)"

definition BIT' :: "int \<Rightarrow> mosecore \<Rightarrow> mosecore" where
  "BIT' v0 s =
     (let v = v0 AND 0xFF
      in s\<lparr>Z' := (if A' s AND v \<noteq> 0 then 0 else 1),
            N' := (if v AND 0x80 \<noteq> 0 then 1 else 0),
            V' := (if v AND 0x40 \<noteq> 0 then 1 else 0)\<rparr>)"

definition ASL_A' :: "mosecore \<Rightarrow> mosecore" where
  "ASL_A' s =
     (let s1 = s\<lparr>C' := drop_bit 7 (A' s) AND 1\<rparr>;
          s2 = s1\<lparr>A' := push_bit 1 (A' s1) AND 0xFF\<rparr>
      in setZN' (A' s2) s2)"

definition ASL' :: "int \<Rightarrow> mosecore \<Rightarrow> mosecore" where
  "ASL' a s =
     (let v = read' s a;
          s1 = s\<lparr>C' := drop_bit 7 v AND 1\<rparr>;
          v' = push_bit 1 v AND 0xFF;
          s2 = write_m' a v' s1
      in setZN' v' s2)"

definition LSR_A' :: "mosecore \<Rightarrow> mosecore" where
  "LSR_A' s =
     (let s1 = s\<lparr>C' := A' s AND 1\<rparr>;
          s2 = s1\<lparr>A' := drop_bit 1 (A' s1) AND 0xFF\<rparr>
      in setZN' (A' s2) s2)"

definition LSR' :: "int \<Rightarrow> mosecore \<Rightarrow> mosecore" where
  "LSR' a s =
     (let v = read' s a;
          s1 = s\<lparr>C' := v AND 1\<rparr>;
          v' = drop_bit 1 v AND 0xFF;
          s2 = write_m' a v' s1
      in setZN' v' s2)"

definition ROL_A' :: "mosecore \<Rightarrow> mosecore" where
  "ROL_A' s =
     (let oldC = C' s;
          s1 = s\<lparr>C' := drop_bit 7 (A' s) AND 1\<rparr>;
          s2 = s1\<lparr>A' := (push_bit 1 (A' s1) OR oldC) AND 0xFF\<rparr>
      in setZN' (A' s2) s2)"

definition ROL' :: "int \<Rightarrow> mosecore \<Rightarrow> mosecore" where
  "ROL' a s =
     (let v = read' s a;
          oldC = C' s;
          s1 = s\<lparr>C' := drop_bit 7 v AND 1\<rparr>;
          v' = (push_bit 1 v OR oldC) AND 0xFF;
          s2 = write_m' a v' s1
      in setZN' v' s2)"

definition ROR_A' :: "mosecore \<Rightarrow> mosecore" where
  "ROR_A' s =
     (let oldC = C' s;
          s1 = s\<lparr>C' := A' s AND 1\<rparr>;
          s2 = s1\<lparr>A' := (drop_bit 1 (A' s1) OR push_bit 7 oldC) AND 0xFF\<rparr>
      in setZN' (A' s2) s2)"

definition ROR' :: "int \<Rightarrow> mosecore \<Rightarrow> mosecore" where
  "ROR' a s =
     (let v = read' s a;
          oldC = C' s;
          s1 = s\<lparr>C' := v AND 1\<rparr>;
          v' = (drop_bit 1 v OR push_bit 7 oldC) AND 0xFF;
          s2 = write_m' a v' s1
      in setZN' v' s2)"

definition LAX' :: "int \<Rightarrow> mosecore \<Rightarrow> mosecore" where
  "LAX' v s = (let s1 = s\<lparr>X' := v AND 0xFF, A' := v AND 0xFF\<rparr> in setZN' (A' s1) s1)"

definition SAX' :: "int \<Rightarrow> mosecore \<Rightarrow> mosecore" where
  "SAX' a s = write_m' a (A' s AND X' s) s"

definition DCP' :: "int \<Rightarrow> mosecore \<Rightarrow> mosecore" where
  "DCP' a s = (let s1 = DEC' a s in CMP' (read' s1 a) s1)"

definition ISC' :: "int \<Rightarrow> mosecore \<Rightarrow> mosecore" where
  "ISC' a s = (let s1 = INC' a s in SBC' (read' s1 a) s1)"

definition SLO' :: "int \<Rightarrow> mosecore \<Rightarrow> mosecore" where
  "SLO' a s = (let s1 = ASL' a s in ORA' (read' s1 a) s1)"

definition RLA' :: "int \<Rightarrow> mosecore \<Rightarrow> mosecore" where
  "RLA' a s = (let s1 = ROL' a s in AND_m' (read' s1 a) s1)"

definition SRE' :: "int \<Rightarrow> mosecore \<Rightarrow> mosecore" where
  "SRE' a s = (let s1 = LSR' a s in EOR' (read' s1 a) s1)"

definition RRA' :: "int \<Rightarrow> mosecore \<Rightarrow> mosecore" where
  "RRA' a s = (let s1 = ROR' a s in ADC' (read' s1 a) s1)"

definition KIL' :: "mosecore \<Rightarrow> mosecore" where
  "KIL' s = s\<lparr>PC' := (PC' s - 1) AND 0xFFFF\<rparr>"

subsection \<open>Instruction map\<close>

text \<open>
  The handlers of this revision pass the resolver's result straight on:
  \<^item> \<open>() => this.OP(this.mode())\<close>: \<open>withArg mode' OP'\<close>, also for the operand
    expressions written out;
  \<^item> \<open>() => this.OP(this.read(this.mode()))\<close>: \<open>withReadArg mode' OP'\<close>;
  \<^item> \<open>{ this.PC++; this.NOP(); }\<close> and \<open>{ this.PC += 2; this.NOP(); }\<close>:
    \<open>skipBytes 1 NOP'\<close> and \<open>skipBytes 2 NOP'\<close>;
  \<^item> \<open>{ this.absXAddr(); this.NOP(); }\<close>: \<open>afterMode absXAddr' NOP'\<close>.
\<close>

definition withArg :: "(mosecore \<Rightarrow> int \<times> mosecore) \<Rightarrow> (int \<Rightarrow> mosecore \<Rightarrow> mosecore) \<Rightarrow> mosecore \<Rightarrow> mosecore" where
  "withArg mode oper s = (case mode s of (v, s1) \<Rightarrow> oper v s1)"

definition withReadArg :: "(mosecore \<Rightarrow> int \<times> mosecore) \<Rightarrow> (int \<Rightarrow> mosecore \<Rightarrow> mosecore) \<Rightarrow> mosecore \<Rightarrow> mosecore" where
  "withReadArg mode oper s = (case mode s of (a, s1) \<Rightarrow> oper (read' s1 a) s1)"

definition skipBytes :: "int \<Rightarrow> (mosecore \<Rightarrow> mosecore) \<Rightarrow> mosecore \<Rightarrow> mosecore" where
  "skipBytes n oper s = oper (s\<lparr>PC' := PC' s + n\<rparr>)"

definition afterMode :: "(mosecore \<Rightarrow> int \<times> mosecore) \<Rightarrow> (mosecore \<Rightarrow> mosecore) \<Rightarrow> mosecore \<Rightarrow> mosecore" where
  "afterMode mode oper s = (case mode s of (a, s1) \<Rightarrow> oper s1)"

text \<open>The assignments of \<open>setupInstructions\<close>, in the order of the source. No opcode is
  assigned twice.\<close>

definition assigned' :: "(int \<times> (mosecore \<Rightarrow> mosecore)) list" where
  "assigned' =
    [
     (0x00, BRK'),
     (0xEA, NOP'),
     (0xA9, withArg imm' LDA'),
     (0xA5, withArg zp' LDA'),
     (0xB5, withArg zpx' LDA'),
     (0xAD, withArg abs' LDA'),
     (0xBD, withReadArg absXAddr' LDA'),
     (0xB9, withReadArg absYAddr' LDA'),
     (0xA1, withReadArg indx' LDA'),
     (0xB1, withReadArg indy' LDA'),
     (0x85, withArg pcByteMasked STA'),
     (0x95, withArg pcByteX STA'),
     (0x8D, withArg absAddr' STA'),
     (0x9D, withArg absXAddr' STA'),
     (0x99, withArg absYAddr' STA'),
     (0x81, withArg indx' STA'),
     (0x91, withArg indy' STA'),
     (0xA2, withArg imm' LDX'),
     (0xA6, withArg zp' LDX'),
     (0xB6, withArg zpy' LDX'),
     (0xAE, withArg abs' LDX'),
     (0xBE, withReadArg absYAddr' LDX'),
     (0x86, withArg pcByte STX'),
     (0x96, withArg pcByteY STX'),
     (0x8E, withArg absAddr' STX'),
     (0xA0, withArg imm' LDY'),
     (0xA4, withArg zp' LDY'),
     (0xB4, withArg zpx' LDY'),
     (0xAC, withArg abs' LDY'),
     (0xBC, withReadArg absXAddr' LDY'),
     (0x84, withArg pcByte STY'),
     (0x94, withArg pcByteX STY'),
     (0x8C, withArg absAddr' STY'),
     (0xAA, TAX'),
     (0x8A, TXA'),
     (0xA8, TAY'),
     (0x98, TYA'),
     (0xBA, TSX'),
     (0x9A, TXS'),
     (0x48, PHA'),
     (0x68, PLA'),
     (0x08, PHP'),
     (0x28, PLP'),
     (0xE8, INX'),
     (0xCA, DEX'),
     (0xC8, INY'),
     (0x88, DEY'),
     (0xE6, withArg pcByte INC'),
     (0xF6, withArg pcByteX INC'),
     (0xEE, withArg absAddr' INC'),
     (0xFE, withArg absXAddr' INC'),
     (0xC6, withArg pcByte DEC'),
     (0xD6, withArg pcByteX DEC'),
     (0xCE, withArg absAddr' DEC'),
     (0xDE, withArg absXAddr' DEC'),
     (0x69, withArg imm' ADC'),
     (0x65, withArg zp' ADC'),
     (0x75, withArg zpx' ADC'),
     (0x6D, withArg abs' ADC'),
     (0x7D, withReadArg absXAddr' ADC'),
     (0x79, withReadArg absYAddr' ADC'),
     (0x61, withReadArg indx' ADC'),
     (0x71, withReadArg indy' ADC'),
     (0xE9, withArg imm' SBC'),
     (0xE5, withArg zp' SBC'),
     (0xF5, withArg zpx' SBC'),
     (0xED, withArg abs' SBC'),
     (0xFD, withReadArg absXAddr' SBC'),
     (0xF9, withReadArg absYAddr' SBC'),
     (0xE1, withReadArg indx' SBC'),
     (0xF1, withReadArg indy' SBC'),
     (0x29, withArg imm' AND_m'),
     (0x25, withArg zp' AND_m'),
     (0x35, withArg zpx' AND_m'),
     (0x2D, withArg abs' AND_m'),
     (0x3D, withReadArg absXAddr' AND_m'),
     (0x39, withReadArg absYAddr' AND_m'),
     (0x21, withReadArg indx' AND_m'),
     (0x31, withReadArg indy' AND_m'),
     (0x09, withArg imm' ORA'),
     (0x05, withArg zp' ORA'),
     (0x15, withArg zpx' ORA'),
     (0x0D, withArg abs' ORA'),
     (0x1D, withReadArg absXAddr' ORA'),
     (0x19, withReadArg absYAddr' ORA'),
     (0x01, withReadArg indx' ORA'),
     (0x11, withReadArg indy' ORA'),
     (0x49, withArg imm' EOR'),
     (0x45, withArg zp' EOR'),
     (0x55, withArg zpx' EOR'),
     (0x4D, withArg abs' EOR'),
     (0x5D, withReadArg absXAddr' EOR'),
     (0x59, withReadArg absYAddr' EOR'),
     (0x41, withReadArg indx' EOR'),
     (0x51, withReadArg indy' EOR'),
     (0xC9, withArg imm' CMP'),
     (0xC5, withArg zp' CMP'),
     (0xD5, withArg zpx' CMP'),
     (0xCD, withArg abs' CMP'),
     (0xDD, withReadArg absXAddr' CMP'),
     (0xD9, withReadArg absYAddr' CMP'),
     (0xC1, withReadArg indx' CMP'),
     (0xD1, withReadArg indy' CMP'),
     (0xE0, withArg imm' CPX'),
     (0xE4, withArg zp' CPX'),
     (0xEC, withArg abs' CPX'),
     (0xC0, withArg imm' CPY'),
     (0xC4, withArg zp' CPY'),
     (0xCC, withArg abs' CPY'),
     (0x24, withArg zp' BIT'),
     (0x2C, withArg abs' BIT'),
     (0x0A, ASL_A'),
     (0x06, withArg pcByte ASL'),
     (0x16, withArg pcByteX ASL'),
     (0x0E, withArg absAddr' ASL'),
     (0x1E, withArg absXAddr' ASL'),
     (0x4A, LSR_A'),
     (0x46, withArg pcByte LSR'),
     (0x56, withArg pcByteX LSR'),
     (0x4E, withArg absAddr' LSR'),
     (0x5E, withArg absXAddr' LSR'),
     (0x2A, ROL_A'),
     (0x26, withArg pcByte ROL'),
     (0x36, withArg pcByteX ROL'),
     (0x2E, withArg absAddr' ROL'),
     (0x3E, withArg absXAddr' ROL'),
     (0x6A, ROR_A'),
     (0x66, withArg pcByte ROR'),
     (0x76, withArg pcByteX ROR'),
     (0x6E, withArg absAddr' ROR'),
     (0x7E, withArg absXAddr' ROR'),
     (0x90, withArg rel' BCC'),
     (0xB0, withArg rel' BCS'),
     (0xF0, withArg rel' BEQ'),
     (0x30, withArg rel' BMI'),
     (0xD0, withArg rel' BNE'),
     (0x10, withArg rel' BPL'),
     (0x50, withArg rel' BVC'),
     (0x70, withArg rel' BVS'),
     (0x4C, withArg absAddr' JMP'),
     (0x6C, withArg ind' JMP'),
     (0x20, withArg absAddr' JSR'),
     (0x60, RTS'),
     (0x40, RTI'),
     (0x18, CLC'),
     (0x38, SEC'),
     (0x58, CLI'),
     (0x78, SEI'),
     (0xB8, CLV'),
     (0xD8, CLD'),
     (0xF8, SED'),
     (0xA7, withArg zp' LAX'),
     (0xB7, withArg zpy' LAX'),
     (0xAF, withArg abs' LAX'),
     (0xBF, withReadArg absYAddr' LAX'),
     (0xA3, withReadArg indx' LAX'),
     (0xB3, withReadArg indy' LAX'),
     (0x87, withArg pcByte SAX'),
     (0x97, withArg pcByteY SAX'),
     (0x8F, withArg absAddr' SAX'),
     (0x83, withArg indx' SAX'),
     (0xC7, withArg pcByte DCP'),
     (0xD7, withArg pcByteX DCP'),
     (0xCF, withArg absAddr' DCP'),
     (0xDF, withArg absXAddr' DCP'),
     (0xDB, withArg absYAddr' DCP'),
     (0xC3, withArg indx' DCP'),
     (0xD3, withArg indy' DCP'),
     (0xE7, withArg pcByte ISC'),
     (0xF7, withArg pcByteX ISC'),
     (0xEF, withArg absAddr' ISC'),
     (0xFF, withArg absXAddr' ISC'),
     (0xFB, withArg absYAddr' ISC'),
     (0xE3, withArg indx' ISC'),
     (0xF3, withArg indy' ISC'),
     (0x07, withArg pcByte SLO'),
     (0x17, withArg pcByteX SLO'),
     (0x0F, withArg absAddr' SLO'),
     (0x1F, withArg absXAddr' SLO'),
     (0x1B, withArg absYAddr' SLO'),
     (0x03, withArg indx' SLO'),
     (0x13, withArg indy' SLO'),
     (0x27, withArg pcByte RLA'),
     (0x37, withArg pcByteX RLA'),
     (0x2F, withArg absAddr' RLA'),
     (0x3F, withArg absXAddr' RLA'),
     (0x3B, withArg absYAddr' RLA'),
     (0x23, withArg indx' RLA'),
     (0x33, withArg indy' RLA'),
     (0x47, withArg pcByte SRE'),
     (0x57, withArg pcByteX SRE'),
     (0x4F, withArg absAddr' SRE'),
     (0x5F, withArg absXAddr' SRE'),
     (0x5B, withArg absYAddr' SRE'),
     (0x43, withArg indx' SRE'),
     (0x53, withArg indy' SRE'),
     (0x67, withArg pcByte RRA'),
     (0x77, withArg pcByteX RRA'),
     (0x6F, withArg absAddr' RRA'),
     (0x7F, withArg absXAddr' RRA'),
     (0x7B, withArg absYAddr' RRA'),
     (0x63, withArg indx' RRA'),
     (0x73, withArg indy' RRA'),
     (0x1A, NOP'),
     (0x3A, NOP'),
     (0x5A, NOP'),
     (0x7A, NOP'),
     (0xDA, NOP'),
     (0xFA, NOP'),
     (0x04, skipBytes 1 NOP'),
     (0x44, skipBytes 1 NOP'),
     (0x64, skipBytes 1 NOP'),
     (0x14, skipBytes 1 NOP'),
     (0x34, skipBytes 1 NOP'),
     (0x54, skipBytes 1 NOP'),
     (0x74, skipBytes 1 NOP'),
     (0xD4, skipBytes 1 NOP'),
     (0xF4, skipBytes 1 NOP'),
     (0x0C, skipBytes 2 NOP'),
     (0x1C, afterMode absXAddr' NOP'),
     (0x3C, afterMode absXAddr' NOP'),
     (0x5C, afterMode absXAddr' NOP'),
     (0x7C, afterMode absXAddr' NOP'),
     (0xDC, afterMode absXAddr' NOP'),
     (0xFC, afterMode absXAddr' NOP'),
     (0x80, skipBytes 1 NOP'),
     (0x82, skipBytes 1 NOP'),
     (0x89, skipBytes 1 NOP'),
     (0xC2, skipBytes 1 NOP'),
     (0xE2, skipBytes 1 NOP')
    ]"

definition instructionMap' :: "int \<Rightarrow> (mosecore \<Rightarrow> mosecore) option" where
  "instructionMap' i =
     (if 0 \<le> i \<and> i < 256
      then (case map_of assigned' i of Some f \<Rightarrow> Some f | None \<Rightarrow> Some KIL')
      else None)"

definition unassigned' :: "int \<Rightarrow> bool" where
  "unassigned' op \<longleftrightarrow> 0 \<le> op \<and> op < 256 \<and> map_of assigned' op = None"

subsection \<open>Execution\<close>

definition needsPageCrossPenalty :: "int \<Rightarrow> bool" where
  "needsPageCrossPenalty op \<longleftrightarrow>
     op \<in> set [0x1D, 0x19, 0x39, 0x3D, 0x59, 0x5D, 0x79, 0x7D,
                 0xB1, 0xB9, 0xBD, 0xBE, 0xBC,
                 0xD1, 0xD9, 0xDD, 0xF1, 0xF9, 0xFD,
                 0x1C, 0x3C, 0x5C, 0x7C, 0xDC, 0xFC,
                 0xBF, 0xB3,
                 0x1B, 0x3B, 0x5B, 0x7B, 0xDB, 0xFB,
                 0xDF, 0xFF, 0x9C, 0x9E]"

text \<open>\<open>step\<close> of this revision has no early return; it returns \<open>this.cycles\<close>.\<close>

definition step' :: "mosecore \<Rightarrow> mosecore" where
  "step' s =
     (let s1 = s\<lparr>opcode' := read' s (PC' s), PC' := PC' s + 1\<rparr>;
          s2 = s1\<lparr>pageCrossed' := False\<rparr>;
          s3 = s2\<lparr>cycles' := baseCycles (opcode' s2)\<rparr>;
          s4 = (case instructionMap' (opcode' s3 AND 0xFF) of
                  Some instr \<Rightarrow> instr s3
                | None \<Rightarrow> s3);
          s5 = (if pageCrossed' s4 \<and> needsPageCrossPenalty (opcode' s4)
                then s4\<lparr>cycles' := cycles' s4 + 1\<rparr> else s4)
      in s5\<lparr>totalCycles' := totalCycles' s5 + cycles' s5\<rparr>)"

text \<open>The loop of \<open>runCycles\<close>:
  \<open>while ((this.totalCycles - start) < target) this.step()\<close>.\<close>

function runLoop' :: "int \<Rightarrow> int \<Rightarrow> mosecore \<Rightarrow> mosecore" where
  "runLoop' start target s =
     (if totalCycles' s - start < target then runLoop' start target (step' s) else s)"
  by pat_completeness auto

definition runCycles' :: "int \<Rightarrow> mosecore \<Rightarrow> int \<times> mosecore" where
  "runCycles' target s =
     (let start = totalCycles' s;
          s1 = runLoop' start target s
      in (totalCycles' s1 - start, s1))"

definition reset' :: "mosecore \<Rightarrow> mosecore" where
  "reset' s =
     (let s1 = s\<lparr>A' := 0, X' := 0, Y' := 0\<rparr>;
          s2 = s1\<lparr>S' := 0xFF\<rparr>;
          s3 = s2\<lparr>C' := 0, Z' := 0, I' := 0, D' := 0, B' := 0, V' := 0, N' := 0\<rparr>;
          s4 = s3\<lparr>I' := 1\<rparr>;
          s5 = s4\<lparr>B' := 0\<rparr>;
          lo = read' s5 0xFFFC;
          hi = read' s5 0xFFFD;
          s6 = s5\<lparr>PC' := (push_bit 8 hi OR lo) AND 0xFFFF\<rparr>;
          s7 = s6\<lparr>cycles' := 7\<rparr>
      in s7\<lparr>totalCycles' := totalCycles' s7 + 7\<rparr>)"

subsection \<open>Well-formed flags and an example state of revision r211225\<close>

definition flagsOK' :: "mosecore \<Rightarrow> bool" where
  "flagsOK' s \<longleftrightarrow>
     isFlag (C' s) \<and> isFlag (Z' s) \<and> isFlag (I' s) \<and> isFlag (D' s) \<and>
     isFlag (B' s) \<and> isFlag (V' s) \<and> isFlag (N' s)"

text \<open>The memory of \<open>jmpBugState\<close> in an object of revision r211225.\<close>

definition jmpBugState' :: mosecore where
  "jmpBugState' = (MOSE 0x10000)\<lparr>memory := (\<lambda>_. 0)(0x600 := 0x6C, 0x601 := 0xFF, 0x602 := 0x10,
      0x10FF := 0x34, 0x1000 := 0x12, 0x1100 := 0x56), PC' := 0x601\<rparr>"

subsection \<open>What no instruction handler of revision r211225 touches\<close>

text \<open>
  The counterparts of \<open>frameOf\<close>, \<open>keepsFrame\<close> and \<open>onlyPC\<close>. A resolver of this
  revision changes \<open>PC\<close> and the page-cross flag only.
\<close>

definition frameOf' :: "mosecore \<Rightarrow> int \<times> int \<times> int" where
  "frameOf' s = (totalCycles' s, opcode' s, memoryLength s)"

definition keepsFrame' :: "(mosecore \<Rightarrow> mosecore) \<Rightarrow> bool" where
  "keepsFrame' f \<longleftrightarrow> (\<forall>s. frameOf' (f s) = frameOf' s \<and> cycles' s \<le> cycles' (f s))"

definition onlyPC' :: "(mosecore \<Rightarrow> int \<times> mosecore) \<Rightarrow> bool" where
  "onlyPC' mode \<longleftrightarrow>
     (\<forall>s. snd (mode s) = s\<lparr>PC' := PC' (snd (mode s)), pageCrossed' := pageCrossed' (snd (mode s))\<rparr>)"

section \<open>Properties\<close>

subsection \<open>Bit masks as arithmetic\<close>

lemma and_255: "(x::int) AND 255 = x mod 256"
  using take_bit_eq_mask [of 8 x] by (simp add: take_bit_eq_mod mask_eq_exp_minus_1)

lemma and_65535: "(x::int) AND 65535 = x mod 65536"
  using take_bit_eq_mask [of 16 x] by (simp add: take_bit_eq_mod mask_eq_exp_minus_1)

lemma and_15: "(x::int) AND 15 = x mod 16"
  using take_bit_eq_mask [of 4 x] by (simp add: take_bit_eq_mod mask_eq_exp_minus_1)

lemma and_1: "(x::int) AND 1 = x mod 2"
  using take_bit_eq_mask [of 1 x] by (simp add: take_bit_eq_mod mask_eq_exp_minus_1)

lemma and_511: "(x::int) AND 511 = x mod 512"
  using take_bit_eq_mask [of 9 x] by (simp add: take_bit_eq_mod mask_eq_exp_minus_1)

lemma and_ff00: "(x::int) AND 0xFF00 = x mod 65536 - x mod 256"
proof -
  have disj: "(x AND 0xFF00) AND (x AND 0xFF) = 0"
  proof -
    have "(x AND 0xFF00) AND (x AND 0xFF) = x AND ((0xFF00::int) AND 0xFF)"
      by (simp add: and.assoc and.left_commute)
    also have "(0xFF00::int) AND 0xFF = 0" by simp
    finally show ?thesis by simp
  qed
  have "(x AND 0xFF00) OR (x AND 0xFF) = x AND ((0xFF00::int) OR 0xFF)"
    by (simp only: bit.conj_disj_distrib)
  also have "(0xFF00::int) OR 0xFF = 0xFFFF" by simp
  finally have "(x AND 0xFF00) + (x AND 0xFF) = x AND 0xFFFF"
    using disjunctive_add_eq_or [OF disj] by simp
  then show ?thesis by (simp add: and_255 and_65535)
qed

lemma push8_or: 
  assumes "0 \<le> l" "l < 256"
  shows "push_bit 8 (h::int) OR l = h * 256 + l"
proof -
  have l: "l = l AND 0xFF" using assms by (simp add: and_255)
  have "push_bit 8 h AND (0xFF::int) = 0"
    by (simp add: and_255 push_bit_eq_mult)
  moreover have "push_bit 8 h AND (l AND 0xFF) = (push_bit 8 h AND 0xFF) AND l"
    by (simp only: and.assoc and.commute and.left_commute)
  ultimately have "push_bit 8 h AND (l AND 0xFF) = 0" by simp
  with l have "push_bit 8 h AND l = 0" by simp
  from disjunctive_add_eq_or [OF this] show ?thesis by (simp add: push_bit_eq_mult)
qed

lemma drop8: "drop_bit 8 (x::int) = x div 256" by (simp add: drop_bit_eq_div)

lemma push4_or:
  assumes "0 \<le> l" "l < 16"
  shows "push_bit 4 (h::int) OR l = h * 16 + l"
proof -
  have l: "l = l AND 0xF" using assms by (simp add: and_15)
  have "push_bit 4 h AND (0xF::int) = 0"
    by (simp add: and_15 push_bit_eq_mult)
  moreover have "push_bit 4 h AND (l AND 0xF) = (push_bit 4 h AND 0xF) AND l"
    by (simp only: and.assoc and.commute and.left_commute)
  ultimately have "push_bit 4 h AND (l AND 0xF) = 0" by simp
  with l have "push_bit 4 h AND l = 0" by simp
  from disjunctive_add_eq_or [OF this] show ?thesis by (simp add: push_bit_eq_mult)
qed

lemma and_128: "(x::int) AND 128 \<noteq> 0 \<longleftrightarrow> 128 \<le> x mod 256"
proof -
  have "(x AND 2 ^ 7 = 0) = (\<not> bit x 7)"
    by (rule and_exp_eq_0_iff_not_bit)
  moreover have "bit x 7 \<longleftrightarrow> odd (x div 128)"
    by (simp add: bit_iff_odd)
  moreover have "odd (x div 128) \<longleftrightarrow> 128 \<le> x mod 256"
  proof -
    have split: "x mod 256 = 128 * (x div 128 mod 2) + x mod 128"
      using zmod_zmult2_eq [of 2 x 128] by simp
    have r: "0 \<le> x mod 128" "x mod 128 < 128" by simp_all
    show ?thesis
    proof (cases "odd (x div 128)")
      case True
      then have "x div 128 mod 2 = 1" by (simp add: odd_iff_mod_2_eq_one)
      with split r True show ?thesis by simp
    next
      case False
      then have "x div 128 mod 2 = 0" by simp
      with split r False show ?thesis by simp
    qed
  qed
  ultimately show ?thesis by simp
qed

subsection \<open>The cycle table\<close>

lemma cycleTable_ge2: "\<forall>c \<in> set cycleTable. 2 \<le> c"
  by (simp add: cycleTable_def)

lemma baseCycles_ge2: "2 \<le> baseCycles op"
proof (cases "0 \<le> op \<and> op < int (length cycleTable) \<and> cycleTable ! nat op \<noteq> 0")
  case True
  then have "nat op < length cycleTable" by linarith
  then have "cycleTable ! nat op \<in> set cycleTable" by (rule nth_mem)
  with cycleTable_ge2 True show ?thesis by (simp add: baseCycles_def)
next
  case False
  then show ?thesis by (simp add: baseCycles_def)
qed

subsection \<open>Reads depend on the memory only\<close>

lemma read_upd [simp]:
  "read (s\<lparr>A := a\<rparr>) = read s" "read (s\<lparr>X := a\<rparr>) = read s" "read (s\<lparr>Y := a\<rparr>) = read s"
  "read (s\<lparr>S := a\<rparr>) = read s" "read (s\<lparr>PC := a\<rparr>) = read s"
  "read (s\<lparr>C := a\<rparr>) = read s" "read (s\<lparr>Z := a\<rparr>) = read s" "read (s\<lparr>I := a\<rparr>) = read s"
  "read (s\<lparr>D := a\<rparr>) = read s" "read (s\<lparr>B := a\<rparr>) = read s" "read (s\<lparr>V := a\<rparr>) = read s"
  "read (s\<lparr>N := a\<rparr>) = read s" "read (s\<lparr>cycles := a\<rparr>) = read s"
  "read (s\<lparr>opcode := a\<rparr>) = read s" "read (s\<lparr>totalCycles := a\<rparr>) = read s"
  "read (s\<lparr>breakFlag := b\<rparr>) = read s" "read (s\<lparr>nmiEdge := b\<rparr>) = read s"
  "read (s\<lparr>nmiPending := b\<rparr>) = read s"
  by (simp_all add: read_def fun_eq_iff Let_def)

lemma read_range: "0 \<le> read s a" "read s a < 256"
  by (simp_all add: read_def Let_def and_255)

subsection \<open>What \<open>setZN\<close> changes\<close>

lemma setZN_fields [simp]:
  "Z (setZN v s) = (if v mod 256 = 0 then 1 else 0)"
  "N (setZN v s) = (if 128 \<le> v mod 256 then 1 else 0)"
  "A (setZN v s) = A s" "X (setZN v s) = X s" "Y (setZN v s) = Y s" "S (setZN v s) = S s"
  "PC (setZN v s) = PC s" "C (setZN v s) = C s" "I (setZN v s) = I s" "D (setZN v s) = D s"
  "B (setZN v s) = B s" "V (setZN v s) = V s" "ram (setZN v s) = ram s"
  by (simp_all add: setZN_def Let_def and_255 and_128)

subsection \<open>Stack pushes and the NMI entry sequence\<close>

lemma stack_address:
  "(0x100 + ((x::int) AND 0xFF)) AND 0xFFFF = 0x100 + x mod 256"
proof -
  have "0 \<le> x mod 256" "x mod 256 < 256" by simp_all
  then have "(0x100 + x mod 256) mod 65536 = 0x100 + x mod 256"
    by (intro mod_pos_pos_trivial) linarith+
  then show ?thesis by (simp add: and_255 and_65535)
qed

lemma getStatus_upd [simp]:
  "getStatus (s\<lparr>ram := r\<rparr>) = getStatus s" "getStatus (s\<lparr>A := a\<rparr>) = getStatus s"
  "getStatus (s\<lparr>X := a\<rparr>) = getStatus s" "getStatus (s\<lparr>Y := a\<rparr>) = getStatus s"
  "getStatus (s\<lparr>S := a\<rparr>) = getStatus s" "getStatus (s\<lparr>PC := a\<rparr>) = getStatus s"
  "getStatus (s\<lparr>cycles := a\<rparr>) = getStatus s" "getStatus (s\<lparr>opcode := a\<rparr>) = getStatus s"
  "getStatus (s\<lparr>totalCycles := a\<rparr>) = getStatus s" "getStatus (s\<lparr>breakFlag := b\<rparr>) = getStatus s"
  "getStatus (s\<lparr>nmiEdge := b\<rparr>) = getStatus s" "getStatus (s\<lparr>nmiPending := b\<rparr>) = getStatus s"
  by (simp_all add: getStatus_def)

lemma read_push_far:
  assumes "0x200 \<le> b AND 0xFFFF"
  shows "read (push v s) b = read s b"
proof -
  have "S s mod 256 < 256" by simp
  with assms have ne: "b AND 0xFFFF \<noteq> 0x100 + S s mod 256" by linarith
  have "read (write_m (0x100 + (S s AND 0xFF)) (v AND 0xFF) s) b = read s b"
    unfolding write_m_def Let_def stack_address using ne
    by (simp add: read_def Let_def)
  then show ?thesis
    unfolding push_def Let_def by simp
qed

lemma push_state:
  assumes "0x200 \<le> ramLength s"
  shows "push v s = s\<lparr>ram := (ram s)(0x100 + S s mod 256 := v mod 256), S := (S s - 1) mod 256\<rparr>"
proof -
  have "0 \<le> S s mod 256" "S s mod 256 < 256" by simp_all
  with assms have lt: "0x100 + S s mod 256 < ramLength s" by linarith
  have w: "write_m (0x100 + (S s AND 0xFF)) (v AND 0xFF) s = s\<lparr>ram := (ram s)(0x100 + S s mod 256 := v mod 256)\<rparr>"
    unfolding write_m_def Let_def stack_address using lt by (simp add: and_255)
  show ?thesis
    unfolding push_def Let_def w by (simp add: and_255)
qed

lemma handleNMI_state:
  assumes "nmiEdge s" and "0x200 \<le> ramLength s"
  shows "handleNMI s =
    (True, s\<lparr>ram := (ram s)
               (0x100 + S s mod 256 := (PC s div 256) mod 256,
                0x100 + (S s - 1) mod 256 := PC s mod 256,
                0x100 + (S s - 2) mod 256 := (getStatus s AND NOT 0x10) mod 256),
            S := (S s - 3) mod 256,
            I := 1,
            PC := read s 0xFFFA + 256 * read s 0xFFFB,
            cycles := 7,
            totalCycles := totalCycles s + 7,
            nmiPending := False,
            nmiEdge := False\<rparr>)"
proof -
  define s1 where "s1 = s\<lparr>nmiEdge := False, nmiPending := False\<rparr>"
  define s2 where "s2 = push (drop_bit 8 (PC s1) AND 0xFF) s1"
  define s3 where "s3 = push (PC s2 AND 0xFF) s2"
  define s4 where "s4 = push (getStatus s3 AND NOT 0x10) s3"
  have l1: "0x200 \<le> ramLength s1" using assms(2) by (simp add: s1_def)
  have e2: "s2 = s1\<lparr>ram := (ram s1)(0x100 + S s1 mod 256 := (PC s1 div 256) mod 256), S := (S s1 - 1) mod 256\<rparr>"
    unfolding s2_def push_state [OF l1] by (simp add: and_255 drop_bit_eq_div)
  have l2: "0x200 \<le> ramLength s2" using l1 by (simp add: e2)
  have e3: "s3 = s2\<lparr>ram := (ram s2)(0x100 + S s2 mod 256 := PC s2 mod 256), S := (S s2 - 1) mod 256\<rparr>"
    unfolding s3_def push_state [OF l2] by (simp add: and_255)
  have l3: "0x200 \<le> ramLength s3" using l2 by (simp add: e3)
  have e4: "s4 = s3\<lparr>ram := (ram s3)(0x100 + S s3 mod 256 := (getStatus s3 AND NOT 0x10) mod 256), S := (S s3 - 1) mod 256\<rparr>"
    unfolding s4_def push_state [OF l3] by simp
  have g: "getStatus s3 = getStatus s"
    by (simp add: getStatus_def e3 e2 s1_def)
  have far: "read s4 0xFFFA = read s 0xFFFA" "read s4 0xFFFB = read s 0xFFFB"
    by (simp_all add: s4_def s3_def s2_def s1_def read_push_far)
  have pcv: "(push_bit 8 (read s 0xFFFB) OR read s 0xFFFA) AND 0xFFFF = read s 0xFFFA + 256 * read s 0xFFFB"
  proof -
    have "push_bit 8 (read s 0xFFFB) OR read s 0xFFFA = read s 0xFFFB * 256 + read s 0xFFFA"
      by (rule push8_or) (rule read_range)+
    moreover have "(read s 0xFFFB * 256 + read s 0xFFFA) mod 65536 = read s 0xFFFB * 256 + read s 0xFFFA"
      using read_range [of s "0xFFFA"] read_range [of s "0xFFFB"]
      by (intro mod_pos_pos_trivial) linarith+
    ultimately show ?thesis by (simp add: and_65535)
  qed
  have h: "handleNMI s = (True, s4\<lparr>I := 1, PC := read s 0xFFFA + 256 * read s 0xFFFB, cycles := 7,
      totalCycles := totalCycles s4 + 7\<rparr>)"
    using assms(1) unfolding handleNMI_def Let_def
    by (simp only: if_True s1_def [symmetric] s2_def [symmetric] s3_def [symmetric] s4_def [symmetric])
       (simp add: far pcv)
  have m: "((S s - 1) mod 256 - 1) mod 256 = (S s - 2) mod 256"
          "((S s - 2) mod 256 - 1) mod 256 = (S s - 3) mod 256"
    by (simp_all add: mod_diff_left_eq)
  show ?thesis
    unfolding h by (simp add: e4 e3 e2 s1_def g m)
qed

subsection \<open>Memory outside the backing array\<close>




subsection \<open>Status byte\<close>

text \<open>
  Claim C6. For every combination of the seven flags with values 0 or 1, the byte
  packed from them by \<open>getStatus\<close> is unpacked by \<open>setStatus\<close>, into any state, to
  exactly those seven flags; so \<open>setStatus (getStatus s) s = s\<close>. Bit 5 of the packed
  byte is set. The two methods have the same text in both revisions, and the same
  holds of revision r211225.
\<close>

theorem status_round_trip:
  assumes "flagsOK s" and "flagsOK' r"
  shows "setStatus (getStatus s) t =
           t\<lparr>N := N s, V := V s, B := B s, D := D s, I := I s, Z := Z s, C := C s\<rparr> \<and>
         setStatus (getStatus s) s = s \<and>
         bit (getStatus s) 5 \<and>
         setStatus' (getStatus' r) u =
           u\<lparr>N' := N' r, V' := V' r, B' := B' r, D' := D' r, I' := I' r, Z' := Z' r, C' := C' r\<rparr> \<and>
         setStatus' (getStatus' r) r = r \<and>
         bit (getStatus' r) 5"
proof -
  have a: "setStatus (getStatus s) t =
           t\<lparr>N := N s, V := V s, B := B s, D := D s, I := I s, Z := Z s, C := C s\<rparr> \<and>
         bit (getStatus s) 5" for t
    using assms(1)
    apply (simp add: flagsOK_def isFlag_def setStatus_def getStatus_def)
    apply (elim conjE disjE)
    apply simp_all
    done
  have b: "setStatus' (getStatus' r) u =
           u\<lparr>N' := N' r, V' := V' r, B' := B' r, D' := D' r, I' := I' r, Z' := Z' r, C' := C' r\<rparr> \<and>
         bit (getStatus' r) 5" for u
    using assms(2)
    apply (simp add: flagsOK'_def isFlag_def setStatus'_def getStatus'_def)
    apply (elim conjE disjE)
    apply simp_all
    done
  have c: "setStatus (getStatus s) s = s"
    using a [of s] by simp
  have d: "setStatus' (getStatus' r) r = r"
    using b [of r] by simp
  from a [of t] b [of u] c d show ?thesis by blast
qed

theorem status_round_trip_witness:
  "flagsOK ((mose 64)\<lparr>N := 1, C := 1\<rparr>) \<and> flagsOK' ((MOSE 0x10000)\<lparr>V' := 1, Z' := 1\<rparr>) \<and>
   getStatus ((mose 64)\<lparr>N := 1, C := 1\<rparr>) = 0xA1 \<and>
   N (setStatus (getStatus ((mose 64)\<lparr>N := 1, C := 1\<rparr>)) (mose 64)) = 1 \<and>
   C (setStatus (getStatus ((mose 64)\<lparr>N := 1, C := 1\<rparr>)) (mose 64)) = 1 \<and>
   Z (setStatus (getStatus ((mose 64)\<lparr>N := 1, C := 1\<rparr>)) ((mose 64)\<lparr>Z := 1\<rparr>)) = 0 \<and>
   bit (getStatus ((mose 64)\<lparr>N := 1, C := 1\<rparr>)) 5 \<and>
   V' (setStatus' (getStatus' ((MOSE 0x10000)\<lparr>V' := 1, Z' := 1\<rparr>)) (MOSE 0x10000)) = 1 \<and>
   bit (getStatus' ((MOSE 0x10000)\<lparr>V' := 1, Z' := 1\<rparr>)) 5"
proof -
  have f: "flagsOK ((mose 64)\<lparr>N := 1, C := 1\<rparr>)" "flagsOK' ((MOSE 0x10000)\<lparr>V' := 1, Z' := 1\<rparr>)"
    by (simp_all add: flagsOK_def flagsOK'_def isFlag_def mose_def MOSE_def)
  note th = status_round_trip [OF f]
  have e1: "setStatus (getStatus ((mose 64)\<lparr>N := 1, C := 1\<rparr>)) t =
      t\<lparr>N := N ((mose 64)\<lparr>N := 1, C := 1\<rparr>), V := V ((mose 64)\<lparr>N := 1, C := 1\<rparr>),
         B := B ((mose 64)\<lparr>N := 1, C := 1\<rparr>), D := D ((mose 64)\<lparr>N := 1, C := 1\<rparr>),
         I := I ((mose 64)\<lparr>N := 1, C := 1\<rparr>), Z := Z ((mose 64)\<lparr>N := 1, C := 1\<rparr>),
         C := C ((mose 64)\<lparr>N := 1, C := 1\<rparr>)\<rparr>" for t
    using status_round_trip [OF f, of t] by blast
  have e2: "setStatus' (getStatus' ((MOSE 0x10000)\<lparr>V' := 1, Z' := 1\<rparr>)) u =
      u\<lparr>N' := N' ((MOSE 0x10000)\<lparr>V' := 1, Z' := 1\<rparr>), V' := V' ((MOSE 0x10000)\<lparr>V' := 1, Z' := 1\<rparr>),
         B' := B' ((MOSE 0x10000)\<lparr>V' := 1, Z' := 1\<rparr>), D' := D' ((MOSE 0x10000)\<lparr>V' := 1, Z' := 1\<rparr>),
         I' := I' ((MOSE 0x10000)\<lparr>V' := 1, Z' := 1\<rparr>), Z' := Z' ((MOSE 0x10000)\<lparr>V' := 1, Z' := 1\<rparr>),
         C' := C' ((MOSE 0x10000)\<lparr>V' := 1, Z' := 1\<rparr>)\<rparr>" for u
    using status_round_trip [OF f, of _ u] by blast
  have g: "getStatus ((mose 64)\<lparr>N := 1, C := 1\<rparr>) = 0xA1"
    by (simp add: getStatus_def mose_def)
  have "N (setStatus (getStatus ((mose 64)\<lparr>N := 1, C := 1\<rparr>)) (mose 64)) = 1"
    "C (setStatus (getStatus ((mose 64)\<lparr>N := 1, C := 1\<rparr>)) (mose 64)) = 1"
    "Z (setStatus (getStatus ((mose 64)\<lparr>N := 1, C := 1\<rparr>)) ((mose 64)\<lparr>Z := 1\<rparr>)) = 0"
    "V' (setStatus' (getStatus' ((MOSE 0x10000)\<lparr>V' := 1, Z' := 1\<rparr>)) (MOSE 0x10000)) = 1"
    unfolding e1 e2 by (simp_all add: mose_def MOSE_def)
  with f g th show ?thesis by blast
qed

subsection \<open>Instruction handlers leave the counters and latches alone\<close>

lemmas op_defs = LDA_def STA_def LDX_def STX_def LDY_def STY_def INC_def DEC_def JMP_def JSR_def BCC_def BCS_def BEQ_def BNE_def BPL_def BMI_def BVC_def BVS_def ADC_def SBC_def AND_m_def ORA_def EOR_def CMP_def CPX_def CPY_def BIT_def ASL_def LSR_def ROL_def ROR_def LAX_def SAX_def DCP_def ISC_def SLO_def RLA_def SRE_def RRA_def ANC_def ALR_def ARR_def XAA_def AXS_def SHY_def SHX_def TAX_def TXA_def TAY_def TYA_def TSX_def TXS_def PHA_def PLA_def PHP_def PLP_def INX_def DEX_def INY_def DEY_def CLC_def SEC_def CLI_def SEI_def CLV_def CLD_def SED_def NOP_def RTS_def BRK_def RTI_def ASL_A_def LSR_A_def ROL_A_def ROR_A_def KIL_def branchTaken_def
lemmas mode_defs = imm_def zp_def zpx_def zpy_def abs_m_def absx_def absy_def ind_def indx_def indy_def rel_def

lemma frame_write_m [simp]:
  "frameOf (write_m a v s) = frameOf s" "cycles (write_m a v s) = cycles s"
  by (simp_all add: write_m_def frameOf_def Let_def)

lemma frame_push [simp]:
  "frameOf (push v s) = frameOf s" "cycles (push v s) = cycles s"
  using frame_write_m by (simp_all add: push_def frameOf_def Let_def)

lemma frame_pop [simp]:
  "frameOf (snd (pop s)) = frameOf s" "cycles (snd (pop s)) = cycles s"
  by (simp_all add: pop_def frameOf_def Let_def)

lemma frame_setZN [simp]:
  "frameOf (setZN v s) = frameOf s" "cycles (setZN v s) = cycles s"
  by (simp_all add: setZN_def frameOf_def Let_def)

lemma frame_setStatus [simp]:
  "frameOf (setStatus v s) = frameOf s" "cycles (setStatus v s) = cycles s"
  by (simp_all add: setStatus_def frameOf_def Let_def)

lemma frame_upd [simp]:
  "frameOf (s\<lparr>A := a\<rparr>) = frameOf s" "frameOf (s\<lparr>X := a\<rparr>) = frameOf s" "frameOf (s\<lparr>Y := a\<rparr>) = frameOf s"
  "frameOf (s\<lparr>S := a\<rparr>) = frameOf s" "frameOf (s\<lparr>PC := a\<rparr>) = frameOf s" 
  "frameOf (s\<lparr>C := a\<rparr>) = frameOf s" "frameOf (s\<lparr>Z := a\<rparr>) = frameOf s" "frameOf (s\<lparr>I := a\<rparr>) = frameOf s"
  "frameOf (s\<lparr>D := a\<rparr>) = frameOf s" "frameOf (s\<lparr>B := a\<rparr>) = frameOf s" "frameOf (s\<lparr>V := a\<rparr>) = frameOf s"
  "frameOf (s\<lparr>N := a\<rparr>) = frameOf s" "frameOf (s\<lparr>cycles := a\<rparr>) = frameOf s"
  by (simp_all add: frameOf_def)

lemma frame_TAX: "keepsFrame TAX"
  by (simp add: keepsFrame_def TAX_def  branchTaken_def Let_def split_beta)

lemma frame_TXA: "keepsFrame TXA"
  by (simp add: keepsFrame_def TXA_def  branchTaken_def Let_def split_beta)

lemma frame_TAY: "keepsFrame TAY"
  by (simp add: keepsFrame_def TAY_def  branchTaken_def Let_def split_beta)

lemma frame_TYA: "keepsFrame TYA"
  by (simp add: keepsFrame_def TYA_def  branchTaken_def Let_def split_beta)

lemma frame_TSX: "keepsFrame TSX"
  by (simp add: keepsFrame_def TSX_def  branchTaken_def Let_def split_beta)

lemma frame_TXS: "keepsFrame TXS"
  by (simp add: keepsFrame_def TXS_def  branchTaken_def Let_def split_beta)

lemma frame_PHA: "keepsFrame PHA"
  by (simp add: keepsFrame_def PHA_def  branchTaken_def Let_def split_beta)

lemma frame_PLA: "keepsFrame PLA"
  by (simp add: keepsFrame_def PLA_def  branchTaken_def Let_def split_beta)

lemma frame_PHP: "keepsFrame PHP"
  by (simp add: keepsFrame_def PHP_def  branchTaken_def Let_def split_beta)

lemma frame_PLP: "keepsFrame PLP"
  by (simp add: keepsFrame_def PLP_def  branchTaken_def Let_def split_beta)

lemma frame_INX: "keepsFrame INX"
  by (simp add: keepsFrame_def INX_def  branchTaken_def Let_def split_beta)

lemma frame_DEX: "keepsFrame DEX"
  by (simp add: keepsFrame_def DEX_def  branchTaken_def Let_def split_beta)

lemma frame_INY: "keepsFrame INY"
  by (simp add: keepsFrame_def INY_def  branchTaken_def Let_def split_beta)

lemma frame_DEY: "keepsFrame DEY"
  by (simp add: keepsFrame_def DEY_def  branchTaken_def Let_def split_beta)

lemma frame_CLC: "keepsFrame CLC"
  by (simp add: keepsFrame_def CLC_def  branchTaken_def Let_def split_beta)

lemma frame_SEC: "keepsFrame SEC"
  by (simp add: keepsFrame_def SEC_def  branchTaken_def Let_def split_beta)

lemma frame_CLI: "keepsFrame CLI"
  by (simp add: keepsFrame_def CLI_def  branchTaken_def Let_def split_beta)

lemma frame_SEI: "keepsFrame SEI"
  by (simp add: keepsFrame_def SEI_def  branchTaken_def Let_def split_beta)

lemma frame_CLV: "keepsFrame CLV"
  by (simp add: keepsFrame_def CLV_def  branchTaken_def Let_def split_beta)

lemma frame_CLD: "keepsFrame CLD"
  by (simp add: keepsFrame_def CLD_def  branchTaken_def Let_def split_beta)

lemma frame_SED: "keepsFrame SED"
  by (simp add: keepsFrame_def SED_def  branchTaken_def Let_def split_beta)

lemma frame_NOP: "keepsFrame NOP"
  by (simp add: keepsFrame_def NOP_def  branchTaken_def Let_def split_beta)

lemma frame_RTS: "keepsFrame RTS"
  by (simp add: keepsFrame_def RTS_def  branchTaken_def Let_def split_beta)

lemma frame_BRK: "keepsFrame BRK"
  by (simp add: keepsFrame_def BRK_def  branchTaken_def Let_def split_beta)

lemma frame_RTI: "keepsFrame RTI"
  by (simp add: keepsFrame_def RTI_def  branchTaken_def Let_def split_beta)

lemma frame_ASL_A: "keepsFrame ASL_A"
  by (simp add: keepsFrame_def ASL_A_def  branchTaken_def Let_def split_beta)

lemma frame_LSR_A: "keepsFrame LSR_A"
  by (simp add: keepsFrame_def LSR_A_def  branchTaken_def Let_def split_beta)

lemma frame_ROL_A: "keepsFrame ROL_A"
  by (simp add: keepsFrame_def ROL_A_def  branchTaken_def Let_def split_beta)

lemma frame_ROR_A: "keepsFrame ROR_A"
  by (simp add: keepsFrame_def ROR_A_def  branchTaken_def Let_def split_beta)

lemma frame_KIL: "keepsFrame KIL"
  by (simp add: keepsFrame_def KIL_def  branchTaken_def Let_def split_beta)

lemma frame_LDA: "keepsFrame (LDA v)"
  by (simp add: keepsFrame_def LDA_def  branchTaken_def Let_def split_beta)

lemma frame_STA: "keepsFrame (STA v)"
  by (simp add: keepsFrame_def STA_def  branchTaken_def Let_def split_beta)

lemma frame_LDX: "keepsFrame (LDX v)"
  by (simp add: keepsFrame_def LDX_def  branchTaken_def Let_def split_beta)

lemma frame_STX: "keepsFrame (STX v)"
  by (simp add: keepsFrame_def STX_def  branchTaken_def Let_def split_beta)

lemma frame_LDY: "keepsFrame (LDY v)"
  by (simp add: keepsFrame_def LDY_def  branchTaken_def Let_def split_beta)

lemma frame_STY: "keepsFrame (STY v)"
  by (simp add: keepsFrame_def STY_def  branchTaken_def Let_def split_beta)

lemma frame_INC: "keepsFrame (INC v)"
  by (simp add: keepsFrame_def INC_def  branchTaken_def Let_def split_beta)

lemma frame_DEC: "keepsFrame (DEC v)"
  by (simp add: keepsFrame_def DEC_def  branchTaken_def Let_def split_beta)

lemma frame_JMP: "keepsFrame (JMP v)"
  by (simp add: keepsFrame_def JMP_def  branchTaken_def Let_def split_beta)

lemma frame_JSR: "keepsFrame (JSR v)"
  by (simp add: keepsFrame_def JSR_def  branchTaken_def Let_def split_beta)

lemma frame_BCC: "keepsFrame (BCC v)"
  by (simp add: keepsFrame_def BCC_def  branchTaken_def Let_def split_beta)

lemma frame_BCS: "keepsFrame (BCS v)"
  by (simp add: keepsFrame_def BCS_def  branchTaken_def Let_def split_beta)

lemma frame_BEQ: "keepsFrame (BEQ v)"
  by (simp add: keepsFrame_def BEQ_def  branchTaken_def Let_def split_beta)

lemma frame_BNE: "keepsFrame (BNE v)"
  by (simp add: keepsFrame_def BNE_def  branchTaken_def Let_def split_beta)

lemma frame_BPL: "keepsFrame (BPL v)"
  by (simp add: keepsFrame_def BPL_def  branchTaken_def Let_def split_beta)

lemma frame_BMI: "keepsFrame (BMI v)"
  by (simp add: keepsFrame_def BMI_def  branchTaken_def Let_def split_beta)

lemma frame_BVC: "keepsFrame (BVC v)"
  by (simp add: keepsFrame_def BVC_def  branchTaken_def Let_def split_beta)

lemma frame_BVS: "keepsFrame (BVS v)"
  by (simp add: keepsFrame_def BVS_def  branchTaken_def Let_def split_beta)

lemma frame_ADC: "keepsFrame (ADC v)"
  by (simp add: keepsFrame_def ADC_def  branchTaken_def Let_def split_beta)

lemma frame_SBC: "keepsFrame (SBC v)"
  by (simp add: keepsFrame_def SBC_def ADC_def branchTaken_def Let_def split_beta)

lemma frame_AND_m: "keepsFrame (AND_m v)"
  by (simp add: keepsFrame_def AND_m_def  branchTaken_def Let_def split_beta)

lemma frame_ORA: "keepsFrame (ORA v)"
  by (simp add: keepsFrame_def ORA_def  branchTaken_def Let_def split_beta)

lemma frame_EOR: "keepsFrame (EOR v)"
  by (simp add: keepsFrame_def EOR_def  branchTaken_def Let_def split_beta)

lemma frame_CMP: "keepsFrame (CMP v)"
  by (simp add: keepsFrame_def CMP_def  branchTaken_def Let_def split_beta)

lemma frame_CPX: "keepsFrame (CPX v)"
  by (simp add: keepsFrame_def CPX_def  branchTaken_def Let_def split_beta)

lemma frame_CPY: "keepsFrame (CPY v)"
  by (simp add: keepsFrame_def CPY_def  branchTaken_def Let_def split_beta)

lemma frame_BIT: "keepsFrame (BIT v)"
  by (simp add: keepsFrame_def BIT_def  branchTaken_def Let_def split_beta)

lemma frame_ASL: "keepsFrame (ASL v)"
  by (simp add: keepsFrame_def ASL_def  branchTaken_def Let_def split_beta)

lemma frame_LSR: "keepsFrame (LSR v)"
  by (simp add: keepsFrame_def LSR_def  branchTaken_def Let_def split_beta)

lemma frame_ROL: "keepsFrame (ROL v)"
  by (simp add: keepsFrame_def ROL_def  branchTaken_def Let_def split_beta)

lemma frame_ROR: "keepsFrame (ROR v)"
  by (simp add: keepsFrame_def ROR_def  branchTaken_def Let_def split_beta)

lemma frame_LAX: "keepsFrame (LAX v)"
  by (simp add: keepsFrame_def LAX_def  branchTaken_def Let_def split_beta)

lemma frame_SAX: "keepsFrame (SAX v)"
  by (simp add: keepsFrame_def SAX_def  branchTaken_def Let_def split_beta)

lemma frame_DCP: "keepsFrame (DCP v)"
  by (simp add: keepsFrame_def DCP_def DEC_def CMP_def branchTaken_def Let_def split_beta)

lemma frame_ISC: "keepsFrame (ISC v)"
  by (simp add: keepsFrame_def ISC_def INC_def SBC_def ADC_def branchTaken_def Let_def split_beta)

lemma frame_SLO: "keepsFrame (SLO v)"
  by (simp add: keepsFrame_def SLO_def ASL_def ORA_def branchTaken_def Let_def split_beta)

lemma frame_RLA: "keepsFrame (RLA v)"
  by (simp add: keepsFrame_def RLA_def ROL_def AND_m_def branchTaken_def Let_def split_beta)

lemma frame_SRE: "keepsFrame (SRE v)"
  by (simp add: keepsFrame_def SRE_def LSR_def EOR_def branchTaken_def Let_def split_beta)

lemma frame_RRA: "keepsFrame (RRA v)"
  by (simp add: keepsFrame_def RRA_def ROR_def ADC_def branchTaken_def Let_def split_beta)

lemma frame_ANC: "keepsFrame (ANC v)"
  by (simp add: keepsFrame_def ANC_def AND_m_def branchTaken_def Let_def split_beta)

lemma frame_ALR: "keepsFrame (ALR v)"
  by (simp add: keepsFrame_def ALR_def AND_m_def LSR_A_def branchTaken_def Let_def split_beta)

lemma frame_ARR: "keepsFrame (ARR v)"
  by (simp add: keepsFrame_def ARR_def AND_m_def ROR_A_def branchTaken_def Let_def split_beta)

lemma frame_XAA: "keepsFrame (XAA v)"
  by (simp add: keepsFrame_def XAA_def  branchTaken_def Let_def split_beta)

lemma frame_AXS: "keepsFrame (AXS v)"
  by (simp add: keepsFrame_def AXS_def  branchTaken_def Let_def split_beta)

lemma frame_SHY: "keepsFrame (SHY v)"
  by (simp add: keepsFrame_def SHY_def  branchTaken_def Let_def split_beta)

lemma frame_SHX: "keepsFrame (SHX v)"
  by (simp add: keepsFrame_def SHX_def  branchTaken_def Let_def split_beta)

lemma onlyPC_imm: "onlyPC imm"
  by (simp add: onlyPC_def imm_def Let_def)

lemma onlyPC_zp: "onlyPC zp"
  by (simp add: onlyPC_def zp_def Let_def)

lemma onlyPC_zpx: "onlyPC zpx"
  by (simp add: onlyPC_def zpx_def Let_def)

lemma onlyPC_zpy: "onlyPC zpy"
  by (simp add: onlyPC_def zpy_def Let_def)

lemma onlyPC_abs_m: "onlyPC abs_m"
  by (simp add: onlyPC_def abs_m_def Let_def)

lemma onlyPC_absx: "onlyPC absx"
  by (simp add: onlyPC_def absx_def Let_def)

lemma onlyPC_absy: "onlyPC absy"
  by (simp add: onlyPC_def absy_def Let_def)

lemma onlyPC_ind: "onlyPC ind"
  by (simp add: onlyPC_def ind_def Let_def)

lemma onlyPC_indx: "onlyPC indx"
  by (simp add: onlyPC_def indx_def Let_def)

lemma onlyPC_indy: "onlyPC indy"
  by (simp add: onlyPC_def indy_def Let_def)

lemma onlyPC_rel: "onlyPC rel"
  by (simp add: onlyPC_def rel_def Let_def)


lemma onlyPC_frame:
  assumes "onlyPC mode"
  shows "frameOf (snd (mode s)) = frameOf s" and "cycles (snd (mode s)) = cycles s"
proof -
  from assms have eq: "snd (mode s) = s\<lparr>PC := PC (snd (mode s))\<rparr>"
    by (simp add: onlyPC_def)
  show "frameOf (snd (mode s)) = frameOf s"
    by (subst eq) simp
  show "cycles (snd (mode s)) = cycles s"
    by (subst eq) simp
qed

lemma frame_after_mode:
  assumes "onlyPC mode" and "keepsFrame g"
  shows "frameOf (g (snd (mode s))) = frameOf s \<and> cycles s \<le> cycles (g (snd (mode s)))"
proof -
  from assms(2) have "frameOf (g (snd (mode s))) = frameOf (snd (mode s))"
    and "cycles (snd (mode s)) \<le> cycles (g (snd (mode s)))"
    by (simp_all add: keepsFrame_def)
  with onlyPC_frame [OF assms(1), of s] show ?thesis by simp
qed

lemma frame_withValue:
  assumes "onlyPC mode" and "\<And>v. keepsFrame (oper v)"
  shows "keepsFrame (withValue mode oper)"
  using frame_after_mode [OF assms(1) assms(2)]
  by (simp add: keepsFrame_def withValue_def split_beta)

lemma frame_withAddress:
  assumes "onlyPC mode" and "\<And>v. keepsFrame (oper v)"
  shows "keepsFrame (withAddress mode oper)"
  using frame_after_mode [OF assms(1) assms(2)]
  by (simp add: keepsFrame_def withAddress_def split_beta)

lemma frame_operandOnly:
  assumes "onlyPC mode" and "keepsFrame oper"
  shows "keepsFrame (operandOnly mode oper)"
  using frame_after_mode [OF assms(1) assms(2)]
  by (simp add: keepsFrame_def operandOnly_def split_beta)

lemma frame_withValuePenalty:
  assumes "onlyPC mode" and "\<And>v. keepsFrame (oper v)"
  shows "keepsFrame (withValuePenalty mode oper)"
proof -
  have "frameOf (withValuePenalty mode oper s) = frameOf s \<and> cycles s \<le> cycles (withValuePenalty mode oper s)" for s
  proof -
    let ?m = "fst (mode s)" and ?s1 = "snd (mode s)"
    let ?s2 = "if pageCrossed ?m then ?s1\<lparr>cycles := cycles ?s1 + 1\<rparr> else ?s1"
    have a: "frameOf ?s2 = frameOf s" "cycles s \<le> cycles ?s2"
      using onlyPC_frame [OF assms(1), of s] by simp_all
    have b: "frameOf (oper (opvalue ?m) ?s2) = frameOf ?s2" "cycles ?s2 \<le> cycles (oper (opvalue ?m) ?s2)"
      using assms(2) [of "opvalue ?m"] by (simp_all add: keepsFrame_def)
    have c: "withValuePenalty mode oper s = oper (opvalue ?m) ?s2"
      by (simp add: withValuePenalty_def split_beta)
    show ?thesis using a b c by simp
  qed
  then show ?thesis by (simp add: keepsFrame_def)
qed

lemma frame_operandPenalty:
  assumes "onlyPC mode" and "keepsFrame oper"
  shows "keepsFrame (operandPenalty mode oper)"
proof -
  have "frameOf (operandPenalty mode oper s) = frameOf s \<and> cycles s \<le> cycles (operandPenalty mode oper s)" for s
  proof -
    let ?m = "fst (mode s)" and ?s1 = "snd (mode s)"
    let ?s2 = "if pageCrossed ?m then ?s1\<lparr>cycles := cycles ?s1 + 1\<rparr> else ?s1"
    have a: "frameOf ?s2 = frameOf s" "cycles s \<le> cycles ?s2"
      using onlyPC_frame [OF assms(1), of s] by simp_all
    have b: "frameOf (oper ?s2) = frameOf ?s2" "cycles ?s2 \<le> cycles (oper ?s2)"
      using assms(2) by (simp_all add: keepsFrame_def)
    have c: "operandPenalty mode oper s = oper ?s2"
      by (simp add: operandPenalty_def split_beta)
    show ?thesis using a b c by simp
  qed
  then show ?thesis by (simp add: keepsFrame_def)
qed

lemmas frame_ops = frame_LDA frame_STA frame_LDX frame_STX frame_LDY frame_STY frame_INC frame_DEC frame_JMP frame_JSR frame_BCC frame_BCS frame_BEQ frame_BNE frame_BPL frame_BMI frame_BVC frame_BVS frame_ADC frame_SBC frame_AND_m frame_ORA frame_EOR frame_CMP frame_CPX frame_CPY frame_BIT frame_ASL frame_LSR frame_ROL frame_ROR frame_LAX frame_SAX frame_DCP frame_ISC frame_SLO frame_RLA frame_SRE frame_RRA frame_ANC frame_ALR frame_ARR frame_XAA frame_AXS frame_SHY frame_SHX frame_TAX frame_TXA frame_TAY frame_TYA frame_TSX frame_TXS frame_PHA frame_PLA frame_PHP frame_PLP frame_INX frame_DEX frame_INY frame_DEY frame_CLC frame_SEC frame_CLI frame_SEI frame_CLV frame_CLD frame_SED frame_NOP frame_RTS frame_BRK frame_RTI frame_ASL_A frame_LSR_A frame_ROL_A frame_ROR_A frame_KIL
lemmas onlyPC_modes = onlyPC_imm onlyPC_zp onlyPC_zpx onlyPC_zpy onlyPC_abs_m onlyPC_absx onlyPC_absy onlyPC_ind onlyPC_indx onlyPC_indy onlyPC_rel
lemmas frame_shapes = frame_withValue frame_withAddress frame_operandOnly frame_withValuePenalty frame_operandPenalty

lemma frame_assigned: "\<forall>(k, f) \<in> set assigned. keepsFrame f"
  by (simp add: assigned_def frame_ops onlyPC_modes frame_shapes)

lemma frame_instructionMap:
  assumes "instructionMap i = Some f"
  shows "keepsFrame f"
proof (cases "map_of assigned i")
  case None
  with assms have "f = KIL"
    by (simp add: instructionMap_def split: if_splits)
  then show ?thesis by (simp add: frame_KIL)
next
  case (Some g)
  with assms have "f = g"
    by (simp add: instructionMap_def split: if_splits)
  moreover from Some have "(i, g) \<in> set assigned"
    by (rule map_of_SomeD)
  ultimately show ?thesis using frame_assigned by auto
qed

lemma fetchExecute_progress:
  "totalCycles (fetchExecute s) = totalCycles s + cycles (fetchExecute s)"
  "2 \<le> cycles (fetchExecute s)"
  "breakFlag (fetchExecute s) = breakFlag s"
  "nmiEdge (fetchExecute s) = nmiEdge s"
  "opcode (fetchExecute s) = read s (PC s)"
proof -
  define s2 where "s2 = s\<lparr>opcode := read s (PC s), PC := PC s + 1, cycles := baseCycles (read s (PC s))\<rparr>"
  define s3 where "s3 = (case instructionMap (read s (PC s) AND 0xFF) of Some instr \<Rightarrow> instr s2 | None \<Rightarrow> s2)"
  have fe: "fetchExecute s = s3\<lparr>totalCycles := totalCycles s3 + cycles s3\<rparr>"
    by (cases "instructionMap (read s (PC s) AND 0xFF)")
      (simp_all add: fetchExecute_def Let_def s3_def s2_def)
  have k: "frameOf s3 = frameOf s2 \<and> cycles s2 \<le> cycles s3"
  proof (cases "instructionMap (read s (PC s) AND 0xFF)")
    case None
    then show ?thesis by (simp add: s3_def)
  next
    case (Some f)
    then have "keepsFrame f" by (rule frame_instructionMap)
    with Some show ?thesis by (simp add: keepsFrame_def s3_def)
  qed
  have c2: "cycles s2 = baseCycles (read s (PC s))" "frameOf s2 = frameOf (s\<lparr>opcode := read s (PC s)\<rparr>)"
    by (simp_all add: s2_def frameOf_def)
  show "totalCycles (fetchExecute s) = totalCycles s + cycles (fetchExecute s)"
    using k c2 by (simp add: fe frameOf_def)
  show "2 \<le> cycles (fetchExecute s)"
    using k c2 baseCycles_ge2 [of "read s (PC s)"] by (simp add: fe)
  show "breakFlag (fetchExecute s) = breakFlag s"
    using k c2 by (simp add: fe frameOf_def)
  show "nmiEdge (fetchExecute s) = nmiEdge s"
    using k c2 by (simp add: fe frameOf_def)
  show "opcode (fetchExecute s) = read s (PC s)"
    using k c2 by (simp add: fe frameOf_def)
qed

lemma handleNMI_idle: "\<not> nmiEdge s \<Longrightarrow> handleNMI s = (False, s)"
  by (simp add: handleNMI_def)

lemma handleNMI_serviced:
  assumes "nmiEdge s"
  shows "fst (handleNMI s)"
    and "cycles (snd (handleNMI s)) = 7"
    and "totalCycles (snd (handleNMI s)) = totalCycles s + 7"
    and "breakFlag (snd (handleNMI s)) = breakFlag s"
    and "\<not> nmiEdge (snd (handleNMI s))"
  using assms frame_push by (simp_all add: handleNMI_def Let_def frameOf_def)

lemma step_progress:
  assumes "\<not> breakFlag s"
  shows "totalCycles (step s) = totalCycles s + cycles (step s)"
    and "2 \<le> cycles (step s)"
    and "\<not> breakFlag (step s)"
proof -
  show "totalCycles (step s) = totalCycles s + cycles (step s)"
    using assms handleNMI_serviced [of s] handleNMI_idle [of s] fetchExecute_progress [of s]
    by (cases "nmiEdge s") (simp_all add: step_def split_beta)
  show "2 \<le> cycles (step s)"
    using assms handleNMI_serviced [of s] handleNMI_idle [of s] fetchExecute_progress [of s]
    by (cases "nmiEdge s") (simp_all add: step_def split_beta)
  show "\<not> breakFlag (step s)"
    using assms handleNMI_serviced [of s] handleNMI_idle [of s] fetchExecute_progress [of s]
    by (cases "nmiEdge s") (simp_all add: step_def split_beta)
qed

lemma step_break: "breakFlag s \<Longrightarrow> step s = s\<lparr>breakFlag := False\<rparr>"
  by (simp add: step_def)

termination runLoop
proof (relation "measure (\<lambda>(goal, s). nat (2 * (goal - totalCycles s)) + (if breakFlag s then 1 else 0))")
  show "wf (measure (\<lambda>(goal, s). nat (2 * (goal - totalCycles s)) + (if breakFlag s then 1 else 0)))"
    by simp
next
  fix goal :: int and s :: cpu
  assume lt: "totalCycles s < goal"
  show "((goal, step s), (goal, s)) \<in> measure (\<lambda>(goal, s). nat (2 * (goal - totalCycles s)) + (if breakFlag s then 1 else 0))"
  proof (cases "breakFlag s")
    case True
    then show ?thesis by (simp add: step_break)
  next
    case False
    from step_progress [OF False] lt show ?thesis by simp
  qed
qed

subsection \<open>Indirect jump\<close>



lemma indirect_jmp_no_bug_example:
  "address (fst (ind (jmpBugState\<lparr>emulateIndirectJMPBug := False\<rparr>))) = 0x5634"
  by (simp add: jmpBugState_def mose_def ramSizeMap_def read_def ind_def Let_def)


subsection \<open>Decimal mode addition\<close>

lemma ADC_decimal_state:
  assumes "D s \<noteq> 0"
    and "v = v0 AND 0xFF"
    and "c = (if C s \<noteq> 0 then 1 else 0)"
    and "al0 = (A s AND 0x0F) + (v AND 0x0F) + c"
    and "ah0 = drop_bit 4 (A s) + drop_bit 4 v"
    and "al = (if al0 > 9 then al0 + 6 else al0)"
    and "ah1 = (if al0 > 9 then ah0 + 1 else ah0)"
    and "ah = (if ah1 > 9 then ah1 + 6 else ah1)"
    and "b = A s + v + c"
  shows "ADC v0 s =
     (setZN (b AND 0xFF) s)
       \<lparr>V := (if (NOT (A s XOR v) AND (A s XOR b)) AND 0x80 \<noteq> 0 then 1 else 0),
        C := (if ah > 15 then 1 else 0),
        A := (push_bit 4 ah OR (al AND 0x0F)) AND 0xFF\<rparr>"
  unfolding ADC_def Let_def
  by (simp only: assms if_False setZN_fields)




text \<open>
  What \<open>decimalAdd\<close> computes on valid packed BCD: for decimal digits \<open>a1 a0\<close> and
  \<open>v1 v0\<close>, the two digits of the sum modulo 100, and a carry when the sum reaches 100.
\<close>

lemma decimalAdd_bcd:
  assumes "0 \<le> a1" "a1 \<le> 9" "0 \<le> a0" "a0 \<le> 9" "0 \<le> v1" "v1 \<le> 9" "0 \<le> v0" "v0 \<le> 9"
    and "c = 0 \<or> c = 1"
    and "t = 10 * a1 + a0 + 10 * v1 + v0 + c"
  shows "decimalAdd (16 * a1 + a0) (16 * v1 + v0) c =
           (16 * ((t div 10) mod 10) + t mod 10, if 100 \<le> t then 1 else 0)"
proof -
  have m: "(16 * a1 + a0) mod 16 = a0" "(16 * v1 + v0) mod 16 = v0"
    "(16 * a1 + a0) div 16 = a1" "(16 * v1 + v0) div 16 = v1"
    using assms by simp_all
  define l where "l = a0 + v0 + c"
  define lc where "lc = (if l > 9 then 1 else 0::int)"
  define h where "h = a1 + v1 + lc"
  define l' where "l' = l - 10 * lc"
  define hc where "hc = (if h > 9 then 1 else 0::int)"
  define h' where "h' = h - 10 * hc"
  have lr: "0 \<le> l" "l \<le> 19" using assms by (auto simp: l_def)
  have hr: "0 \<le> h" "h \<le> 19" using assms by (auto simp: h_def lc_def)
  have l'r: "0 \<le> l'" "l' < 10" using lr by (auto simp: l'_def lc_def)
  have h'r: "0 \<le> h'" "h' < 10" using hr by (auto simp: h'_def hc_def)
  have t1: "t = 10 * h + l'" using assms by (simp add: l_def h_def l'_def)
  have t2: "h = 10 * hc + h'" by (simp add: h'_def)
  have tm: "t mod 10 = l'" using t1 l'r by (rule int_mod_pos_eq)
  have td: "t div 10 = h" using t1 l'r by (rule int_div_pos_eq)
  have hm: "h mod 10 = h'" using t2 h'r by (rule int_mod_pos_eq)
  have low: "(if l > 9 then l + 6 else l) mod 16 = l'"
  proof (cases "l > 9")
    case True
    then have "l + 6 = 16 * 1 + l'" by (simp add: l'_def lc_def)
    then have "(l + 6) mod 16 = l'" using l'r by (intro int_mod_pos_eq) auto
    with True show ?thesis by simp
  next
    case False
    then have "l = 16 * 0 + l'" by (simp add: l'_def lc_def)
    then have "l mod 16 = l'" using l'r by (intro int_mod_pos_eq) auto
    with False show ?thesis by simp
  qed
  have high: "(if h > 9 then h + 6 else h) mod 16 = h'"
  proof (cases "h > 9")
    case True
    then have "h + 6 = 16 * 1 + h'" by (simp add: h'_def hc_def)
    then have "(h + 6) mod 16 = h'" using h'r by (intro int_mod_pos_eq) auto
    with True show ?thesis by simp
  next
    case False
    then have "h = 16 * 0 + h'" by (simp add: h'_def hc_def)
    then have "h mod 16 = h'" using h'r by (intro int_mod_pos_eq) auto
    with False show ?thesis by simp
  qed
  have carry: "((if h > 9 then h + 6 else h) > 15) = (100 \<le> t)"
    using hr l'r t1 by (cases "h > 9") auto
  have hs: "a1 + v1 + (if l > 9 then 1 else 0) = h"
    by (simp add: h_def lc_def)
  have "decimalAdd (16 * a1 + a0) (16 * v1 + v0) c =
          ((if h > 9 then h + 6 else h) mod 16 * 16 + (if l > 9 then l + 6 else l) mod 16,
           if (if h > 9 then h + 6 else h) > 15 then 1 else 0)"
    unfolding decimalAdd_def Let_def
    by (simp only: m l_def [symmetric] hs)
  then show ?thesis
    by (simp add: low high carry tm td hm)
qed

subsection \<open>Non-maskable interrupt\<close>

lemma mose_ramLength: "0x1000 \<le> ramLength (mose k)"
  by (simp add: mose_def ramSizeMap_def)

lemma status_bit4_clear: "\<not> bit (((x::int) AND NOT 0x10) mod 256) 4"
proof -
  have "(0x10::int) = 2 ^ 4" by simp
  then have "\<not> bit (x AND NOT 0x10) 4"
    by (simp only: bit_and_iff bit_not_iff bit_exp_iff) simp
  then show ?thesis
    using take_bit_eq_mod [of 8 "x AND NOT 0x10"] bit_take_bit_iff [of 8 "x AND NOT 0x10" 4]
    by simp
qed

lemma status_B_forced_0:
  assumes "flagsOK s"
  shows "(getStatus s AND NOT 0x10) mod 256 = getStatus (s\<lparr>B := 0\<rparr>)"
  using assms
  apply (simp add: flagsOK_def isFlag_def getStatus_def)
  apply (elim conjE disjE)
  apply simp_all
  done

text \<open>
  Claim C1, as amended. For every state with no break request pending (\<open>_breakFlag\<close>
  clear) whose memory array holds the stack page (every array the constructor makes
  does), \<open>triggerNMI\<close> followed by one \<open>step\<close> gives exactly the state in which the high
  byte of \<open>PC\<close>, the low byte of \<open>PC\<close> and the status byte with bit 4 clear have been
  stored at \<open>0x100 + S\<close>, \<open>0x100 + (S - 1)\<close>, \<open>0x100 + (S - 2)\<close> (wrapping in the page),
  \<open>S\<close> is three lower, \<open>I = 1\<close>, \<open>PC\<close> is the little-endian word at 0xFFFA/0xFFFB,
  \<open>cycles = 7\<close>, \<open>totalCycles\<close> is 7 higher and the request is cleared; nothing else
  changes, so no opcode is fetched. For flags that are 0 or 1 the pushed byte is the
  status byte of the state with \<open>B = 0\<close>. The step after that is the plain fetch and
  execute of the byte at the new \<open>PC\<close>.
\<close>

theorem nmi_serviced_once:
  assumes "\<not> breakFlag s" and "0x200 \<le> ramLength s"
  shows "step (triggerNMI s) =
           s\<lparr>ram := (ram s)
                 (0x100 + S s mod 256 := (PC s div 256) mod 256,
                  0x100 + (S s - 1) mod 256 := PC s mod 256,
                  0x100 + (S s - 2) mod 256 := (getStatus s AND NOT 0x10) mod 256),
             S := (S s - 3) mod 256,
             I := 1,
             PC := read s 0xFFFA + 256 * read s 0xFFFB,
             cycles := 7,
             totalCycles := totalCycles s + 7,
             nmiPending := False,
             nmiEdge := False\<rparr> \<and>
         \<not> bit ((getStatus s AND NOT 0x10) mod 256) 4 \<and>
         (flagsOK s \<longrightarrow> (getStatus s AND NOT 0x10) mod 256 = getStatus (s\<lparr>B := 0\<rparr>)) \<and>
         step (step (triggerNMI s)) = fetchExecute (step (triggerNMI s)) \<and>
         opcode (step (step (triggerNMI s))) = read (step (triggerNMI s)) (PC (step (triggerNMI s)))"
proof -
  let ?t = "triggerNMI s"
  have t: "nmiEdge ?t" "\<not> breakFlag ?t" "0x200 \<le> ramLength ?t"
    using assms by (simp_all add: triggerNMI_def)
  have h: "handleNMI ?t = (True, s\<lparr>ram := (ram s)
                 (0x100 + S s mod 256 := (PC s div 256) mod 256,
                  0x100 + (S s - 1) mod 256 := PC s mod 256,
                  0x100 + (S s - 2) mod 256 := (getStatus s AND NOT 0x10) mod 256),
             S := (S s - 3) mod 256,
             I := 1,
             PC := read s 0xFFFA + 256 * read s 0xFFFB,
             cycles := 7,
             totalCycles := totalCycles s + 7,
             nmiPending := False,
             nmiEdge := False\<rparr>)"
    unfolding handleNMI_state [OF t(1) t(3)] by (simp add: triggerNMI_def)
  have first: "step ?t = s\<lparr>ram := (ram s)
                 (0x100 + S s mod 256 := (PC s div 256) mod 256,
                  0x100 + (S s - 1) mod 256 := PC s mod 256,
                  0x100 + (S s - 2) mod 256 := (getStatus s AND NOT 0x10) mod 256),
             S := (S s - 3) mod 256,
             I := 1,
             PC := read s 0xFFFA + 256 * read s 0xFFFB,
             cycles := 7,
             totalCycles := totalCycles s + 7,
             nmiPending := False,
             nmiEdge := False\<rparr>"
    using t(2) by (simp add: step_def h)
  have quiet: "\<not> breakFlag (step ?t)" "\<not> nmiEdge (step ?t)"
    using assms(1) by (simp_all add: first)
  have second: "step (step ?t) = fetchExecute (step ?t)"
    using quiet by (simp add: step_def handleNMI_idle)
  have op: "opcode (step (step ?t)) = read (step ?t) (PC (step ?t))"
    unfolding second by (rule fetchExecute_progress(5))
  show ?thesis
    using first second op status_bit4_clear [of "getStatus s"] status_B_forced_0 [of s]
    by blast
qed

theorem nmi_serviced_once_witness:
  "\<not> breakFlag nmiState \<and> 0x200 \<le> ramLength nmiState \<and> flagsOK nmiState \<and>
   PC (step (triggerNMI nmiState)) = 0x8000 \<and>
   S (step (triggerNMI nmiState)) = 0xFC \<and>
   read (step (triggerNMI nmiState)) 0x1FF = 0x06 \<and>
   read (step (triggerNMI nmiState)) 0x1FE = 0x01 \<and>
   read (step (triggerNMI nmiState)) 0x1FD = 0x21 \<and>
   read (step (triggerNMI nmiState)) 0x8000 = 0xA9 \<and>
   I (step (triggerNMI nmiState)) = 1 \<and>
   cycles (step (triggerNMI nmiState)) = 7 \<and>
   opcode (step (step (triggerNMI nmiState))) = 0xA9"
proof -
  have pre: "\<not> breakFlag nmiState" "0x200 \<le> ramLength nmiState"
    by (simp_all add: nmiState_def mose_def ramSizeMap_def)
  have fl: "flagsOK nmiState"
    by (simp add: nmiState_def mose_def flagsOK_def isFlag_def)
  note th = nmi_serviced_once [OF pre]
  have a: "PC (step (triggerNMI nmiState)) = 0x8000 \<and>
   S (step (triggerNMI nmiState)) = 0xFC \<and>
   read (step (triggerNMI nmiState)) 0x1FF = 0x06 \<and>
   read (step (triggerNMI nmiState)) 0x1FE = 0x01 \<and>
   read (step (triggerNMI nmiState)) 0x1FD = 0x21 \<and>
   read (step (triggerNMI nmiState)) 0x8000 = 0xA9 \<and>
   I (step (triggerNMI nmiState)) = 1 \<and>
   cycles (step (triggerNMI nmiState)) = 7"
    unfolding th [THEN conjunct1]
    by (simp add: nmiState_def mose_def ramSizeMap_def read_def getStatus_def)
  have b: "opcode (step (step (triggerNMI nmiState))) =
      read (step (triggerNMI nmiState)) (PC (step (triggerNMI nmiState)))"
    using th by blast
  from a b have "opcode (step (step (triggerNMI nmiState))) = 0xA9" by simp
  with pre fl a show ?thesis by blast
qed

text \<open>
  The claim as stated, for every state, fails when a break request is pending: the
  step after \<open>triggerNMI\<close> only clears the request for the break, pushes nothing,
  leaves \<open>PC\<close> alone and keeps the NMI latched; the step after that one services it.
\<close>

theorem nmi_break_pending_counterexample:
  "step (triggerNMI (triggerBreak nmiState)) = (triggerNMI nmiState) \<and>
   S (step (triggerNMI (triggerBreak nmiState))) = 0xFF \<and>
   PC (step (triggerNMI (triggerBreak nmiState))) = 0x0601 \<and>
   nmiEdge (step (triggerNMI (triggerBreak nmiState))) \<and>
   PC (step (step (triggerNMI (triggerBreak nmiState)))) = 0x8000"
  by (simp add: step_def triggerNMI_def triggerBreak_def nmiState_def mose_def ramSizeMap_def
      handleNMI_state read_def)

subsection \<open>The stack pointer under the instruction handlers\<close>

lemma S_write_m [simp]: "S (write_m a v s) = S s"
  by (simp add: write_m_def Let_def)

lemma S_setStatus [simp]: "S (setStatus v s) = S s"
  by (simp add: setStatus_def)

lemma onlyPC_S:
  assumes "onlyPC mode"
  shows "S (snd (mode s)) = S s"
proof -
  from assms have eq: "snd (mode s) = s\<lparr>PC := PC (snd (mode s))\<rparr>"
    by (simp add: onlyPC_def)
  show ?thesis by (subst eq) simp
qed

lemma keepsS_TAX: "keepsS TAX"
  by (simp add: keepsS_def TAX_def Let_def)

lemma keepsS_TXA: "keepsS TXA"
  by (simp add: keepsS_def TXA_def Let_def)

lemma keepsS_TAY: "keepsS TAY"
  by (simp add: keepsS_def TAY_def Let_def)

lemma keepsS_TYA: "keepsS TYA"
  by (simp add: keepsS_def TYA_def Let_def)

lemma keepsS_TSX: "keepsS TSX"
  by (simp add: keepsS_def TSX_def Let_def)

lemma keepsS_INX: "keepsS INX"
  by (simp add: keepsS_def INX_def Let_def)

lemma keepsS_DEX: "keepsS DEX"
  by (simp add: keepsS_def DEX_def Let_def)

lemma keepsS_INY: "keepsS INY"
  by (simp add: keepsS_def INY_def Let_def)

lemma keepsS_DEY: "keepsS DEY"
  by (simp add: keepsS_def DEY_def Let_def)

lemma keepsS_CLC: "keepsS CLC"
  by (simp add: keepsS_def CLC_def Let_def)

lemma keepsS_SEC: "keepsS SEC"
  by (simp add: keepsS_def SEC_def Let_def)

lemma keepsS_CLI: "keepsS CLI"
  by (simp add: keepsS_def CLI_def Let_def)

lemma keepsS_SEI: "keepsS SEI"
  by (simp add: keepsS_def SEI_def Let_def)

lemma keepsS_CLV: "keepsS CLV"
  by (simp add: keepsS_def CLV_def Let_def)

lemma keepsS_CLD: "keepsS CLD"
  by (simp add: keepsS_def CLD_def Let_def)

lemma keepsS_SED: "keepsS SED"
  by (simp add: keepsS_def SED_def Let_def)

lemma keepsS_NOP: "keepsS NOP"
  by (simp add: keepsS_def NOP_def Let_def)

lemma keepsS_ASL_A: "keepsS ASL_A"
  by (simp add: keepsS_def ASL_A_def Let_def)

lemma keepsS_LSR_A: "keepsS LSR_A"
  by (simp add: keepsS_def LSR_A_def Let_def)

lemma keepsS_ROL_A: "keepsS ROL_A"
  by (simp add: keepsS_def ROL_A_def Let_def)

lemma keepsS_ROR_A: "keepsS ROR_A"
  by (simp add: keepsS_def ROR_A_def Let_def)

lemma keepsS_KIL: "keepsS KIL"
  by (simp add: keepsS_def KIL_def Let_def)

lemma keepsS_LDA: "keepsS (LDA v)"
  by (simp add: keepsS_def LDA_def  branchTaken_def Let_def)

lemma keepsS_STA: "keepsS (STA v)"
  by (simp add: keepsS_def STA_def  branchTaken_def Let_def)

lemma keepsS_LDX: "keepsS (LDX v)"
  by (simp add: keepsS_def LDX_def  branchTaken_def Let_def)

lemma keepsS_STX: "keepsS (STX v)"
  by (simp add: keepsS_def STX_def  branchTaken_def Let_def)

lemma keepsS_LDY: "keepsS (LDY v)"
  by (simp add: keepsS_def LDY_def  branchTaken_def Let_def)

lemma keepsS_STY: "keepsS (STY v)"
  by (simp add: keepsS_def STY_def  branchTaken_def Let_def)

lemma keepsS_INC: "keepsS (INC v)"
  by (simp add: keepsS_def INC_def  branchTaken_def Let_def)

lemma keepsS_DEC: "keepsS (DEC v)"
  by (simp add: keepsS_def DEC_def  branchTaken_def Let_def)

lemma keepsS_JMP: "keepsS (JMP v)"
  by (simp add: keepsS_def JMP_def  branchTaken_def Let_def)

lemma keepsS_BCC: "keepsS (BCC v)"
  by (simp add: keepsS_def BCC_def  branchTaken_def Let_def)

lemma keepsS_BCS: "keepsS (BCS v)"
  by (simp add: keepsS_def BCS_def  branchTaken_def Let_def)

lemma keepsS_BEQ: "keepsS (BEQ v)"
  by (simp add: keepsS_def BEQ_def  branchTaken_def Let_def)

lemma keepsS_BNE: "keepsS (BNE v)"
  by (simp add: keepsS_def BNE_def  branchTaken_def Let_def)

lemma keepsS_BPL: "keepsS (BPL v)"
  by (simp add: keepsS_def BPL_def  branchTaken_def Let_def)

lemma keepsS_BMI: "keepsS (BMI v)"
  by (simp add: keepsS_def BMI_def  branchTaken_def Let_def)

lemma keepsS_BVC: "keepsS (BVC v)"
  by (simp add: keepsS_def BVC_def  branchTaken_def Let_def)

lemma keepsS_BVS: "keepsS (BVS v)"
  by (simp add: keepsS_def BVS_def  branchTaken_def Let_def)

lemma keepsS_ADC: "keepsS (ADC v)"
  by (simp add: keepsS_def ADC_def  branchTaken_def Let_def)

lemma keepsS_SBC: "keepsS (SBC v)"
  by (simp add: keepsS_def SBC_def ADC_def branchTaken_def Let_def)

lemma keepsS_AND_m: "keepsS (AND_m v)"
  by (simp add: keepsS_def AND_m_def  branchTaken_def Let_def)

lemma keepsS_ORA: "keepsS (ORA v)"
  by (simp add: keepsS_def ORA_def  branchTaken_def Let_def)

lemma keepsS_EOR: "keepsS (EOR v)"
  by (simp add: keepsS_def EOR_def  branchTaken_def Let_def)

lemma keepsS_CMP: "keepsS (CMP v)"
  by (simp add: keepsS_def CMP_def  branchTaken_def Let_def)

lemma keepsS_CPX: "keepsS (CPX v)"
  by (simp add: keepsS_def CPX_def  branchTaken_def Let_def)

lemma keepsS_CPY: "keepsS (CPY v)"
  by (simp add: keepsS_def CPY_def  branchTaken_def Let_def)

lemma keepsS_BIT: "keepsS (BIT v)"
  by (simp add: keepsS_def BIT_def  branchTaken_def Let_def)

lemma keepsS_ASL: "keepsS (ASL v)"
  by (simp add: keepsS_def ASL_def  branchTaken_def Let_def)

lemma keepsS_LSR: "keepsS (LSR v)"
  by (simp add: keepsS_def LSR_def  branchTaken_def Let_def)

lemma keepsS_ROL: "keepsS (ROL v)"
  by (simp add: keepsS_def ROL_def  branchTaken_def Let_def)

lemma keepsS_ROR: "keepsS (ROR v)"
  by (simp add: keepsS_def ROR_def  branchTaken_def Let_def)

lemma keepsS_LAX: "keepsS (LAX v)"
  by (simp add: keepsS_def LAX_def  branchTaken_def Let_def)

lemma keepsS_SAX: "keepsS (SAX v)"
  by (simp add: keepsS_def SAX_def  branchTaken_def Let_def)

lemma keepsS_DCP: "keepsS (DCP v)"
  by (simp add: keepsS_def DCP_def DEC_def CMP_def branchTaken_def Let_def)

lemma keepsS_ISC: "keepsS (ISC v)"
  by (simp add: keepsS_def ISC_def INC_def SBC_def ADC_def branchTaken_def Let_def)

lemma keepsS_SLO: "keepsS (SLO v)"
  by (simp add: keepsS_def SLO_def ASL_def ORA_def branchTaken_def Let_def)

lemma keepsS_RLA: "keepsS (RLA v)"
  by (simp add: keepsS_def RLA_def ROL_def AND_m_def branchTaken_def Let_def)

lemma keepsS_SRE: "keepsS (SRE v)"
  by (simp add: keepsS_def SRE_def LSR_def EOR_def branchTaken_def Let_def)

lemma keepsS_RRA: "keepsS (RRA v)"
  by (simp add: keepsS_def RRA_def ROR_def ADC_def branchTaken_def Let_def)

lemma keepsS_ANC: "keepsS (ANC v)"
  by (simp add: keepsS_def ANC_def AND_m_def branchTaken_def Let_def)

lemma keepsS_ALR: "keepsS (ALR v)"
  by (simp add: keepsS_def ALR_def AND_m_def LSR_A_def branchTaken_def Let_def)

lemma keepsS_ARR: "keepsS (ARR v)"
  by (simp add: keepsS_def ARR_def AND_m_def ROR_A_def branchTaken_def Let_def)

lemma keepsS_XAA: "keepsS (XAA v)"
  by (simp add: keepsS_def XAA_def  branchTaken_def Let_def)

lemma keepsS_AXS: "keepsS (AXS v)"
  by (simp add: keepsS_def AXS_def  branchTaken_def Let_def)

lemma keepsS_SHY: "keepsS (SHY v)"
  by (simp add: keepsS_def SHY_def  branchTaken_def Let_def)

lemma keepsS_SHX: "keepsS (SHX v)"
  by (simp add: keepsS_def SHX_def  branchTaken_def Let_def)

lemma keepsS_withValue:
  assumes "onlyPC mode" and "\<And>v. keepsS (oper v)"
  shows "keepsS (withValue mode oper)"
  using assms(2) onlyPC_S [OF assms(1)]
  by (simp add: keepsS_def withValue_def split_beta)

lemma keepsS_withAddress:
  assumes "onlyPC mode" and "\<And>v. keepsS (oper v)"
  shows "keepsS (withAddress mode oper)"
  using assms(2) onlyPC_S [OF assms(1)]
  by (simp add: keepsS_def withAddress_def split_beta)

lemma keepsS_operandOnly:
  assumes "onlyPC mode" and "keepsS oper"
  shows "keepsS (operandOnly mode oper)"
  using assms(2) onlyPC_S [OF assms(1)]
  by (simp add: keepsS_def operandOnly_def split_beta)

lemma keepsS_withValuePenalty:
  assumes "onlyPC mode" and "\<And>v. keepsS (oper v)"
  shows "keepsS (withValuePenalty mode oper)"
  using assms(2) onlyPC_S [OF assms(1)]
  by (simp add: keepsS_def withValuePenalty_def split_beta)

lemma keepsS_operandPenalty:
  assumes "onlyPC mode" and "keepsS oper"
  shows "keepsS (operandPenalty mode oper)"
  using assms(2) onlyPC_S [OF assms(1)]
  by (simp add: keepsS_def operandPenalty_def split_beta)

lemmas keepsS_ops = keepsS_LDA keepsS_STA keepsS_LDX keepsS_STX keepsS_LDY keepsS_STY keepsS_INC keepsS_DEC keepsS_JMP keepsS_BCC keepsS_BCS keepsS_BEQ keepsS_BNE keepsS_BPL keepsS_BMI keepsS_BVC keepsS_BVS keepsS_ADC keepsS_SBC keepsS_AND_m keepsS_ORA keepsS_EOR keepsS_CMP keepsS_CPX keepsS_CPY keepsS_BIT keepsS_ASL keepsS_LSR keepsS_ROL keepsS_ROR keepsS_LAX keepsS_SAX keepsS_DCP keepsS_ISC keepsS_SLO keepsS_RLA keepsS_SRE keepsS_RRA keepsS_ANC keepsS_ALR keepsS_ARR keepsS_XAA keepsS_AXS keepsS_SHY keepsS_SHX keepsS_TAX keepsS_TXA keepsS_TAY keepsS_TYA keepsS_TSX keepsS_INX keepsS_DEX keepsS_INY keepsS_DEY keepsS_CLC keepsS_SEC keepsS_CLI keepsS_SEI keepsS_CLV keepsS_CLD keepsS_SED keepsS_NOP keepsS_ASL_A keepsS_LSR_A keepsS_ROL_A keepsS_ROR_A keepsS_KIL
lemmas keepsS_shapes = keepsS_withValue keepsS_withAddress keepsS_operandOnly keepsS_withValuePenalty keepsS_operandPenalty

lemma keepsS_assigned: "\<forall>(k, f) \<in> set assigned. k \<notin> set stackOpcodes \<longrightarrow> keepsS f"
  by (simp add: assigned_def stackOpcodes_def keepsS_ops onlyPC_modes keepsS_shapes)

lemma keepsS_instructionMap:
  assumes "instructionMap i = Some f" and "i \<notin> set stackOpcodes"
  shows "keepsS f"
proof (cases "map_of assigned i")
  case None
  with assms have "f = KIL"
    by (simp add: instructionMap_def split: if_splits)
  then show ?thesis by (simp add: keepsS_KIL)
next
  case (Some g)
  with assms have "f = g"
    by (simp add: instructionMap_def split: if_splits)
  moreover from Some have "(i, g) \<in> set assigned"
    by (rule map_of_SomeD)
  ultimately show ?thesis using keepsS_assigned assms(2) by auto
qed

lemma fetchExecute_S:
  assumes "read s (PC s) \<notin> set stackOpcodes"
  shows "S (fetchExecute s) = S s"
proof -
  define s2 where "s2 = s\<lparr>opcode := read s (PC s), PC := PC s + 1, cycles := baseCycles (read s (PC s))\<rparr>"
  define s3 where "s3 = (case instructionMap (read s (PC s) AND 0xFF) of Some instr \<Rightarrow> instr s2 | None \<Rightarrow> s2)"
  have fe: "fetchExecute s = s3\<lparr>totalCycles := totalCycles s3 + cycles s3\<rparr>"
    by (cases "instructionMap (read s (PC s) AND 0xFF)")
      (simp_all add: fetchExecute_def Let_def s3_def s2_def)
  have byte: "read s (PC s) AND 0xFF = read s (PC s)"
    using read_range [of s "PC s"] by (simp add: and_255)
  have "S s3 = S s2"
  proof (cases "instructionMap (read s (PC s) AND 0xFF)")
    case None
    then show ?thesis by (simp add: s3_def)
  next
    case (Some f)
    with assms byte have "keepsS f" by (simp add: keepsS_instructionMap)
    with Some show ?thesis by (simp add: keepsS_def s3_def)
  qed
  then show ?thesis by (simp add: fe s2_def)
qed

subsection \<open>Reset\<close>

lemma le_word:
  assumes "0 \<le> lo" "lo < 256" "0 \<le> hi" "hi < 256"
  shows "(push_bit 8 hi OR lo) AND 0xFFFF = lo + 256 * (hi::int)"
proof -
  have "push_bit 8 hi OR lo = hi * 256 + lo"
    using assms(1,2) by (rule push8_or)
  moreover have "(hi * 256 + lo) mod 65536 = hi * 256 + lo"
    using assms by (intro mod_pos_pos_trivial) linarith+
  ultimately show ?thesis by (simp add: and_65535)
qed

lemma reset_state:
  "reset s = s\<lparr>A := 0, X := 0, Y := 0, S := 0xFF,
               C := 0, Z := 0, I := 1, D := 0, B := 0, V := 0, N := 0,
               PC := read s 0xFFFC + 256 * read s 0xFFFD,
               cycles := 7, totalCycles := totalCycles s + 7,
               breakFlag := False, nmiPending := False, nmiEdge := False\<rparr>"
  by (simp add: reset_def Let_def le_word read_range)

text \<open>
  Claim C10, as amended. For every state, \<open>triggerNMI\<close> followed by \<open>reset\<close> gives the
  very state \<open>reset\<close> alone gives: no NMI edge is latched. The next \<open>step\<close> is
  therefore the plain fetch and execute of the byte at the reset-vector target: the
  interrupt sequencer pushes nothing, and the stack pointer stays at 0xFF unless the
  fetched opcode is itself a stack instruction (one of \<open>stackOpcodes\<close>).
\<close>

theorem reset_discards_nmi:
  "reset (triggerNMI s) = reset s \<and>
   \<not> nmiEdge (reset (triggerNMI s)) \<and>
   PC (reset (triggerNMI s)) = read s 0xFFFC + 256 * read s 0xFFFD \<and>
   S (reset (triggerNMI s)) = 0xFF \<and>
   step (reset (triggerNMI s)) = fetchExecute (reset s) \<and>
   opcode (step (reset (triggerNMI s))) = read s (read s 0xFFFC + 256 * read s 0xFFFD) \<and>
   (read s (read s 0xFFFC + 256 * read s 0xFFFD) \<notin> set stackOpcodes \<longrightarrow>
      S (step (reset (triggerNMI s))) = 0xFF)"
proof -
  have same: "reset (triggerNMI s) = reset s"
    by (simp add: reset_state triggerNMI_def)
  have quiet: "\<not> nmiEdge (reset s)" "\<not> breakFlag (reset s)"
    by (simp_all add: reset_state)
  have pc: "PC (reset s) = read s 0xFFFC + 256 * read s 0xFFFD" and sp: "S (reset s) = 0xFF"
    by (simp_all add: reset_state)
  have mem: "read (reset s) = read s"
    by (simp add: reset_state)
  have st: "step (reset s) = fetchExecute (reset s)"
    using quiet by (simp add: step_def handleNMI_idle)
  have op: "opcode (step (reset s)) = read s (read s 0xFFFC + 256 * read s 0xFFFD)"
    unfolding st fetchExecute_progress(5) mem pc ..
  have keep: "S (step (reset s)) = 0xFF"
    if "read s (read s 0xFFFC + 256 * read s 0xFFFD) \<notin> set stackOpcodes"
  proof -
    from that have "read (reset s) (PC (reset s)) \<notin> set stackOpcodes"
      by (simp add: mem pc)
    then have "S (fetchExecute (reset s)) = S (reset s)"
      by (rule fetchExecute_S)
    then show ?thesis by (simp only: st sp)
  qed
  show ?thesis
    unfolding same using quiet pc sp st op keep by blast
qed

theorem reset_discards_nmi_witness:
  "read resetState (read resetState 0xFFFC + 256 * read resetState 0xFFFD) \<notin> set stackOpcodes \<and>
   S (step (reset (triggerNMI resetState))) = 0xFF \<and>
   opcode (step (reset (triggerNMI resetState))) = 0xEA \<and>
   PC (reset (triggerNMI resetState)) = 0x0600"
proof -
  note th = reset_discards_nmi [of resetState]
  have v: "read resetState 0xFFFC + 256 * read resetState 0xFFFD = 0x0600"
    by (simp add: resetState_def mose_def ramSizeMap_def read_def)
  have o: "read resetState 0x0600 = 0xEA"
    by (simp add: resetState_def mose_def ramSizeMap_def read_def)
  have h: "read resetState (read resetState 0xFFFC + 256 * read resetState 0xFFFD) \<notin> set stackOpcodes"
    unfolding v o by (simp add: stackOpcodes_def)
  from th h have "S (step (reset (triggerNMI resetState))) = 0xFF" by blast
  moreover from th have "opcode (step (reset (triggerNMI resetState))) =
      read resetState (read resetState 0xFFFC + 256 * read resetState 0xFFFD)" by blast
  then have "opcode (step (reset (triggerNMI resetState))) = 0xEA" by (simp only: v o)
  moreover from th have "PC (reset (triggerNMI resetState)) =
      read resetState 0xFFFC + 256 * read resetState 0xFFFD" by blast
  then have "PC (reset (triggerNMI resetState)) = 0x0600" by (simp only: v)
  ultimately show ?thesis using h by blast
qed

text \<open>
  The claim as stated fails when the instruction at the reset target pushes: with
  \<open>PHP\<close> there, the step after \<open>triggerNMI\<close> and \<open>reset\<close> stores the status byte 0x34 at
  0x01FF and lowers \<open>S\<close> to 0xFE.
\<close>

theorem reset_then_push_counterexample:
  "opcode (step (reset (triggerNMI resetPushState))) = 0x08 \<and>
   S (reset (triggerNMI resetPushState)) = 0xFF \<and>
   S (step (reset (triggerNMI resetPushState))) = 0xFE \<and>
   read (reset (triggerNMI resetPushState)) 0x1FF = 0x00 \<and>
   read (step (reset (triggerNMI resetPushState))) 0x1FF = 0x34"
proof -
  have r: "reset (triggerNMI resetPushState) =
     resetPushState\<lparr>A := 0, X := 0, Y := 0, S := 0xFF,
               C := 0, Z := 0, I := 1, D := 0, B := 0, V := 0, N := 0,
               PC := 0x0600, cycles := 7, totalCycles := 7,
               breakFlag := False, nmiPending := False, nmiEdge := False\<rparr>"
    by (simp add: reset_state triggerNMI_def resetPushState_def resetState_def mose_def
        ramSizeMap_def read_def)
  have i: "instructionMap 0x08 = Some PHP"
    by (simp add: instructionMap_def assigned_def)
  have b: "baseCycles 0x08 = 3"
    by (simp add: baseCycles_def cycleTable_def)
  show ?thesis
    unfolding r
    by (simp add: step_def handleNMI_idle fetchExecute_def Let_def i b PHP_def push_state getStatus_def
        resetPushState_def resetState_def mose_def ramSizeMap_def read_def)
qed

subsection \<open>Revision r211225: handlers leave the counters alone\<close>

lemma frame'_write_m [simp]:
  "frameOf' (write_m' a v s) = frameOf' s" "cycles' (write_m' a v s) = cycles' s"
  by (simp_all add: write_m'_def frameOf'_def Let_def)

lemma frame'_push [simp]:
  "frameOf' (push' v s) = frameOf' s" "cycles' (push' v s) = cycles' s"
  using frame'_write_m by (simp_all add: push'_def frameOf'_def Let_def)

lemma frame'_pop [simp]:
  "frameOf' (snd (pop' s)) = frameOf' s" "cycles' (snd (pop' s)) = cycles' s"
  by (simp_all add: pop'_def frameOf'_def Let_def)

lemma frame'_setZN [simp]:
  "frameOf' (setZN' v s) = frameOf' s" "cycles' (setZN' v s) = cycles' s"
  by (simp_all add: setZN'_def frameOf'_def Let_def)

lemma frame'_setStatus [simp]:
  "frameOf' (setStatus' v s) = frameOf' s" "cycles' (setStatus' v s) = cycles' s"
  by (simp_all add: setStatus'_def frameOf'_def Let_def)

lemma frame'_upd [simp]:
  "frameOf' (s\<lparr>A' := a\<rparr>) = frameOf' s" "frameOf' (s\<lparr>X' := a\<rparr>) = frameOf' s"
  "frameOf' (s\<lparr>Y' := a\<rparr>) = frameOf' s" "frameOf' (s\<lparr>S' := a\<rparr>) = frameOf' s"
  "frameOf' (s\<lparr>PC' := a\<rparr>) = frameOf' s" "frameOf' (s\<lparr>C' := a\<rparr>) = frameOf' s"
  "frameOf' (s\<lparr>Z' := a\<rparr>) = frameOf' s" "frameOf' (s\<lparr>I' := a\<rparr>) = frameOf' s"
  "frameOf' (s\<lparr>D' := a\<rparr>) = frameOf' s" "frameOf' (s\<lparr>B' := a\<rparr>) = frameOf' s"
  "frameOf' (s\<lparr>V' := a\<rparr>) = frameOf' s" "frameOf' (s\<lparr>N' := a\<rparr>) = frameOf' s"
  "frameOf' (s\<lparr>cycles' := a\<rparr>) = frameOf' s" "frameOf' (s\<lparr>pageCrossed' := b\<rparr>) = frameOf' s"
  by (simp_all add: frameOf'_def)

lemma frame'_TAX: "keepsFrame' TAX'"
  by (simp add: keepsFrame'_def TAX'_def Let_def split_beta)

lemma frame'_TXA: "keepsFrame' TXA'"
  by (simp add: keepsFrame'_def TXA'_def Let_def split_beta)

lemma frame'_TAY: "keepsFrame' TAY'"
  by (simp add: keepsFrame'_def TAY'_def Let_def split_beta)

lemma frame'_TYA: "keepsFrame' TYA'"
  by (simp add: keepsFrame'_def TYA'_def Let_def split_beta)

lemma frame'_TSX: "keepsFrame' TSX'"
  by (simp add: keepsFrame'_def TSX'_def Let_def split_beta)

lemma frame'_TXS: "keepsFrame' TXS'"
  by (simp add: keepsFrame'_def TXS'_def Let_def split_beta)

lemma frame'_PHA: "keepsFrame' PHA'"
  by (simp add: keepsFrame'_def PHA'_def Let_def split_beta)

lemma frame'_PLA: "keepsFrame' PLA'"
  by (simp add: keepsFrame'_def PLA'_def Let_def split_beta)

lemma frame'_PHP: "keepsFrame' PHP'"
  by (simp add: keepsFrame'_def PHP'_def Let_def split_beta)

lemma frame'_PLP: "keepsFrame' PLP'"
  by (simp add: keepsFrame'_def PLP'_def Let_def split_beta)

lemma frame'_INX: "keepsFrame' INX'"
  by (simp add: keepsFrame'_def INX'_def Let_def split_beta)

lemma frame'_DEX: "keepsFrame' DEX'"
  by (simp add: keepsFrame'_def DEX'_def Let_def split_beta)

lemma frame'_INY: "keepsFrame' INY'"
  by (simp add: keepsFrame'_def INY'_def Let_def split_beta)

lemma frame'_DEY: "keepsFrame' DEY'"
  by (simp add: keepsFrame'_def DEY'_def Let_def split_beta)

lemma frame'_CLC: "keepsFrame' CLC'"
  by (simp add: keepsFrame'_def CLC'_def Let_def split_beta)

lemma frame'_SEC: "keepsFrame' SEC'"
  by (simp add: keepsFrame'_def SEC'_def Let_def split_beta)

lemma frame'_CLI: "keepsFrame' CLI'"
  by (simp add: keepsFrame'_def CLI'_def Let_def split_beta)

lemma frame'_SEI: "keepsFrame' SEI'"
  by (simp add: keepsFrame'_def SEI'_def Let_def split_beta)

lemma frame'_CLV: "keepsFrame' CLV'"
  by (simp add: keepsFrame'_def CLV'_def Let_def split_beta)

lemma frame'_CLD: "keepsFrame' CLD'"
  by (simp add: keepsFrame'_def CLD'_def Let_def split_beta)

lemma frame'_SED: "keepsFrame' SED'"
  by (simp add: keepsFrame'_def SED'_def Let_def split_beta)

lemma frame'_NOP: "keepsFrame' NOP'"
  by (simp add: keepsFrame'_def NOP'_def Let_def split_beta)

lemma frame'_RTS: "keepsFrame' RTS'"
  by (simp add: keepsFrame'_def RTS'_def Let_def split_beta)

lemma frame'_BRK: "keepsFrame' BRK'"
  by (simp add: keepsFrame'_def BRK'_def Let_def split_beta)

lemma frame'_RTI: "keepsFrame' RTI'"
  by (simp add: keepsFrame'_def RTI'_def Let_def split_beta)

lemma frame'_ASL_A: "keepsFrame' ASL_A'"
  by (simp add: keepsFrame'_def ASL_A'_def Let_def split_beta)

lemma frame'_LSR_A: "keepsFrame' LSR_A'"
  by (simp add: keepsFrame'_def LSR_A'_def Let_def split_beta)

lemma frame'_ROL_A: "keepsFrame' ROL_A'"
  by (simp add: keepsFrame'_def ROL_A'_def Let_def split_beta)

lemma frame'_ROR_A: "keepsFrame' ROR_A'"
  by (simp add: keepsFrame'_def ROR_A'_def Let_def split_beta)

lemma frame'_KIL: "keepsFrame' KIL'"
  by (simp add: keepsFrame'_def KIL'_def Let_def split_beta)

lemma frame'_LDA: "keepsFrame' (LDA' v)"
  by (simp add: keepsFrame'_def LDA'_def  branchTaken'_def Let_def split_beta)

lemma frame'_STA: "keepsFrame' (STA' v)"
  by (simp add: keepsFrame'_def STA'_def  branchTaken'_def Let_def split_beta)

lemma frame'_LDX: "keepsFrame' (LDX' v)"
  by (simp add: keepsFrame'_def LDX'_def  branchTaken'_def Let_def split_beta)

lemma frame'_STX: "keepsFrame' (STX' v)"
  by (simp add: keepsFrame'_def STX'_def  branchTaken'_def Let_def split_beta)

lemma frame'_LDY: "keepsFrame' (LDY' v)"
  by (simp add: keepsFrame'_def LDY'_def  branchTaken'_def Let_def split_beta)

lemma frame'_STY: "keepsFrame' (STY' v)"
  by (simp add: keepsFrame'_def STY'_def  branchTaken'_def Let_def split_beta)

lemma frame'_INC: "keepsFrame' (INC' v)"
  by (simp add: keepsFrame'_def INC'_def  branchTaken'_def Let_def split_beta)

lemma frame'_DEC: "keepsFrame' (DEC' v)"
  by (simp add: keepsFrame'_def DEC'_def  branchTaken'_def Let_def split_beta)

lemma frame'_JMP: "keepsFrame' (JMP' v)"
  by (simp add: keepsFrame'_def JMP'_def  branchTaken'_def Let_def split_beta)

lemma frame'_JSR: "keepsFrame' (JSR' v)"
  by (simp add: keepsFrame'_def JSR'_def  branchTaken'_def Let_def split_beta)

lemma frame'_BCC: "keepsFrame' (BCC' v)"
  by (simp add: keepsFrame'_def BCC'_def  branchTaken'_def Let_def split_beta)

lemma frame'_BCS: "keepsFrame' (BCS' v)"
  by (simp add: keepsFrame'_def BCS'_def  branchTaken'_def Let_def split_beta)

lemma frame'_BEQ: "keepsFrame' (BEQ' v)"
  by (simp add: keepsFrame'_def BEQ'_def  branchTaken'_def Let_def split_beta)

lemma frame'_BNE: "keepsFrame' (BNE' v)"
  by (simp add: keepsFrame'_def BNE'_def  branchTaken'_def Let_def split_beta)

lemma frame'_BPL: "keepsFrame' (BPL' v)"
  by (simp add: keepsFrame'_def BPL'_def  branchTaken'_def Let_def split_beta)

lemma frame'_BMI: "keepsFrame' (BMI' v)"
  by (simp add: keepsFrame'_def BMI'_def  branchTaken'_def Let_def split_beta)

lemma frame'_BVC: "keepsFrame' (BVC' v)"
  by (simp add: keepsFrame'_def BVC'_def  branchTaken'_def Let_def split_beta)

lemma frame'_BVS: "keepsFrame' (BVS' v)"
  by (simp add: keepsFrame'_def BVS'_def  branchTaken'_def Let_def split_beta)

lemma frame'_ADC: "keepsFrame' (ADC' v)"
  by (simp add: keepsFrame'_def ADC'_def  branchTaken'_def Let_def split_beta)

lemma frame'_SBC: "keepsFrame' (SBC' v)"
  by (simp add: keepsFrame'_def SBC'_def ADC'_def branchTaken'_def Let_def split_beta)

lemma frame'_AND_m: "keepsFrame' (AND_m' v)"
  by (simp add: keepsFrame'_def AND_m'_def  branchTaken'_def Let_def split_beta)

lemma frame'_ORA: "keepsFrame' (ORA' v)"
  by (simp add: keepsFrame'_def ORA'_def  branchTaken'_def Let_def split_beta)

lemma frame'_EOR: "keepsFrame' (EOR' v)"
  by (simp add: keepsFrame'_def EOR'_def  branchTaken'_def Let_def split_beta)

lemma frame'_CMP: "keepsFrame' (CMP' v)"
  by (simp add: keepsFrame'_def CMP'_def  branchTaken'_def Let_def split_beta)

lemma frame'_CPX: "keepsFrame' (CPX' v)"
  by (simp add: keepsFrame'_def CPX'_def  branchTaken'_def Let_def split_beta)

lemma frame'_CPY: "keepsFrame' (CPY' v)"
  by (simp add: keepsFrame'_def CPY'_def  branchTaken'_def Let_def split_beta)

lemma frame'_BIT: "keepsFrame' (BIT' v)"
  by (simp add: keepsFrame'_def BIT'_def  branchTaken'_def Let_def split_beta)

lemma frame'_ASL: "keepsFrame' (ASL' v)"
  by (simp add: keepsFrame'_def ASL'_def  branchTaken'_def Let_def split_beta)

lemma frame'_LSR: "keepsFrame' (LSR' v)"
  by (simp add: keepsFrame'_def LSR'_def  branchTaken'_def Let_def split_beta)

lemma frame'_ROL: "keepsFrame' (ROL' v)"
  by (simp add: keepsFrame'_def ROL'_def  branchTaken'_def Let_def split_beta)

lemma frame'_ROR: "keepsFrame' (ROR' v)"
  by (simp add: keepsFrame'_def ROR'_def  branchTaken'_def Let_def split_beta)

lemma frame'_LAX: "keepsFrame' (LAX' v)"
  by (simp add: keepsFrame'_def LAX'_def  branchTaken'_def Let_def split_beta)

lemma frame'_SAX: "keepsFrame' (SAX' v)"
  by (simp add: keepsFrame'_def SAX'_def  branchTaken'_def Let_def split_beta)

lemma frame'_DCP: "keepsFrame' (DCP' v)"
  by (simp add: keepsFrame'_def DCP'_def DEC'_def CMP'_def branchTaken'_def Let_def split_beta)

lemma frame'_ISC: "keepsFrame' (ISC' v)"
  by (simp add: keepsFrame'_def ISC'_def INC'_def SBC'_def ADC'_def branchTaken'_def Let_def split_beta)

lemma frame'_SLO: "keepsFrame' (SLO' v)"
  by (simp add: keepsFrame'_def SLO'_def ASL'_def ORA'_def branchTaken'_def Let_def split_beta)

lemma frame'_RLA: "keepsFrame' (RLA' v)"
  by (simp add: keepsFrame'_def RLA'_def ROL'_def AND_m'_def branchTaken'_def Let_def split_beta)

lemma frame'_SRE: "keepsFrame' (SRE' v)"
  by (simp add: keepsFrame'_def SRE'_def LSR'_def EOR'_def branchTaken'_def Let_def split_beta)

lemma frame'_RRA: "keepsFrame' (RRA' v)"
  by (simp add: keepsFrame'_def RRA'_def ROR'_def ADC'_def branchTaken'_def Let_def split_beta)

lemma onlyPC'_imm: "onlyPC' imm'"
  by (simp add: onlyPC'_def imm'_def Let_def split_beta)

lemma onlyPC'_zp: "onlyPC' zp'"
  by (simp add: onlyPC'_def zp'_def Let_def split_beta)

lemma onlyPC'_zpx: "onlyPC' zpx'"
  by (simp add: onlyPC'_def zpx'_def Let_def split_beta)

lemma onlyPC'_zpy: "onlyPC' zpy'"
  by (simp add: onlyPC'_def zpy'_def Let_def split_beta)

lemma onlyPC'_abs: "onlyPC' abs'"
  by (simp add: onlyPC'_def abs'_def Let_def split_beta)

lemma onlyPC'_absAddr: "onlyPC' absAddr'"
  by (simp add: onlyPC'_def absAddr'_def Let_def split_beta)

lemma onlyPC'_absXAddr: "onlyPC' absXAddr'"
  by (simp add: onlyPC'_def absXAddr'_def absAddr'_def Let_def split_beta)

lemma onlyPC'_absYAddr: "onlyPC' absYAddr'"
  by (simp add: onlyPC'_def absYAddr'_def absAddr'_def Let_def split_beta)

lemma onlyPC'_ind: "onlyPC' ind'"
  by (simp add: onlyPC'_def ind'_def Let_def split_beta)

lemma onlyPC'_indx: "onlyPC' indx'"
  by (simp add: onlyPC'_def indx'_def Let_def split_beta)

lemma onlyPC'_indy: "onlyPC' indy'"
  by (simp add: onlyPC'_def indy'_def Let_def split_beta)

lemma onlyPC'_rel: "onlyPC' rel'"
  by (simp add: onlyPC'_def rel'_def Let_def split_beta)

lemma onlyPC'_pcByte: "onlyPC' pcByte"
  by (simp add: onlyPC'_def pcByte_def Let_def)

lemma onlyPC'_pcByteMasked: "onlyPC' pcByteMasked"
  by (simp add: onlyPC'_def pcByteMasked_def Let_def)

lemma onlyPC'_pcByteX: "onlyPC' pcByteX"
  by (simp add: onlyPC'_def pcByteX_def Let_def)

lemma onlyPC'_pcByteY: "onlyPC' pcByteY"
  by (simp add: onlyPC'_def pcByteY_def Let_def)

lemma onlyPC'_frame:
  assumes "onlyPC' mode"
  shows "frameOf' (snd (mode s)) = frameOf' s" and "cycles' (snd (mode s)) = cycles' s"
proof -
  from assms have eq: "snd (mode s) = s\<lparr>PC' := PC' (snd (mode s)), pageCrossed' := pageCrossed' (snd (mode s))\<rparr>"
    by (simp add: onlyPC'_def)
  show "frameOf' (snd (mode s)) = frameOf' s"
    by (subst eq) simp
  show "cycles' (snd (mode s)) = cycles' s"
    by (subst eq) simp
qed

lemma frame'_after_mode:
  assumes "onlyPC' mode" and "keepsFrame' g"
  shows "frameOf' (g (snd (mode s))) = frameOf' s \<and> cycles' s \<le> cycles' (g (snd (mode s)))"
proof -
  from assms(2) have "frameOf' (g (snd (mode s))) = frameOf' (snd (mode s))"
    and "cycles' (snd (mode s)) \<le> cycles' (g (snd (mode s)))"
    by (simp_all add: keepsFrame'_def)
  with onlyPC'_frame [OF assms(1), of s] show ?thesis by simp
qed

lemma frame'_withArg:
  assumes "onlyPC' mode" and "\<And>v. keepsFrame' (oper v)"
  shows "keepsFrame' (withArg mode oper)"
  using frame'_after_mode [OF assms(1) assms(2)]
  by (simp add: keepsFrame'_def withArg_def split_beta)

lemma frame'_withReadArg:
  assumes "onlyPC' mode" and "\<And>v. keepsFrame' (oper v)"
  shows "keepsFrame' (withReadArg mode oper)"
  using frame'_after_mode [OF assms(1) assms(2)]
  by (simp add: keepsFrame'_def withReadArg_def split_beta)

lemma frame'_afterMode:
  assumes "onlyPC' mode" and "keepsFrame' oper"
  shows "keepsFrame' (afterMode mode oper)"
  using frame'_after_mode [OF assms(1) assms(2)]
  by (simp add: keepsFrame'_def afterMode_def split_beta)

lemma frame'_skipBytes:
  assumes "keepsFrame' oper"
  shows "keepsFrame' (skipBytes n oper)"
proof -
  have "frameOf' (oper (s\<lparr>PC' := PC' s + n\<rparr>)) = frameOf' s \<and>
        cycles' s \<le> cycles' (oper (s\<lparr>PC' := PC' s + n\<rparr>))" for s
    using assms [unfolded keepsFrame'_def, rule_format, of "s\<lparr>PC' := PC' s + n\<rparr>"] by simp
  then show ?thesis by (simp add: keepsFrame'_def skipBytes_def)
qed

lemmas frame'_ops = frame'_LDA frame'_STA frame'_LDX frame'_STX frame'_LDY frame'_STY frame'_INC frame'_DEC frame'_JMP frame'_JSR frame'_BCC frame'_BCS frame'_BEQ frame'_BNE frame'_BPL frame'_BMI frame'_BVC frame'_BVS frame'_ADC frame'_SBC frame'_AND_m frame'_ORA frame'_EOR frame'_CMP frame'_CPX frame'_CPY frame'_BIT frame'_ASL frame'_LSR frame'_ROL frame'_ROR frame'_LAX frame'_SAX frame'_DCP frame'_ISC frame'_SLO frame'_RLA frame'_SRE frame'_RRA frame'_TAX frame'_TXA frame'_TAY frame'_TYA frame'_TSX frame'_TXS frame'_PHA frame'_PLA frame'_PHP frame'_PLP frame'_INX frame'_DEX frame'_INY frame'_DEY frame'_CLC frame'_SEC frame'_CLI frame'_SEI frame'_CLV frame'_CLD frame'_SED frame'_NOP frame'_RTS frame'_BRK frame'_RTI frame'_ASL_A frame'_LSR_A frame'_ROL_A frame'_ROR_A frame'_KIL
lemmas onlyPC'_modes = onlyPC'_imm onlyPC'_zp onlyPC'_zpx onlyPC'_zpy onlyPC'_abs onlyPC'_absAddr onlyPC'_absXAddr onlyPC'_absYAddr onlyPC'_ind onlyPC'_indx onlyPC'_indy onlyPC'_rel onlyPC'_pcByte onlyPC'_pcByteMasked onlyPC'_pcByteX onlyPC'_pcByteY
lemmas frame'_shapes = frame'_withArg frame'_withReadArg frame'_afterMode frame'_skipBytes

lemma frame'_assigned: "\<forall>(k, f) \<in> set assigned'. keepsFrame' f"
  by (simp add: assigned'_def frame'_ops onlyPC'_modes frame'_shapes)

lemma frame'_instructionMap:
  assumes "instructionMap' i = Some f"
  shows "keepsFrame' f"
proof (cases "map_of assigned' i")
  case None
  with assms have "f = KIL'"
    by (simp add: instructionMap'_def split: if_splits)
  then show ?thesis by (simp add: frame'_KIL)
next
  case (Some g)
  with assms have "f = g"
    by (simp add: instructionMap'_def split: if_splits)
  moreover from Some have "(i, g) \<in> set assigned'"
    by (rule map_of_SomeD)
  ultimately show ?thesis using frame'_assigned by auto
qed

lemma step'_progress:
  "totalCycles' (step' s) = totalCycles' s + cycles' (step' s)"
  "2 \<le> cycles' (step' s)"
  "opcode' (step' s) = read' s (PC' s)"
  "memoryLength (step' s) = memoryLength s"
proof -
  define s3 where "s3 = s\<lparr>opcode' := read' s (PC' s), PC' := PC' s + 1, pageCrossed' := False,
     cycles' := baseCycles (read' s (PC' s))\<rparr>"
  define s4 where "s4 = (case instructionMap' (read' s (PC' s) AND 0xFF) of Some instr \<Rightarrow> instr s3 | None \<Rightarrow> s3)"
  define s5 where "s5 = (if pageCrossed' s4 \<and> needsPageCrossPenalty (opcode' s4)
                then s4\<lparr>cycles' := cycles' s4 + 1\<rparr> else s4)"
  have st: "step' s = s5\<lparr>totalCycles' := totalCycles' s5 + cycles' s5\<rparr>"
    by (cases "instructionMap' (read' s (PC' s) AND 0xFF)")
      (simp_all add: step'_def Let_def s5_def s4_def s3_def)
  have k: "frameOf' s4 = frameOf' s3 \<and> cycles' s3 \<le> cycles' s4"
  proof (cases "instructionMap' (read' s (PC' s) AND 0xFF)")
    case None
    then show ?thesis by (simp add: s4_def)
  next
    case (Some f)
    then have "keepsFrame' f" by (rule frame'_instructionMap)
    with Some show ?thesis by (simp add: keepsFrame'_def s4_def)
  qed
  have k5: "frameOf' s5 = frameOf' s3 \<and> cycles' s3 \<le> cycles' s5"
    using k by (simp add: s5_def)
  have c3: "cycles' s3 = baseCycles (read' s (PC' s))"
    "frameOf' s3 = frameOf' (s\<lparr>opcode' := read' s (PC' s)\<rparr>)"
    by (simp_all add: s3_def frameOf'_def)
  show "totalCycles' (step' s) = totalCycles' s + cycles' (step' s)"
    using k5 c3 by (simp add: st frameOf'_def)
  show "2 \<le> cycles' (step' s)"
    using k5 c3 baseCycles_ge2 [of "read' s (PC' s)"] by (simp add: st)
  show "opcode' (step' s) = read' s (PC' s)"
    using k5 c3 by (simp add: st frameOf'_def)
  show "memoryLength (step' s) = memoryLength s"
    using k5 c3 by (simp add: st frameOf'_def)
qed

termination runLoop'
proof (relation "measure (\<lambda>(start, target, s). nat (start + target - totalCycles' s))")
  show "wf (measure (\<lambda>(start, target, s). nat (start + target - totalCycles' s)))"
    by simp
next
  fix start target :: int and s :: mosecore
  assume lt: "totalCycles' s - start < target"
  from step'_progress(1,2) [of s] lt
  show "((start, target, step' s), (start, target, s))
      \<in> measure (\<lambda>(start, target, s). nat (start + target - totalCycles' s))"
    by simp
qed

end
